theory Spec2Isabelle
  imports Main "HOL-Library.AList" "HOL-Library.Sublist" "HOL-Library.List_Lexorder" "HOL-Library.Char_ord"
begin

section \<open>The migration engine of \<^verbatim>\<open>dashboard/migration_engine.py\<close>\<close>

text \<open>
  The engine keeps one directory per migration (\<^verbatim>\<open>manifest.json\<close>, \<^verbatim>\<open>features.json\<close>,
  \<^verbatim>\<open>migration-plan.json\<close>, \<^verbatim>\<open>seams.json\<close>, \<^verbatim>\<open>docs/\<close>, \<^verbatim>\<open>checkpoints/\<close>) and tags the
  target repository with git. The embedding is shallow: every method of
  \<^verbatim>\<open>MigrationPipeline\<close> is a HOL function over an explicit \<open>world\<close> (the directory and the
  repository); a raised exception is the \<open>Inl\<close> of a sum; a method that writes returns the
  world it leaves behind, also when it raises. Clock readings and the outcome of every
  action on the outside world that can fail for reasons the program does not control (a
  file write, a git command) are arguments. The pipeline's lock is not modelled: every
  method runs to completion on its own.
\<close>

subsection \<open>JSON values and the Python operations applied to them\<close>

text \<open>
  What \<^verbatim>\<open>json.loads\<close> returns. Numbers are restricted to integers; an object is the list
  of its items in insertion order, looked up with \<open>map_of\<close>.
\<close>

datatype json =
  JNull
  | JBool bool
  | JNum int
  | JStr string
  | JArr "json list"
  | JObj "(string \<times> json) list"

text \<open>
  The exceptions the engine raises or lets through. \<open>ValueError\<close> and \<open>RuntimeError\<close> carry
  what the source formats into their message rather than the formatted text.
  \<open>JSONDecodeError\<close> and \<open>TypeError\<close> carry \<^verbatim>\<open>str(exc)\<close>, which one gate copies into its
  reason; the wording of the interpreter's own messages is CPython's.
\<close>

datatype value_error =
  UnknownPhase string
  | InvalidStepId string

datatype runtime_error =
  PhaseGateFailed string
  | CannotStartPhase string json
  | CannotAdvancePhase string json
  | GitTagCreationFailed string
  | GitRollbackFailed string

datatype exn =
  ValueError value_error
  | RuntimeError runtime_error
  | FileNotFoundError
  | JSONDecodeError string
  | TypeError string
  | AttributeError
  | KeyError string
  | OSError

text \<open>A file that \<^verbatim>\<open>json.loads(path.read_text())\<close> is applied to: missing, present with
  text that is not JSON (with the decoder's message), or present with a JSON document.\<close>

datatype json_file = Absent | Garbage string | Doc json

fun read_json :: "json_file \<Rightarrow> exn + json" where
  "read_json Absent = Inl FileNotFoundError"
| "read_json (Garbage msg) = Inl (JSONDecodeError msg)"
| "read_json (Doc j) = Inr j"

fun py_type :: "json \<Rightarrow> string" where
  "py_type JNull = ''NoneType''"
| "py_type (JBool _) = ''bool''"
| "py_type (JNum _) = ''int''"
| "py_type (JStr _) = ''str''"
| "py_type (JArr _) = ''list''"
| "py_type (JObj _) = ''dict''"

text \<open>A text between apostrophes, as the interpreter's messages name a type.\<close>

definition quoted :: "string \<Rightarrow> string" where
  "quoted s = [CHR 0x27] @ s @ [CHR 0x27]"

text \<open>Truth value of a Python object (\<^verbatim>\<open>if x\<close>, \<^verbatim>\<open>not x\<close>).\<close>

fun truthy :: "json \<Rightarrow> bool" where
  "truthy JNull = False"
| "truthy (JBool b) = b"
| "truthy (JNum n) = (n \<noteq> 0)"
| "truthy (JStr s) = (s \<noteq> [])"
| "truthy (JArr xs) = (xs \<noteq> [])"
| "truthy (JObj kvs) = (kvs \<noteq> [])"

text \<open>\<^verbatim>\<open>x[k]\<close> for a string key \<open>k\<close>.\<close>

fun py_getitem :: "json \<Rightarrow> string \<Rightarrow> exn + json" where
  "py_getitem (JObj kvs) k = (case map_of kvs k of None \<Rightarrow> Inl (KeyError k) | Some v \<Rightarrow> Inr v)"
| "py_getitem (JArr xs) k = Inl (TypeError ''list indices must be integers or slices, not str'')"
| "py_getitem (JStr s) k = Inl (TypeError (''string indices must be integers, not '' @ quoted ''str''))"
| "py_getitem x k = Inl (TypeError (quoted (py_type x) @ '' object is not subscriptable''))"

text \<open>\<^verbatim>\<open>x[k] = v\<close> for a string key \<open>k\<close>; the result is \<open>x\<close> after the assignment.\<close>

fun py_setitem :: "json \<Rightarrow> string \<Rightarrow> json \<Rightarrow> exn + json" where
  "py_setitem (JObj kvs) k v = Inr (JObj (AList.update k v kvs))"
| "py_setitem (JArr xs) k v = Inl (TypeError ''list indices must be integers or slices, not str'')"
| "py_setitem x k v = Inl (TypeError (quoted (py_type x) @ '' object does not support item assignment''))"

text \<open>\<^verbatim>\<open>x.get(k, d)\<close>: only a dict has the method.\<close>

fun py_get :: "json \<Rightarrow> string \<Rightarrow> json \<Rightarrow> exn + json" where
  "py_get (JObj kvs) k d = Inr (case map_of kvs k of None \<Rightarrow> d | Some v \<Rightarrow> v)"
| "py_get x k d = Inl AttributeError"

text \<open>\<^verbatim>\<open>k in x\<close> for a string \<open>k\<close>: key of a dict, element of a list, substring of a string.\<close>

fun py_contains :: "string \<Rightarrow> json \<Rightarrow> exn + bool" where
  "py_contains k (JObj kvs) = Inr (k \<in> set (map fst kvs))"
| "py_contains k (JArr xs) = Inr (JStr k \<in> set xs)"
| "py_contains k (JStr s) = Inr (sublist k s)"
| "py_contains k x = Inl (TypeError (''argument of type '' @ quoted (py_type x) @ '' is not iterable''))"

text \<open>The items \<^verbatim>\<open>for f in x\<close> runs through: the elements of a list, the keys of a
  dict, the characters of a string.\<close>

fun py_iter :: "json \<Rightarrow> exn + json list" where
  "py_iter (JArr xs) = Inr xs"
| "py_iter (JObj kvs) = Inr (map (\<lambda>kv. JStr (fst kv)) kvs)"
| "py_iter (JStr s) = Inr (map (\<lambda>c. JStr [c]) s)"
| "py_iter x = Inl (TypeError (quoted (py_type x) @ '' object is not iterable''))"

text \<open>\<^verbatim>\<open>len(x)\<close>.\<close>

fun py_len :: "json \<Rightarrow> exn + nat" where
  "py_len (JArr xs) = Inr (length xs)"
| "py_len (JObj kvs) = Inr (length kvs)"
| "py_len (JStr s) = Inr (length s)"
| "py_len x = Inl (TypeError (''object of type '' @ quoted (py_type x) @ '' has no len()''))"

text \<open>A list comprehension whose element expression can raise: the first exception ends it.\<close>

fun comprehension :: "('a \<Rightarrow> exn + 'b) \<Rightarrow> 'a list \<Rightarrow> exn + 'b list" where
  "comprehension f [] = Inr []"
| "comprehension f (x # xs) =
     (case f x of
        Inl e \<Rightarrow> Inl e
      | Inr y \<Rightarrow> (case comprehension f xs of Inl e \<Rightarrow> Inl e | Inr ys \<Rightarrow> Inr (y # ys)))"

text \<open>A keyword argument of a dataclass constructor: the item's value, or the field's
  default when the dict has no such key.\<close>

definition kwarg :: "(string \<times> json) list \<Rightarrow> string \<Rightarrow> json \<Rightarrow> json" where
  "kwarg kvs k d = (case map_of kvs k of None \<Rightarrow> d | Some v \<Rightarrow> v)"

text \<open>\<^verbatim>\<open>str(n)\<close> for a natural number, as an f-string formats \<^verbatim>\<open>len(...)\<close>.\<close>

definition digit_char :: "nat \<Rightarrow> char" where
  "digit_char d = ''0123456789'' ! d"

function string_of_nat :: "nat \<Rightarrow> string" where
  "string_of_nat n =
     (if n < 10 then [digit_char n] else string_of_nat (n div 10) @ [digit_char (n mod 10)])"
  by pat_completeness auto
termination
  by (relation "measure id") auto

declare string_of_nat.simps [simp del]

text \<open>\<^verbatim>\<open>sep.join(items)\<close>: every item must be a \<^verbatim>\<open>str\<close>.\<close>

fun join_from :: "nat \<Rightarrow> string \<Rightarrow> json list \<Rightarrow> exn + string" where
  "join_from i sep [] = Inr []"
| "join_from i sep (JStr s # rest) =
     (case join_from (Suc i) sep rest of
        Inl e \<Rightarrow> Inl e
      | Inr t \<Rightarrow> Inr (if rest = [] then s else s @ sep @ t))"
| "join_from i sep (x # rest) = Inl (TypeError (''sequence item '' @ string_of_nat i @ '': expected str instance, '' @ py_type x @ '' found''))"

definition join :: "string \<Rightarrow> json list \<Rightarrow> exn + string" where
  "join sep items = join_from 0 sep items"

text \<open>\<^verbatim>\<open>s.split(sep)\<close> for a separator of one character.\<close>

fun split_acc :: "char \<Rightarrow> string \<Rightarrow> string \<Rightarrow> string list" where
  "split_acc sep cur [] = [rev cur]"
| "split_acc sep cur (c # cs) =
     (if c = sep then rev cur # split_acc sep [] cs else split_acc sep (c # cur) cs)"

definition split :: "char \<Rightarrow> string \<Rightarrow> string list" where
  "split sep s = split_acc sep [] s"

subsection \<open>The data classes\<close>

text \<open>
  A dataclass checks no types: a field holds whatever JSON value the document gave it.
  The constructors below are \<^verbatim>\<open>Feature(**{k: v for k, v in f.items() if k in fields})\<close> and
  its siblings: unknown keys are dropped, a missing key takes the field's default, a
  missing \<^verbatim>\<open>id\<close> (the one field without a default) is a \<open>TypeError\<close>, and an item that is
  not a dict has no \<^verbatim>\<open>items\<close> method.
\<close>

record Feature =
  f_id :: json
  f_category :: json
  f_description :: json
  f_verification_steps :: json
  f_passes :: json
  f_characterization_test :: json
  f_risk :: json
  f_notes :: json

record MigrationStep =
  s_id :: json
  s_description :: json
  s_type :: json
  s_files :: json
  s_tests_required :: json
  s_estimated_tokens :: json
  s_risk :: json
  s_rollback_point :: json
  s_depends_on :: json
  s_assigned_agent :: json
  s_status :: json

record MigrationPlan =
  p_version :: json
  p_strategy :: json
  p_constraints :: json
  p_steps :: "MigrationStep list"
  p_rollback_strategy :: json
  p_exit_criteria :: json

record PhaseResult =
  r_phase :: string
  r_status :: string
  r_artifacts :: "string list"
  r_started_at :: string
  r_completed_at :: string
  r_error :: string

record MigrationManifest =
  m_id :: json
  m_created_at :: json
  m_source_info :: json
  m_target_info :: json
  m_phases :: json
  m_feature_list_path :: json
  m_migration_plan_path :: json
  m_checkpoints :: json

definition missing_id :: "string \<Rightarrow> exn" where
  "missing_id cls =
     TypeError (cls @ ''.__init__() missing 1 required positional argument: '' @ quoted ''id'')"

fun Feature_of :: "json \<Rightarrow> exn + Feature" where
  "Feature_of (JObj kvs) =
     (case map_of kvs ''id'' of
        None \<Rightarrow> Inl (missing_id ''Feature'')
      | Some i \<Rightarrow> Inr \<lparr>
          f_id = i,
          f_category = kwarg kvs ''category'' (JStr []),
          f_description = kwarg kvs ''description'' (JStr []),
          f_verification_steps = kwarg kvs ''verification_steps'' (JArr []),
          f_passes = kwarg kvs ''passes'' (JBool False),
          f_characterization_test = kwarg kvs ''characterization_test'' (JStr []),
          f_risk = kwarg kvs ''risk'' (JStr ''low''),
          f_notes = kwarg kvs ''notes'' (JStr []) \<rparr>)"
| "Feature_of x = Inl AttributeError"

fun MigrationStep_of :: "json \<Rightarrow> exn + MigrationStep" where
  "MigrationStep_of (JObj kvs) =
     (case map_of kvs ''id'' of
        None \<Rightarrow> Inl (missing_id ''MigrationStep'')
      | Some i \<Rightarrow> Inr \<lparr>
          s_id = i,
          s_description = kwarg kvs ''description'' (JStr []),
          s_type = kwarg kvs ''type'' (JStr []),
          s_files = kwarg kvs ''files'' (JArr []),
          s_tests_required = kwarg kvs ''tests_required'' (JArr []),
          s_estimated_tokens = kwarg kvs ''estimated_tokens'' (JNum 0),
          s_risk = kwarg kvs ''risk'' (JStr ''low''),
          s_rollback_point = kwarg kvs ''rollback_point'' (JBool False),
          s_depends_on = kwarg kvs ''depends_on'' (JArr []),
          s_assigned_agent = kwarg kvs ''assigned_agent'' (JStr []),
          s_status = kwarg kvs ''status'' (JStr ''pending'') \<rparr>)"
| "MigrationStep_of x = Inl AttributeError"

text \<open>\<^verbatim>\<open>asdict(manifest)\<close>, the document \<^verbatim>\<open>_save_manifest_unlocked\<close> writes.\<close>

definition asdict_manifest :: "MigrationManifest \<Rightarrow> json" where
  "asdict_manifest m = JObj [
     (''id'', m_id m),
     (''created_at'', m_created_at m),
     (''source_info'', m_source_info m),
     (''target_info'', m_target_info m),
     (''phases'', m_phases m),
     (''feature_list_path'', m_feature_list_path m),
     (''migration_plan_path'', m_migration_plan_path m),
     (''checkpoints'', m_checkpoints m)]"

subsection \<open>The world: one migration directory and the target repository\<close>

text \<open>
  \<open>docs_dir\<close> is \<open>None\<close> when \<^verbatim>\<open>docs/\<close> does not exist, else its entries.
  \<open>checkpoint_files step_id\<close> is \<^verbatim>\<open>checkpoints/<step_id>.json\<close>. \<open>git_tags\<close> maps every tag
  of the target repository to the commit it names, and \<open>git_head\<close> is the commit checked out.
\<close>

record world =
  manifest_file :: json_file
  features_file :: json_file
  plan_file :: json_file
  seams_exists :: bool
  docs_dir :: "string list option"
  checkpoint_files :: "string \<Rightarrow> json_file"
  git_tags :: "string \<rightharpoonup> nat"
  git_head :: nat

text \<open>What a pipeline object holds (\<^verbatim>\<open>self.migration_id\<close>, ...).\<close>

record pipeline =
  migration_id :: string
  migration_dir :: string
  codebase_path :: string
  target :: string
  options :: "(string \<times> json) list"

subsection \<open>Manifest store\<close>

text \<open>\<^verbatim>\<open>_atomic_write\<close> replaces the file or, on an \<^verbatim>\<open>OSError\<close>, leaves it as it was and
  raises; \<open>write_ok\<close> says which. The temporary file is not modelled.\<close>

definition load_manifest_unlocked :: "world \<Rightarrow> exn + MigrationManifest" where
  "load_manifest_unlocked w =
     (case read_json (manifest_file w) of
        Inl e \<Rightarrow> Inl e
      | Inr data \<Rightarrow>
          (case data of
             JObj kvs \<Rightarrow> Inr \<lparr>
               m_id = kwarg kvs ''id'' (JStr []),
               m_created_at = kwarg kvs ''created_at'' (JStr []),
               m_source_info = kwarg kvs ''source_info'' (JObj []),
               m_target_info = kwarg kvs ''target_info'' (JObj []),
               m_phases = kwarg kvs ''phases'' (JObj []),
               m_feature_list_path = kwarg kvs ''feature_list_path'' (JStr []),
               m_migration_plan_path = kwarg kvs ''migration_plan_path'' (JStr []),
               m_checkpoints = kwarg kvs ''checkpoints'' (JArr []) \<rparr>
           | _ \<Rightarrow> Inl AttributeError))"

definition save_manifest_unlocked :: "bool \<Rightarrow> world \<Rightarrow> MigrationManifest \<Rightarrow> (exn + unit) \<times> world" where
  "save_manifest_unlocked write_ok w manifest =
     (if write_ok then (Inr (), w\<lparr>manifest_file := Doc (asdict_manifest manifest)\<rparr>)
      else (Inl OSError, w))"

definition load_manifest :: "world \<Rightarrow> exn + MigrationManifest" where
  "load_manifest w = load_manifest_unlocked w"

definition save_manifest :: "bool \<Rightarrow> world \<Rightarrow> MigrationManifest \<Rightarrow> (exn + unit) \<times> world" where
  "save_manifest write_ok w manifest = save_manifest_unlocked write_ok w manifest"

definition PHASE_ORDER :: "string list" where
  "PHASE_ORDER = [''understand'', ''guardrail'', ''migrate'', ''verify'']"

text \<open>\<^verbatim>\<open>create_manifest\<close> reads the clock twice: for \<^verbatim>\<open>created_at\<close> and for the start of
  \<^verbatim>\<open>understand\<close>.\<close>

definition initial_phase :: "string \<Rightarrow> string \<Rightarrow> json" where
  "initial_phase started phase = JObj [
     (''status'', JStr (if phase = ''understand'' then ''in_progress'' else ''pending'')),
     (''started_at'', JStr (if phase = ''understand'' then started else [])),
     (''completed_at'', JStr [])]"

definition create_manifest ::
  "pipeline \<Rightarrow> bool \<Rightarrow> string \<Rightarrow> string \<Rightarrow> world \<Rightarrow> (exn + MigrationManifest) \<times> world" where
  "create_manifest self write_ok created started w =
     (let manifest = \<lparr>
            m_id = JStr (migration_id self),
            m_created_at = JStr created,
            m_source_info = JObj [
              (''path'', JStr (codebase_path self)),
              (''type'', kwarg (options self) ''source_type'' (JStr ''unknown''))],
            m_target_info = JObj [
              (''target'', JStr (target self)),
              (''options'', JObj (options self))],
            m_phases = JObj (map (\<lambda>phase. (phase, initial_phase started phase)) PHASE_ORDER),
            m_feature_list_path = JStr (migration_dir self @ ''/features.json''),
            m_migration_plan_path = JStr (migration_dir self @ ''/migration-plan.json''),
            m_checkpoints = JArr [] \<rparr>
      in case save_manifest write_ok w manifest of
           (Inl e, w') \<Rightarrow> (Inl e, w')
         | (Inr _, w') \<Rightarrow> (Inr manifest, w'))"

subsection \<open>Artifact repositories\<close>

text \<open>
  \<^verbatim>\<open>load_features\<close> and \<^verbatim>\<open>load_plan\<close> log and re-raise whatever reading and conversion
  raise. \<open>features_of_json\<close> is the conversion (a bare array, or an object wrapping it under
  \<^verbatim>\<open>features\<close>), \<open>plan_of_json\<close> the one of the plan; the same statements stand inline in
  \<^verbatim>\<open>_check_phase_gate_unlocked\<close>.
\<close>

definition features_of_json :: "json \<Rightarrow> exn + Feature list" where
  "features_of_json data =
     (let data' = (case data of JObj kvs \<Rightarrow> kwarg kvs ''features'' (JArr []) | _ \<Rightarrow> data)
      in case py_iter data' of
           Inl e \<Rightarrow> Inl e
         | Inr items \<Rightarrow> comprehension Feature_of items)"

definition load_features :: "world \<Rightarrow> exn + Feature list" where
  "load_features w =
     (case read_json (features_file w) of
        Inl e \<Rightarrow> Inl e
      | Inr data \<Rightarrow> features_of_json data)"

definition plan_of_json :: "json \<Rightarrow> exn + MigrationPlan" where
  "plan_of_json data =
     (case data of
        JObj kvs \<Rightarrow>
          (case py_iter (kwarg kvs ''steps'' (JArr [])) of
             Inl e \<Rightarrow> Inl e
           | Inr items \<Rightarrow>
               (case comprehension MigrationStep_of items of
                  Inl e \<Rightarrow> Inl e
                | Inr steps \<Rightarrow> Inr \<lparr>
                    p_version = kwarg kvs ''version'' (JNum 1),
                    p_strategy = kwarg kvs ''strategy'' (JStr ''incremental''),
                    p_constraints = kwarg kvs ''constraints'' (JArr []),
                    p_steps = steps,
                    p_rollback_strategy = kwarg kvs ''rollback_strategy'' (JStr ''checkpoint''),
                    p_exit_criteria = kwarg kvs ''exit_criteria'' (JObj []) \<rparr>))
      | _ \<Rightarrow> Inl AttributeError)"

definition load_plan :: "world \<Rightarrow> exn + MigrationPlan" where
  "load_plan w =
     (case read_json (plan_file w) of
        Inl e \<Rightarrow> Inl e
      | Inr data \<Rightarrow> plan_of_json data)"

subsection \<open>Phase gates\<close>

fun index_of :: "'a list \<Rightarrow> 'a \<Rightarrow> nat option" where
  "index_of [] x = None"
| "index_of (y # ys) x = (if x = y then Some 0 else map_option Suc (index_of ys x))"

text \<open>\<^verbatim>\<open>PHASE_ORDER[phase_idx + 1] if phase_idx + 1 < len(PHASE_ORDER) else None\<close>.\<close>

definition next_phase_of :: "string \<Rightarrow> string option" where
  "next_phase_of phase =
     (case index_of PHASE_ORDER phase of
        None \<Rightarrow> None
      | Some i \<Rightarrow> (if i + 1 < length PHASE_ORDER then Some (PHASE_ORDER ! (i + 1)) else None))"

text \<open>The three rules. Each is written once here where both gate functions hold the same
  statements: the rule on \<^verbatim>\<open>docs/\<close> and \<^verbatim>\<open>seams.json\<close>, and the verdicts on a loaded feature
  list and a loaded plan.\<close>

definition docs_and_seams_gate :: "world \<Rightarrow> bool \<times> string" where
  "docs_and_seams_gate w =
     (let has_docs = (case docs_dir w of None \<Rightarrow> False | Some entries \<Rightarrow> entries \<noteq> [])
      in if \<not> has_docs then (False, ''Phase gate failed: no documentation generated in docs/'')
         else if \<not> seams_exists w then (False, ''Phase gate failed: seams.json does not exist'')
         else (True, ''Gate passed: docs generated and seams.json exists''))"

definition features_verdict :: "Feature list \<Rightarrow> exn + bool \<times> string" where
  "features_verdict features =
     (if features = [] then Inr (False, ''No features defined'')
      else
        let failing = filter (\<lambda>f. \<not> truthy (f_passes f)) features
        in if failing \<noteq> [] then
             (case join '', '' (map f_id (take 5 failing)) of
                Inl e \<Rightarrow> Inl e
              | Inr ids \<Rightarrow>
                  Inr (False, ''Phase gate failed: '' @ string_of_nat (length failing)
                        @ '' characterization tests not passing ('' @ ids @ '')''))
           else Inr (True, ''Gate passed: all characterization tests pass''))"

definition plan_verdict :: "MigrationPlan \<Rightarrow> exn + bool \<times> string" where
  "plan_verdict plan =
     (let incomplete = filter (\<lambda>s. s_status s \<noteq> JStr ''completed'') (p_steps plan)
      in if incomplete \<noteq> [] then
           (case join '', '' (map s_id (take 5 incomplete)) of
              Inl e \<Rightarrow> Inl e
            | Inr ids \<Rightarrow>
                Inr (False, ''Phase gate failed: '' @ string_of_nat (length incomplete)
                      @ '' steps not completed ('' @ ids @ '')''))
         else Inr (True, ''Gate passed: all migration steps completed''))"

text \<open>\<^verbatim>\<open>_check_phase_gate_unlocked\<close>: reads and converts inline, and turns
  \<^verbatim>\<open>FileNotFoundError\<close>, \<^verbatim>\<open>JSONDecodeError\<close> and \<^verbatim>\<open>TypeError\<close> into a refusal.\<close>

definition check_phase_gate_unlocked :: "world \<Rightarrow> string \<Rightarrow> string \<Rightarrow> exn + bool \<times> string" where
  "check_phase_gate_unlocked w from_phase to_phase =
     (if \<not> (from_phase \<in> set PHASE_ORDER \<and> to_phase \<in> set PHASE_ORDER) then
        Inr (False, ''Unknown phase: '' @ from_phase @ '' or '' @ to_phase)
      else if index_of PHASE_ORDER to_phase \<noteq> map_option Suc (index_of PHASE_ORDER from_phase) then
        Inr (False, ''Cannot jump from '' @ from_phase @ '' to '' @ to_phase)
      else if from_phase = ''understand'' \<and> to_phase = ''guardrail'' then
        Inr (docs_and_seams_gate w)
      else if from_phase = ''guardrail'' \<and> to_phase = ''migrate'' then
        (case (case read_json (features_file w) of
                 Inl e \<Rightarrow> Inl e
               | Inr data \<Rightarrow> features_of_json data) of
           Inl FileNotFoundError \<Rightarrow> Inr (False, ''Phase gate failed: features.json not found'')
         | Inl (JSONDecodeError msg) \<Rightarrow>
             Inr (False, ''Phase gate failed: features.json is invalid: '' @ msg)
         | Inl (TypeError msg) \<Rightarrow>
             Inr (False, ''Phase gate failed: features.json is invalid: '' @ msg)
         | Inl e \<Rightarrow> Inl e
         | Inr features \<Rightarrow> features_verdict features)
      else if from_phase = ''migrate'' \<and> to_phase = ''verify'' then
        (case (case read_json (plan_file w) of
                 Inl e \<Rightarrow> Inl e
               | Inr data \<Rightarrow> plan_of_json data) of
           Inl FileNotFoundError \<Rightarrow> Inr (False, ''Phase gate failed: migration-plan.json not found'')
         | Inl (JSONDecodeError msg) \<Rightarrow>
             Inr (False, ''Phase gate failed: migration-plan.json is invalid: '' @ msg)
         | Inl (TypeError msg) \<Rightarrow>
             Inr (False, ''Phase gate failed: migration-plan.json is invalid: '' @ msg)
         | Inl e \<Rightarrow> Inl e
         | Inr plan \<Rightarrow> plan_verdict plan)
      else Inr (True, ''Gate passed''))"

text \<open>\<^verbatim>\<open>check_phase_gate\<close>: calls \<^verbatim>\<open>load_features\<close> and \<^verbatim>\<open>load_plan\<close>, and catches
  \<^verbatim>\<open>FileNotFoundError\<close> only.\<close>

definition check_phase_gate :: "world \<Rightarrow> string \<Rightarrow> string \<Rightarrow> exn + bool \<times> string" where
  "check_phase_gate w from_phase to_phase =
     (if \<not> (from_phase \<in> set PHASE_ORDER \<and> to_phase \<in> set PHASE_ORDER) then
        Inr (False, ''Unknown phase: '' @ from_phase @ '' or '' @ to_phase)
      else if index_of PHASE_ORDER to_phase \<noteq> map_option Suc (index_of PHASE_ORDER from_phase) then
        Inr (False, ''Cannot jump from '' @ from_phase @ '' to '' @ to_phase)
      else if from_phase = ''understand'' \<and> to_phase = ''guardrail'' then
        Inr (docs_and_seams_gate w)
      else if from_phase = ''guardrail'' \<and> to_phase = ''migrate'' then
        (case load_features w of
           Inl FileNotFoundError \<Rightarrow> Inr (False, ''Phase gate failed: features.json not found'')
         | Inl e \<Rightarrow> Inl e
         | Inr features \<Rightarrow> features_verdict features)
      else if from_phase = ''migrate'' \<and> to_phase = ''verify'' then
        (case load_plan w of
           Inl FileNotFoundError \<Rightarrow> Inr (False, ''Phase gate failed: migration-plan.json not found'')
         | Inl e \<Rightarrow> Inl e
         | Inr plan \<Rightarrow> plan_verdict plan)
      else Inr (True, ''Gate passed''))"

subsection \<open>Phase state machine\<close>

text \<open>\<^verbatim>\<open>manifest.phases[phase][key] = value\<close>: the inner dict is changed in place, so the
  phases hold the changed dict afterwards.\<close>

definition set_phase_field :: "json \<Rightarrow> string \<Rightarrow> string \<Rightarrow> json \<Rightarrow> exn + json" where
  "set_phase_field phases phase key v =
     (case py_getitem phases phase of
        Inl e \<Rightarrow> Inl e
      | Inr entry \<Rightarrow>
          (case py_setitem entry key v of
             Inl e \<Rightarrow> Inl e
           | Inr entry' \<Rightarrow> py_setitem phases phase entry'))"

definition get_phase_status :: "world \<Rightarrow> string \<Rightarrow> exn + json" where
  "get_phase_status w phase =
     (if phase \<in> set PHASE_ORDER then
        (case load_manifest w of
           Inl e \<Rightarrow> Inl e
         | Inr manifest \<Rightarrow>
             (case py_get (m_phases manifest) phase (JObj []) of
                Inl e \<Rightarrow> Inl e
              | Inr phase_data \<Rightarrow> py_get phase_data ''status'' (JStr ''pending'')))
      else Inl (ValueError (UnknownPhase phase)))"

definition start_phase :: "bool \<Rightarrow> string \<Rightarrow> world \<Rightarrow> string \<Rightarrow> (exn + unit) \<times> world" where
  "start_phase write_ok now w phase =
     (if phase \<in> set PHASE_ORDER then
        (case load_manifest_unlocked w of
           Inl e \<Rightarrow> (Inl e, w)
         | Inr manifest \<Rightarrow>
             (case py_getitem (m_phases manifest) phase of
                Inl e \<Rightarrow> (Inl e, w)
              | Inr entry \<Rightarrow>
                  (case py_getitem entry ''status'' of
                     Inl e \<Rightarrow> (Inl e, w)
                   | Inr current_status \<Rightarrow>
                       if current_status = JStr ''in_progress'' then (Inr (), w)
                       else if current_status \<noteq> JStr ''pending'' then
                         (Inl (RuntimeError (CannotStartPhase phase current_status)), w)
                       else
                         (case set_phase_field (m_phases manifest) phase ''status''
                                 (JStr ''in_progress'') of
                            Inl e \<Rightarrow> (Inl e, w)
                          | Inr phases1 \<Rightarrow>
                              (case set_phase_field phases1 phase ''started_at'' (JStr now) of
                                 Inl e \<Rightarrow> (Inl e, w)
                               | Inr phases2 \<Rightarrow>
                                   save_manifest_unlocked write_ok w
                                     (manifest\<lparr>m_phases := phases2\<rparr>))))))
      else (Inl (ValueError (UnknownPhase phase)), w))"

text \<open>The statements of \<^verbatim>\<open>advance_phase\<close> between loading and saving the manifest, on the
  phases it holds: check that the phase is in progress, mark it completed, start the next.\<close>

definition advance_phases :: "json \<Rightarrow> string \<Rightarrow> string \<Rightarrow> string option \<Rightarrow> exn + json" where
  "advance_phases phases now phase next_phase =
     (case py_contains phase phases of
        Inl e \<Rightarrow> Inl e
      | Inr present \<Rightarrow>
          (case (if present then
                   (case py_getitem phases phase of
                      Inl e \<Rightarrow> Inl e
                    | Inr entry \<Rightarrow>
                        (case py_get entry ''status'' (JStr ''pending'') of
                           Inl e \<Rightarrow> Inl e
                         | Inr current_status \<Rightarrow>
                             if current_status \<noteq> JStr ''in_progress'' then
                               Inl (RuntimeError (CannotAdvancePhase phase current_status))
                             else
                               (case set_phase_field phases phase ''status'' (JStr ''completed'') of
                                  Inl e \<Rightarrow> Inl e
                                | Inr phases1 \<Rightarrow>
                                    set_phase_field phases1 phase ''completed_at'' (JStr now))))
                 else Inr phases) of
             Inl e \<Rightarrow> Inl e
           | Inr phases2 \<Rightarrow>
               (case next_phase of
                  None \<Rightarrow> Inr phases2
                | Some nxt \<Rightarrow>
                    (case set_phase_field phases2 nxt ''status'' (JStr ''in_progress'') of
                       Inl e \<Rightarrow> Inl e
                     | Inr phases3 \<Rightarrow> set_phase_field phases3 nxt ''started_at'' (JStr now)))))"

text \<open>The gate \<^verbatim>\<open>advance_phase\<close> enforces first, when there is a next phase.\<close>

definition enforce_gate :: "world \<Rightarrow> string \<Rightarrow> string option \<Rightarrow> exn + unit" where
  "enforce_gate w phase next_phase =
     (case next_phase of
        None \<Rightarrow> Inr ()
      | Some nxt \<Rightarrow>
          (case check_phase_gate_unlocked w phase nxt of
             Inl e \<Rightarrow> Inl e
           | Inr (allowed, reason) \<Rightarrow>
               if allowed then Inr () else Inl (RuntimeError (PhaseGateFailed reason))))"

definition advance_phase :: "bool \<Rightarrow> string \<Rightarrow> world \<Rightarrow> string \<Rightarrow> (exn + PhaseResult) \<times> world" where
  "advance_phase write_ok now w phase =
     (if phase \<in> set PHASE_ORDER then
        (let next_phase = next_phase_of phase
         in case enforce_gate w phase next_phase of
              Inl e \<Rightarrow> (Inl e, w)
            | Inr _ \<Rightarrow>
                (case load_manifest_unlocked w of
                   Inl e \<Rightarrow> (Inl e, w)
                 | Inr manifest \<Rightarrow>
                     (case advance_phases (m_phases manifest) now phase next_phase of
                        Inl e \<Rightarrow> (Inl e, w)
                      | Inr phases' \<Rightarrow>
                          (case save_manifest_unlocked write_ok w
                                  (manifest\<lparr>m_phases := phases'\<rparr>) of
                             (Inl e, w') \<Rightarrow> (Inl e, w')
                           | (Inr _, w') \<Rightarrow>
                               (Inr \<lparr> r_phase = phase, r_status = ''completed'',
                                      r_artifacts = [], r_started_at = [],
                                      r_completed_at = now, r_error = [] \<rparr>, w')))))
      else (Inl (ValueError (UnknownPhase phase)), w))"

subsection \<open>Checkpoint manager\<close>

text \<open>
  \<^verbatim>\<open>re.match(r'^[a-zA-Z0-9_-]+$', step_id)\<close>: one or more characters of the class, up to
  the end of the string or to a line feed that ends it (\<^verbatim>\<open>$\<close> matches before a final
  line feed).
\<close>

definition safe_char :: "char \<Rightarrow> bool" where
  "safe_char c =
     (c \<in> set ''abcdefghijklmnopqrstuvwxyzABCDEFGHIJKLMNOPQRSTUVWXYZ0123456789_-'')"

definition valid_step_id :: "string \<Rightarrow> bool" where
  "valid_step_id step_id =
     (let body = (if step_id \<noteq> [] \<and> last step_id = CHR 0x0A then butlast step_id else step_id)
      in body \<noteq> [] \<and> list_all safe_char body)"

definition tag_name_of :: "string \<Rightarrow> string" where
  "tag_name_of step_id = ''loki-migrate/'' @ step_id @ ''/pre''"

text \<open>
  The three git commands, run in the target repository with \<^verbatim>\<open>check=True\<close>. A command
  exits non-zero (\<open>Inl\<close> of its stderr) when what it is asked is impossible (the tag to
  create exists, the tag to delete or to reset to does not), or when \<open>fault\<close> is the stderr
  of a failure from outside (an unwritable or locked repository, no repository at all).
\<close>

definition git_tag :: "string option \<Rightarrow> world \<Rightarrow> string \<Rightarrow> (string + unit) \<times> world" where
  "git_tag fault w name =
     (case fault of
        Some stderr \<Rightarrow> (Inl stderr, w)
      | None \<Rightarrow>
          (case git_tags w name of
             Some _ \<Rightarrow> (Inl (''fatal: tag '' @ quoted name @ '' already exists''), w)
           | None \<Rightarrow> (Inr (), w\<lparr>git_tags := (git_tags w)(name \<mapsto> git_head w)\<rparr>)))"

definition git_tag_delete :: "string option \<Rightarrow> world \<Rightarrow> string \<Rightarrow> (string + unit) \<times> world" where
  "git_tag_delete fault w name =
     (case fault of
        Some stderr \<Rightarrow> (Inl stderr, w)
      | None \<Rightarrow>
          (case git_tags w name of
             None \<Rightarrow> (Inl (''error: tag '' @ quoted name @ '' not found.''), w)
           | Some _ \<Rightarrow> (Inr (), w\<lparr>git_tags := (git_tags w)(name := None)\<rparr>)))"

definition git_reset_hard :: "string option \<Rightarrow> world \<Rightarrow> string \<Rightarrow> (string + unit) \<times> world" where
  "git_reset_hard fault w name =
     (case fault of
        Some stderr \<Rightarrow> (Inl stderr, w)
      | None \<Rightarrow>
          (case git_tags w name of
             None \<Rightarrow> (Inl (''fatal: ambiguous argument '' @ quoted name), w)
           | Some commit \<Rightarrow> (Inr (), w\<lparr>git_head := commit\<rparr>)))"

text \<open>\<^verbatim>\<open>checkpoints.append(v)\<close>: only a list has the method.\<close>

fun py_append :: "json \<Rightarrow> json \<Rightarrow> exn + json" where
  "py_append (JArr xs) v = Inr (JArr (xs @ [v]))"
| "py_append x v = Inl AttributeError"

text \<open>What happens outside the program during one \<^verbatim>\<open>create_checkpoint\<close>: the outside
  failure of \<^verbatim>\<open>git tag\<close> and of \<^verbatim>\<open>git tag -d\<close> if any, and whether the write of the
  manifest and of the metadata file go through.\<close>

record checkpoint_env =
  tag_fault :: "string option"
  manifest_write_ok :: bool
  delete_fault :: "string option"
  meta_write_ok :: bool

text \<open>The block of \<^verbatim>\<open>create_checkpoint\<close> under the lock: load the manifest, append the
  tag, save.\<close>

definition record_checkpoint :: "bool \<Rightarrow> world \<Rightarrow> string \<Rightarrow> (exn + unit) \<times> world" where
  "record_checkpoint write_ok w tag_name =
     (case load_manifest_unlocked w of
        Inl e \<Rightarrow> (Inl e, w)
      | Inr manifest \<Rightarrow>
          (case py_append (m_checkpoints manifest) (JStr tag_name) of
             Inl e \<Rightarrow> (Inl e, w)
           | Inr checkpoints' \<Rightarrow>
               save_manifest_unlocked write_ok w (manifest\<lparr>m_checkpoints := checkpoints'\<rparr>)))"

definition checkpoint_meta :: "string \<Rightarrow> string \<Rightarrow> string \<Rightarrow> json" where
  "checkpoint_meta step_id tag_name now =
     JObj [(''step_id'', JStr step_id), (''tag'', JStr tag_name), (''created_at'', JStr now)]"

definition create_checkpoint ::
  "checkpoint_env \<Rightarrow> string \<Rightarrow> world \<Rightarrow> string \<Rightarrow> (exn + string) \<times> world" where
  "create_checkpoint env now w step_id =
     (if valid_step_id step_id then
        (let tag_name = tag_name_of step_id
         in case git_tag (tag_fault env) w tag_name of
              (Inl stderr, w1) \<Rightarrow> (Inl (RuntimeError (GitTagCreationFailed stderr)), w1)
            | (Inr _, w1) \<Rightarrow>
                (case record_checkpoint (manifest_write_ok env) w1 tag_name of
                   (Inl e, w2) \<Rightarrow> (Inl e, snd (git_tag_delete (delete_fault env) w2 tag_name))
                 | (Inr _, w2) \<Rightarrow>
                     if meta_write_ok env then
                       (Inr tag_name,
                        w2\<lparr>checkpoint_files := (checkpoint_files w2)
                              (step_id := Doc (checkpoint_meta step_id tag_name now))\<rparr>)
                     else (Inl OSError, w2)))
      else (Inl (ValueError (InvalidStepId step_id)), w))"

definition rollback_to_checkpoint :: "string option \<Rightarrow> world \<Rightarrow> string \<Rightarrow> (exn + unit) \<times> world" where
  "rollback_to_checkpoint fault w step_id =
     (if valid_step_id step_id then
        (case git_reset_hard fault w (tag_name_of step_id) of
           (Inl stderr, w') \<Rightarrow> (Inl (RuntimeError (GitRollbackFailed stderr)), w')
         | (Inr _, w') \<Rightarrow> (Inr (), w'))
      else (Inl (ValueError (InvalidStepId step_id)), w))"

subsection \<open>Progress reporter\<close>

record progress =
  g_migration_id :: string
  g_status :: string
  g_current_phase :: string
  g_phases :: json
  g_completed_phases :: "string list"
  g_source :: json
  g_target :: json
  g_current_step :: "json option"
  g_features_passing :: nat
  g_features_total :: nat
  g_steps_current :: nat
  g_steps_completed :: nat
  g_steps_total :: nat
  g_last_checkpoint :: "(json \<times> json \<times> json) option"
  g_checkpoints_count :: nat

text \<open>The loop over \<^verbatim>\<open>PHASE_ORDER\<close>; the accumulator is
  \<open>(current_phase, overall_status, completed_phases)\<close>, and \<^verbatim>\<open>break\<close> returns it.\<close>

fun phase_scan ::
  "json \<Rightarrow> string list \<Rightarrow> string \<times> string \<times> string list \<Rightarrow> exn + string \<times> string \<times> string list" where
  "phase_scan phases [] acc = Inr acc"
| "phase_scan phases (phase # rest) (current_phase, overall_status, completed_phases) =
     (case py_get phases phase (JObj []) of
        Inl e \<Rightarrow> Inl e
      | Inr entry \<Rightarrow>
          (case py_get entry ''status'' (JStr ''pending'') of
             Inl e \<Rightarrow> Inl e
           | Inr status \<Rightarrow>
               if status = JStr ''in_progress'' then
                 Inr (phase, ''in_progress'', completed_phases)
               else if status = JStr ''completed'' then
                 phase_scan phases rest (phase, ''completed'', completed_phases @ [phase])
               else phase_scan phases rest (current_phase, overall_status, completed_phases)))"

text \<open>Feature counts \<open>(total, passing)\<close>; the three exceptions the source names leave
  them at zero.\<close>

definition feature_stats :: "world \<Rightarrow> exn + nat \<times> nat" where
  "feature_stats w =
     (case load_features w of
        Inr features \<Rightarrow>
          Inr (length features, length (filter (\<lambda>f. truthy (f_passes f)) features))
      | Inl FileNotFoundError \<Rightarrow> Inr (0, 0)
      | Inl (JSONDecodeError msg) \<Rightarrow> Inr (0, 0)
      | Inl (TypeError msg) \<Rightarrow> Inr (0, 0)
      | Inl e \<Rightarrow> Inl e)"

text \<open>Step counts \<open>(total, completed, current_step, current_step_index)\<close>.\<close>

definition step_stats :: "world \<Rightarrow> exn + nat \<times> nat \<times> json option \<times> nat" where
  "step_stats w =
     (case load_plan w of
        Inr plan \<Rightarrow>
          (let steps_total = length (p_steps plan);
               steps_completed = length (filter (\<lambda>s. s_status s = JStr ''completed'') (p_steps plan));
               in_progress = filter (\<lambda>s. s_status s = JStr ''in_progress'') (p_steps plan);
               current_step = (case in_progress of [] \<Rightarrow> None | s # _ \<Rightarrow> Some (s_id s));
               current_step_index =
                 (if steps_total \<noteq> 0 then min (steps_completed + 1) steps_total else 0)
           in Inr (steps_total, steps_completed, current_step, current_step_index))
      | Inl FileNotFoundError \<Rightarrow> Inr (0, 0, None, 0)
      | Inl (JSONDecodeError msg) \<Rightarrow> Inr (0, 0, None, 0)
      | Inl (TypeError msg) \<Rightarrow> Inr (0, 0, None, 0)
      | Inl e \<Rightarrow> Inl e)"

text \<open>\<^verbatim>\<open>x[-1]\<close> of a value that is true.\<close>

fun py_last :: "json \<Rightarrow> exn + json" where
  "py_last (JArr xs) = Inr (last xs)"
| "py_last (JStr s) = Inr (JStr [last s])"
| "py_last (JObj kvs) = Inl (KeyError ''-1'')"
| "py_last x = Inl (TypeError (quoted (py_type x) @ '' object is not subscriptable''))"

text \<open>
  \<^verbatim>\<open>json.loads(meta_path.read_text(encoding="utf-8"))\<close> for
  \<^verbatim>\<open>checkpoints/<step_id>.json\<close>. The file of the world is read unless the read fails for a
  reason other than the file not being there: \<open>read_fault step_id\<close> is then the exception
  \<^verbatim>\<open>read_text\<close> raises, an \<open>OSError\<close> when the file name is longer than the file system
  allows, when the path is a directory or when it may not be read.
\<close>

definition read_checkpoint_meta :: "(string \<Rightarrow> exn option) \<Rightarrow> world \<Rightarrow> string \<Rightarrow> exn + json" where
  "read_checkpoint_meta read_fault w step_id =
     (case read_fault step_id of
        Some e \<Rightarrow> Inl e
      | None \<Rightarrow> read_json (checkpoint_files w step_id))"

text \<open>The last checkpoint \<open>(tag, step_id, timestamp)\<close>: read from the metadata file of the
  step the last tag names; a file that is missing or is not JSON gives the tag alone, and
  any other exception of the read is not caught.\<close>

definition last_checkpoint ::
  "(string \<Rightarrow> exn option) \<Rightarrow> world \<Rightarrow> MigrationManifest \<Rightarrow> exn + (json \<times> json \<times> json) option" where
  "last_checkpoint read_fault w manifest =
     (if truthy (m_checkpoints manifest) then
        (case py_last (m_checkpoints manifest) of
           Inl e \<Rightarrow> Inl e
         | Inr last_tag \<Rightarrow>
             (case last_tag of
                JStr t \<Rightarrow>
                  (let parts = split CHR ''/'' t
                   in if length parts \<ge> 2 then
                        (let cp_step_id = parts ! 1
                         in case read_checkpoint_meta read_fault w cp_step_id of
                              Inl FileNotFoundError \<Rightarrow> Inr (Some (last_tag, JStr [], JStr []))
                            | Inl (JSONDecodeError msg) \<Rightarrow> Inr (Some (last_tag, JStr [], JStr []))
                            | Inl e \<Rightarrow> Inl e
                            | Inr meta \<Rightarrow>
                                (case meta of
                                   JObj kvs \<Rightarrow>
                                     Inr (Some (kwarg kvs ''tag'' last_tag,
                                                kwarg kvs ''step_id'' (JStr cp_step_id),
                                                kwarg kvs ''created_at'' (JStr [])))
                                 | _ \<Rightarrow> Inl AttributeError))
                      else Inr None)
              | _ \<Rightarrow> Inl AttributeError))
      else Inr None)"

definition get_progress :: "pipeline \<Rightarrow> (string \<Rightarrow> exn option) \<Rightarrow> world \<Rightarrow> exn + progress" where
  "get_progress self read_fault w =
     (case load_manifest w of
        Inl e \<Rightarrow> Inl e
      | Inr manifest \<Rightarrow>
     (case phase_scan (m_phases manifest) PHASE_ORDER (''pending'', ''pending'', []) of
        Inl e \<Rightarrow> Inl e
      | Inr (current_phase, overall_status, completed_phases) \<Rightarrow>
     (case feature_stats w of
        Inl e \<Rightarrow> Inl e
      | Inr (features_total, features_passing) \<Rightarrow>
     (case step_stats w of
        Inl e \<Rightarrow> Inl e
      | Inr (steps_total, steps_completed, current_step, current_step_index) \<Rightarrow>
     (case last_checkpoint read_fault w manifest of
        Inl e \<Rightarrow> Inl e
      | Inr last_checkpoint_data \<Rightarrow>
     (case py_len (m_checkpoints manifest) of
        Inl e \<Rightarrow> Inl e
      | Inr checkpoints_count \<Rightarrow>
          Inr \<lparr> g_migration_id = migration_id self,
                g_status = overall_status,
                g_current_phase = current_phase,
                g_phases = m_phases manifest,
                g_completed_phases = completed_phases,
                g_source = m_source_info manifest,
                g_target = m_target_info manifest,
                g_current_step = current_step,
                g_features_passing = features_passing,
                g_features_total = features_total,
                g_steps_current = current_step_index,
                g_steps_completed = steps_completed,
                g_steps_total = steps_total,
                g_last_checkpoint = last_checkpoint_data,
                g_checkpoints_count = checkpoints_count \<rparr>))))))"

subsection \<open>Migration registry\<close>

text \<open>An entry of the migrations root: something that is not a directory, or a directory
  with its \<^verbatim>\<open>manifest.json\<close>.\<close>

datatype dir_entry = NotADirectory | Directory json_file

record migration_info =
  i_id :: json
  i_created_at :: json
  i_source :: json
  i_source_path :: json
  i_target :: json
  i_status :: string

text \<open>The loop of \<^verbatim>\<open>list_migrations\<close> over the phases (status only).\<close>

fun status_scan :: "json \<Rightarrow> string list \<Rightarrow> string \<Rightarrow> exn + string" where
  "status_scan phases [] status = Inr status"
| "status_scan phases (phase # rest) status =
     (case py_get phases phase (JObj []) of
        Inl e \<Rightarrow> Inl e
      | Inr entry \<Rightarrow>
          (case py_get entry ''status'' (JStr ''pending'') of
             Inl e \<Rightarrow> Inl e
           | Inr phase_status \<Rightarrow>
               if phase_status = JStr ''in_progress'' then Inr ''in_progress''
               else if phase_status = JStr ''completed'' then status_scan phases rest ''completed''
               else status_scan phases rest status))"

text \<open>The body of the \<^verbatim>\<open>try\<close> for one directory \<open>name\<close> with manifest \<open>f\<close>.\<close>

definition migration_entry :: "string \<Rightarrow> json_file \<Rightarrow> exn + migration_info" where
  "migration_entry name f =
     (case read_json f of
        Inl e \<Rightarrow> Inl e
      | Inr data \<Rightarrow>
     (case py_get data ''phases'' (JObj []) of
        Inl e \<Rightarrow> Inl e
      | Inr phases \<Rightarrow>
     (case status_scan phases PHASE_ORDER ''pending'' of
        Inl e \<Rightarrow> Inl e
      | Inr status \<Rightarrow>
     (case py_get data ''source_info'' (JObj []) of
        Inl e \<Rightarrow> Inl e
      | Inr source_info \<Rightarrow>
     (case py_get data ''id'' (JStr name) of
        Inl e \<Rightarrow> Inl e
      | Inr ident \<Rightarrow>
     (case py_get data ''created_at'' (JStr []) of
        Inl e \<Rightarrow> Inl e
      | Inr created_at \<Rightarrow>
     (case py_get source_info ''path'' (JStr []) of
        Inl e \<Rightarrow> Inl e
      | Inr source_path \<Rightarrow>
     (case py_get data ''target_info'' (JObj []) of
        Inl e \<Rightarrow> Inl e
      | Inr target_info \<Rightarrow>
     (case py_get target_info ''target'' (JStr []) of
        Inl e \<Rightarrow> Inl e
      | Inr target_name \<Rightarrow>
          Inr \<lparr> i_id = ident, i_created_at = created_at, i_source = source_info,
                i_source_path = source_path, i_target = target_name, i_status = status \<rparr>)))))))))"

text \<open>The loop over the sorted entries. The accumulator holds the results so far and the
  names of the directories skipped with a warning; an exception the \<^verbatim>\<open>except\<close> clause does
  not name ends the listing.\<close>

fun scan_entries ::
  "(string \<times> dir_entry) list \<Rightarrow> migration_info list \<times> string list
     \<Rightarrow> exn + migration_info list \<times> string list" where
  "scan_entries [] acc = Inr acc"
| "scan_entries ((name, NotADirectory) # rest) acc = scan_entries rest acc"
| "scan_entries ((name, Directory Absent) # rest) acc = scan_entries rest acc"
| "scan_entries ((name, Directory f) # rest) (results, warnings) =
     (case migration_entry name f of
        Inr info \<Rightarrow> scan_entries rest (results @ [info], warnings)
      | Inl (JSONDecodeError msg) \<Rightarrow> scan_entries rest (results, warnings @ [name])
      | Inl OSError \<Rightarrow> scan_entries rest (results, warnings @ [name])
      | Inl e \<Rightarrow> Inl e)"

text \<open>\<open>root\<close> is \<open>None\<close> when the migrations directory does not exist, else its entries by
  name.\<close>

definition list_migrations ::
  "(string \<times> dir_entry) list option \<Rightarrow> exn + migration_info list \<times> string list" where
  "list_migrations root =
     (case root of
        None \<Rightarrow> Inr ([], [])
      | Some entries \<Rightarrow> scan_entries (sort_key fst entries) ([], []))"

section \<open>Notions the properties are stated with\<close>

subsection \<open>Manifests in canonical form\<close>

text \<open>The entry of one phase as \<^verbatim>\<open>create_manifest\<close> writes it and the state machine
  updates it, and the \<^verbatim>\<open>phases\<close> object with its four entries.\<close>

definition phase_doc :: "string \<Rightarrow> string \<Rightarrow> string \<Rightarrow> json" where
  "phase_doc status started completed =
     JObj [(''status'', JStr status), (''started_at'', JStr started), (''completed_at'', JStr completed)]"

definition phases_doc :: "json \<Rightarrow> json \<Rightarrow> json \<Rightarrow> json \<Rightarrow> json" where
  "phases_doc u g m v = JObj [(''understand'', u), (''guardrail'', g), (''migrate'', m), (''verify'', v)]"

text \<open>The statuses when the first \<open>k\<close> phases are completed and the next one is in
  progress: \<open>status_at k i\<close> is the status of the phase at index \<open>i\<close> of \<^verbatim>\<open>PHASE_ORDER\<close>.\<close>

definition status_at :: "nat \<Rightarrow> nat \<Rightarrow> string" where
  "status_at k i = (if i < k then ''completed'' else if i = k then ''in_progress'' else ''pending'')"

definition in_order :: "nat \<Rightarrow> json \<Rightarrow> bool" where
  "in_order k phases =
     (\<exists>s0 c0 s1 c1 s2 c2 s3 c3.
        phases = phases_doc (phase_doc (status_at k 0) s0 c0) (phase_doc (status_at k 1) s1 c1)
                   (phase_doc (status_at k 2) s2 c2) (phase_doc (status_at k 3) s3 c3))"

definition manifest_in_order :: "world \<Rightarrow> bool" where
  "manifest_in_order w = (\<exists>m k. k \<le> 4 \<and> load_manifest_unlocked w = Inr m \<and> in_order k (m_phases m))"

subsection \<open>Phases in progress, and what calls in order can reach\<close>

definition in_progress_phases :: "world \<Rightarrow> string list" where
  "in_progress_phases w =
     filter (\<lambda>p. get_phase_status w p = Inr (JStr ''in_progress'')) PHASE_ORDER"

definition first_non_completed :: "world \<Rightarrow> string option" where
  "first_non_completed w =
     find (\<lambda>p. get_phase_status w p \<noteq> Inr (JStr ''completed'')) PHASE_ORDER"

text \<open>
  The worlds reached from \<^verbatim>\<open>create_manifest\<close> by \<^verbatim>\<open>advance_phase\<close> on any phase and by
  \<^verbatim>\<open>start_phase\<close> on a phase that is not pending, each with any clock reading and any
  outcome of its write, failed calls included. Between two calls everything but the
  manifest may change (the artifacts the gates read are written by other agents).
\<close>

inductive reachable_in_order :: "world \<Rightarrow> bool" where
  created: "create_manifest self write_ok created started w = (Inr m, w') \<Longrightarrow> reachable_in_order w'"
| advanced: "reachable_in_order w \<Longrightarrow> advance_phase write_ok now w phase = (r, w')
     \<Longrightarrow> reachable_in_order w'"
| started: "reachable_in_order w \<Longrightarrow> get_phase_status w phase \<noteq> Inr (JStr ''pending'')
     \<Longrightarrow> start_phase write_ok now w phase = (r', w') \<Longrightarrow> reachable_in_order w'"
| artifacts: "reachable_in_order w \<Longrightarrow> manifest_file w' = manifest_file w \<Longrightarrow> reachable_in_order w'"

subsection \<open>Phases that are a dict of dicts\<close>

text \<open>The shape the annotation \<^verbatim>\<open>dict[str, dict[str, Any]]\<close> of \<^verbatim>\<open>MigrationManifest.phases\<close>
  promises: an object whose values are objects. Which keys it has is left open.\<close>

fun is_dict :: "json \<Rightarrow> bool" where
  "is_dict (JObj kvs) = True"
| "is_dict x = False"

definition dict_of_dicts :: "json \<Rightarrow> bool" where
  "dict_of_dicts x = (case x of JObj kvs \<Rightarrow> list_all (\<lambda>kv. is_dict (snd kv)) kvs | _ \<Rightarrow> False)"

text \<open>What \<^verbatim>\<open>advance_phase\<close> makes of the entry of the phase it completes and of the entry
  of the phase it starts, and its test on the entry of the phase: no entry, or an entry
  whose status is \<^verbatim>\<open>in_progress\<close>.\<close>

definition completed_entry :: "string \<Rightarrow> (string \<times> json) list \<Rightarrow> json" where
  "completed_entry now e =
     JObj (AList.update ''completed_at'' (JStr now) (AList.update ''status'' (JStr ''completed'') e))"

definition started_entry :: "string \<Rightarrow> (string \<times> json) list \<Rightarrow> json" where
  "started_entry now e =
     JObj (AList.update ''started_at'' (JStr now) (AList.update ''status'' (JStr ''in_progress'') e))"

definition entry_allows :: "(string \<times> json) list \<Rightarrow> string \<Rightarrow> bool" where
  "entry_allows kvs phase =
     (case map_of kvs phase of
        None \<Rightarrow> True
      | Some d \<Rightarrow> (case d of JObj e \<Rightarrow> kwarg e ''status'' (JStr ''pending'') = JStr ''in_progress''
                   | _ \<Rightarrow> False))"

subsection \<open>Checkpoints on record, and what checkpoint operations can reach\<close>

text \<open>The checkpoint list of the manifest on disk (empty when the manifest does not load
  or the field is not a list).\<close>

definition persisted_checkpoints :: "world \<Rightarrow> json list" where
  "persisted_checkpoints w =
     (case load_manifest_unlocked w of
        Inl e \<Rightarrow> []
      | Inr m \<Rightarrow> (case m_checkpoints m of JArr xs \<Rightarrow> xs | _ \<Rightarrow> []))"

text \<open>
  The worlds reached from a manifest with an empty checkpoint list by \<^verbatim>\<open>create_checkpoint\<close>
  and \<^verbatim>\<open>rollback_to_checkpoint\<close> calls, each with any step id, any clock reading and any
  outcome of its git commands and writes, failed calls included. With \<open>strict\<close>, no call
  meets a failing write of the metadata file.
\<close>

inductive checkpoint_reachable :: "bool \<Rightarrow> world \<Rightarrow> bool" for strict :: bool where
  fresh: "load_manifest_unlocked w = Inr m \<Longrightarrow> m_checkpoints m = JArr []
     \<Longrightarrow> checkpoint_reachable strict w"
| created: "checkpoint_reachable strict w \<Longrightarrow> (strict \<longrightarrow> meta_write_ok env)
     \<Longrightarrow> create_checkpoint env now w step_id = (r, w') \<Longrightarrow> checkpoint_reachable strict w'"
| rolled_back: "checkpoint_reachable strict w \<Longrightarrow> rollback_to_checkpoint fault w step_id = (r', w')
     \<Longrightarrow> checkpoint_reachable strict w'"

text \<open>The checkpoint list holds distinct tags of valid step ids that exist in the
  repository and, with \<open>strict\<close>, each has its metadata file.\<close>

definition checkpoints_consistent :: "bool \<Rightarrow> world \<Rightarrow> bool" where
  "checkpoints_consistent strict w =
     (\<exists>m tags. load_manifest_unlocked w = Inr m \<and> m_checkpoints m = JArr (map JStr tags)
        \<and> distinct tags
        \<and> (\<forall>t \<in> set tags. git_tags w t \<noteq> None
              \<and> (\<exists>step_id. valid_step_id step_id \<and> t = tag_name_of step_id
                    \<and> (strict \<longrightarrow> (\<exists>now. checkpoint_files w step_id
                                        = Doc (checkpoint_meta step_id t now))))))"

subsection \<open>Manifests as the pipeline writes them\<close>

fun is_str :: "json \<Rightarrow> bool" where
  "is_str (JStr s) = True"
| "is_str x = False"

text \<open>The phases of the manifest are a dict of dicts and its checkpoints a list of
  strings, as \<^verbatim>\<open>create_manifest\<close>, the phase operations and \<^verbatim>\<open>create_checkpoint\<close> leave
  them.\<close>

definition typed_manifest :: "MigrationManifest \<Rightarrow> bool" where
  "typed_manifest m =
     (dict_of_dicts (m_phases m)
      \<and> (case m_checkpoints m of JArr xs \<Rightarrow> list_all is_str xs | _ \<Rightarrow> False))"

text \<open>The step id \<^verbatim>\<open>get_progress\<close> reads out of the last checkpoint tag
  (\<^verbatim>\<open>last_tag.split("/")[1]\<close>), whose metadata file it then opens.\<close>

definition last_checkpoint_step :: "MigrationManifest \<Rightarrow> string option" where
  "last_checkpoint_step m =
     (case m_checkpoints m of
        JArr xs \<Rightarrow>
          (if xs = [] then None
           else (case last xs of
                   JStr t \<Rightarrow>
                     (let parts = split CHR ''/'' t
                      in if length parts \<ge> 2 then Some (parts ! 1) else None)
                 | _ \<Rightarrow> None))
      | _ \<Rightarrow> None)"

section \<open>Concrete worlds\<close>

text \<open>A migration directory with nothing in it and a repository without tags.\<close>

definition blank_world :: world where
  "blank_world = \<lparr>
     manifest_file = Absent, features_file = Absent, plan_file = Absent,
     seams_exists = False, docs_dir = None, checkpoint_files = (\<lambda>step_id. Absent),
     git_tags = Map.empty, git_head = 0 \<rparr>"

definition demo_pipeline :: pipeline where
  "demo_pipeline = \<lparr>
     migration_id = ''mig_20260223_143052_proj'',
     migration_dir = ''/home/dev/.loki/migrations/mig_20260223_143052_proj'',
     codebase_path = ''/tmp/proj'',
     target = ''rust'',
     options = [] \<rparr>"

text \<open>The world right after \<^verbatim>\<open>create_manifest\<close> in the blank directory.\<close>

definition fresh_world :: world where
  "fresh_world =
     snd (create_manifest demo_pipeline True ''2026-02-23T14:30:52+00:00''
            ''2026-02-23T14:30:52+00:00'' blank_world)"

text \<open>Scenario B of the specification: \<^verbatim>\<open>features.json\<close> is \<^verbatim>\<open>[{"id":"f1","passes":false}]\<close>.\<close>

definition scenario_b_world :: world where
  "scenario_b_world = blank_world\<lparr>features_file :=
     Doc (JArr [JObj [(''id'', JStr ''f1''), (''passes'', JBool False)]])\<rparr>"

text \<open>\<^verbatim>\<open>features.json\<close> and \<^verbatim>\<open>migration-plan.json\<close> exist and are empty files: the decoder
  rejects them.\<close>

definition not_json_world :: world where
  "not_json_world = blank_world\<lparr>
     features_file := Garbage ''Expecting value: line 1 column 1 (char 0)'',
     plan_file := Garbage ''Expecting value: line 1 column 1 (char 0)''\<rparr>"

text \<open>\<^verbatim>\<open>features.json\<close> is \<^verbatim>\<open>{"features": null}\<close>: valid JSON of the wrong shape.\<close>

definition null_features_world :: world where
  "null_features_world = blank_world\<lparr>features_file := Doc (JObj [(''features'', JNull)])\<rparr>"

text \<open>A manifest as the registry reads it, and two migrations roots: in the first the
  second directory holds a \<^verbatim>\<open>manifest.json\<close> that is not JSON, in the second one that is
  the JSON array \<^verbatim>\<open>[]\<close>.\<close>

definition listed_manifest :: json where
  "listed_manifest = JObj [
     (''id'', JStr ''mig_20260101_000000_app''),
     (''created_at'', JStr ''2026-01-01T00:00:00+00:00''),
     (''source_info'', JObj [(''path'', JStr ''/tmp/app'')]),
     (''target_info'', JObj [(''target'', JStr ''rust'')]),
     (''phases'', JObj [
        (''understand'', JObj [(''status'', JStr ''completed'')]),
        (''guardrail'', JObj [(''status'', JStr ''in_progress'')])])]"

definition root_with_garbage :: "(string \<times> dir_entry) list option" where
  "root_with_garbage = Some [
     (''mig_20260102_000000_web'', Directory (Garbage ''Expecting value: line 1 column 1 (char 0)'')),
     (''mig_20260101_000000_app'', Directory (Doc listed_manifest))]"

definition root_with_array :: "(string \<times> dir_entry) list option" where
  "root_with_array = Some [
     (''mig_20260102_000000_web'', Directory (Doc (JArr []))),
     (''mig_20260101_000000_app'', Directory (Doc listed_manifest))]"

text \<open>The manifest of the demo pipeline with the given \<^verbatim>\<open>phases\<close>, and a world that holds
  it in which the gates out of \<^verbatim>\<open>understand\<close> and \<^verbatim>\<open>guardrail\<close> pass: \<^verbatim>\<open>docs/\<close> has a file,
  \<^verbatim>\<open>seams.json\<close> exists and the one feature passes.\<close>

definition demo_manifest :: "json \<Rightarrow> MigrationManifest" where
  "demo_manifest phases = \<lparr>
     m_id = JStr ''mig_20260223_143052_proj'',
     m_created_at = JStr ''2026-02-23T14:30:52'',
     m_source_info = JObj [(''path'', JStr ''/tmp/proj''), (''type'', JStr ''unknown'')],
     m_target_info = JObj [(''target'', JStr ''rust''), (''options'', JObj [])],
     m_phases = phases,
     m_feature_list_path =
       JStr ''/home/dev/.loki/migrations/mig_20260223_143052_proj/features.json'',
     m_migration_plan_path =
       JStr ''/home/dev/.loki/migrations/mig_20260223_143052_proj/migration-plan.json'',
     m_checkpoints = JArr [] \<rparr>"

definition demo_world :: "json \<Rightarrow> world" where
  "demo_world phases = \<lparr>
     manifest_file = Doc (asdict_manifest (demo_manifest phases)),
     features_file = Doc (JArr [JObj [(''id'', JStr ''f1''), (''passes'', JBool True)]]),
     plan_file = Absent,
     seams_exists = True,
     docs_dir = Some [''architecture.md''],
     checkpoint_files = (\<lambda>step_id. Absent),
     git_tags = Map.empty,
     git_head = 0 \<rparr>"

definition pending_doc :: json where
  "pending_doc = phase_doc ''pending'' [] []"

text \<open>The phases \<^verbatim>\<open>create_manifest\<close> writes.\<close>

definition created_phases :: json where
  "created_phases = phases_doc (phase_doc ''in_progress'' ''2026-02-23T14:30:52'' [])
                      pending_doc pending_doc pending_doc"

text \<open>What happens around a \<^verbatim>\<open>create_checkpoint\<close>: nothing fails; the disk is full when the
  manifest is saved; the same and \<^verbatim>\<open>git tag -d\<close> fails as well; the metadata file cannot
  be written.\<close>

definition healthy_env :: checkpoint_env where
  "healthy_env = \<lparr> tag_fault = None, manifest_write_ok = True,
     delete_fault = None, meta_write_ok = True \<rparr>"

definition failing_save_env :: checkpoint_env where
  "failing_save_env = \<lparr> tag_fault = None, manifest_write_ok = False,
     delete_fault = None, meta_write_ok = True \<rparr>"

definition failing_delete_env :: checkpoint_env where
  "failing_delete_env = \<lparr> tag_fault = None, manifest_write_ok = False,
     delete_fault = Some ''error: cannot lock ref'', meta_write_ok = True \<rparr>"

definition failing_meta_env :: checkpoint_env where
  "failing_meta_env = \<lparr> tag_fault = None, manifest_write_ok = True,
     delete_fault = None, meta_write_ok = False \<rparr>"

text \<open>The demo world after the tag of step \<^verbatim>\<open>s1\<close> was created and recorded in the manifest,
  and the same with the metadata file of \<^verbatim>\<open>s1\<close> written.\<close>

definition recorded_world :: world where
  "recorded_world = (demo_world created_phases)\<lparr>
     git_tags := [tag_name_of ''s1'' \<mapsto> 0],
     manifest_file := Doc (asdict_manifest
       ((demo_manifest created_phases)\<lparr>m_checkpoints := JArr [JStr (tag_name_of ''s1'')]\<rparr>))\<rparr>"

definition checkpointed_world :: world where
  "checkpointed_world = recorded_world\<lparr>checkpoint_files :=
     (\<lambda>step_id. Absent)(''s1'' :=
        Doc (checkpoint_meta ''s1'' (tag_name_of ''s1'') ''2026-02-24T09:00:00''))\<rparr>"

text \<open>The manifest of \<open>recorded_world\<close>, and that world without \<^verbatim>\<open>features.json\<close>: no
  features, no plan, one checkpoint on record and no metadata file for it.\<close>

definition recorded_manifest :: MigrationManifest where
  "recorded_manifest =
     (demo_manifest created_phases)\<lparr>m_checkpoints := JArr [JStr (tag_name_of ''s1'')]\<rparr>"

definition progress_world :: world where
  "progress_world = recorded_world\<lparr>features_file := Absent\<rparr>"

text \<open>A file system whose file names hold at most 255 bytes, as those of Linux and macOS
  do: opening a longer name raises \<open>OSError\<close> (\<^verbatim>\<open>ENAMETOOLONG\<close>). And one on which no read
  fails from outside.\<close>

definition NAME_MAX :: nat where
  "NAME_MAX = 255"

definition name_too_long :: "string \<Rightarrow> exn option" where
  "name_too_long step_id =
     (if NAME_MAX < length (step_id @ ''.json'') then Some OSError else None)"

definition no_read_fault :: "string \<Rightarrow> exn option" where
  "no_read_fault step_id = None"

text \<open>\<^verbatim>\<open>manifest.json\<close> is \<^verbatim>\<open>{"checkpoints": null}\<close>, with no other file in the migration
  directory, and the manifest that loads from it.\<close>

definition null_checkpoints_world :: world where
  "null_checkpoints_world = blank_world\<lparr>manifest_file := Doc (JObj [(''checkpoints'', JNull)])\<rparr>"

definition null_checkpoints_manifest :: MigrationManifest where
  "null_checkpoints_manifest = \<lparr>
     m_id = JStr [], m_created_at = JStr [], m_source_info = JObj [], m_target_info = JObj [],
     m_phases = JObj [], m_feature_list_path = JStr [], m_migration_plan_path = JStr [],
     m_checkpoints = JNull \<rparr>"

text \<open>A step id of 251 letters, the demo world without \<^verbatim>\<open>features.json\<close>, and that world
  after \<^verbatim>\<open>create_checkpoint\<close> of the long step id recorded the tag and failed to write
  the metadata file.\<close>

definition long_step_id :: string where
  "long_step_id = replicate 251 CHR ''a''"

definition bare_world :: world where
  "bare_world = (demo_world created_phases)\<lparr>features_file := Absent\<rparr>"

definition long_manifest :: MigrationManifest where
  "long_manifest =
     (demo_manifest created_phases)\<lparr>m_checkpoints := JArr [JStr (tag_name_of long_step_id)]\<rparr>"

definition long_world :: world where
  "long_world = bare_world\<lparr>
     git_tags := [tag_name_of long_step_id \<mapsto> 0],
     manifest_file := Doc (asdict_manifest long_manifest)\<rparr>"

text \<open>The world \<open>progress_world\<close> with a metadata file for \<^verbatim>\<open>s1\<close> that holds the JSON array
  \<^verbatim>\<open>[]\<close>, a manifest whose \<^verbatim>\<open>understand\<close> phase is a string, and one whose only checkpoint
  is a number.\<close>

definition array_meta_world :: world where
  "array_meta_world = progress_world\<lparr>checkpoint_files := (\<lambda>step_id. Absent)(''s1'' := Doc (JArr []))\<rparr>"

definition string_phase_world :: world where
  "string_phase_world =
     blank_world\<lparr>manifest_file := Doc (JObj [(''phases'', JObj [(''understand'', JStr ''done'')])])\<rparr>"

definition number_checkpoint_world :: world where
  "number_checkpoint_world =
     blank_world\<lparr>manifest_file := Doc (JObj [(''checkpoints'', JArr [JNum 1])])\<rparr>"

section \<open>Properties\<close>

subsection \<open>The gate comes first in \<^verbatim>\<open>advance_phase\<close>\<close>

lemma gate_unlocked_ignores_manifest:
  "check_phase_gate_unlocked (w\<lparr>manifest_file := mf\<rparr>) a b = check_phase_gate_unlocked w a b"
  by (simp add: check_phase_gate_unlocked_def docs_and_seams_gate_def)

lemma next_phase_known:
  "next_phase_of phase = Some nxt \<Longrightarrow> phase \<in> set PHASE_ORDER"
  by (auto simp: next_phase_of_def PHASE_ORDER_def split: option.splits if_splits)

text \<open>
  Claim C10. \<^verbatim>\<open>advance_phase\<close> evaluates the gate before it loads the manifest: when the
  phase has a successor and the gate to it refuses with \<open>reason\<close>, the call raises
  \<^verbatim>\<open>RuntimeError("Phase gate failed: <reason>")\<close> whatever \<^verbatim>\<open>manifest.json\<close> holds (any
  status of the phase, a missing or a corrupt manifest: \<open>mf\<close> is arbitrary), and leaves
  the world as it was. The gate itself does not look at the manifest
  (\<open>gate_unlocked_ignores_manifest\<close>), so its refusal is a fact of \<open>w\<close> alone.
\<close>

theorem advance_phase_gate_first:
  assumes "next_phase_of phase = Some nxt"
    and "check_phase_gate_unlocked w phase nxt = Inr (False, reason)"
  shows "advance_phase write_ok now (w\<lparr>manifest_file := mf\<rparr>) phase
           = (Inl (RuntimeError (PhaseGateFailed reason)), w\<lparr>manifest_file := mf\<rparr>)"
proof -
  have "phase \<in> set PHASE_ORDER"
    using assms(1) by (rule next_phase_known)
  moreover have "enforce_gate (w\<lparr>manifest_file := mf\<rparr>) phase (Some nxt)
                   = Inl (RuntimeError (PhaseGateFailed reason))"
    using assms(2) by (simp add: enforce_gate_def gate_unlocked_ignores_manifest)
  ultimately show ?thesis
    using assms(1) by (simp add: advance_phase_def)
qed

text \<open>The theorem at work: \<^verbatim>\<open>docs/\<close> does not exist, and \<^verbatim>\<open>understand\<close> is not advanced
  although the manifest has it in progress.\<close>

theorem advance_phase_gate_first_witness:
  "next_phase_of ''understand'' = Some ''guardrail''
   \<and> check_phase_gate_unlocked blank_world ''understand'' ''guardrail''
       = Inr (False, ''Phase gate failed: no documentation generated in docs/'')
   \<and> advance_phase True ''2026-02-24T09:00:00+00:00''
         (blank_world\<lparr>manifest_file := manifest_file fresh_world\<rparr>) ''understand''
       = (Inl (RuntimeError (PhaseGateFailed
                 ''Phase gate failed: no documentation generated in docs/'')),
          blank_world\<lparr>manifest_file := manifest_file fresh_world\<rparr>)"
proof -
  have n: "next_phase_of ''understand'' = Some ''guardrail''"
    by (simp add: next_phase_of_def PHASE_ORDER_def)
  have g: "check_phase_gate_unlocked blank_world ''understand'' ''guardrail''
             = Inr (False, ''Phase gate failed: no documentation generated in docs/'')"
    by (simp add: check_phase_gate_unlocked_def docs_and_seams_gate_def blank_world_def
          PHASE_ORDER_def)
  show ?thesis
    using n g advance_phase_gate_first [OF n g] by simp
qed

subsection \<open>The two gate functions\<close>

lemma string_of_nat_digit: "n < 10 \<Longrightarrow> string_of_nat n = [digit_char n]"
  by (simp add: string_of_nat.simps)

text \<open>Where both functions agree: Scenario B, refused with a reason that names \<^verbatim>\<open>f1\<close>.\<close>

lemma scenario_b_standalone:
  "check_phase_gate scenario_b_world ''guardrail'' ''migrate''
     = Inr (False, ''Phase gate failed: 1 characterization tests not passing (f1)'')"
  by (simp add: check_phase_gate_def scenario_b_world_def blank_world_def PHASE_ORDER_def
      load_features_def features_of_json_def features_verdict_def kwarg_def join_def
      string_of_nat_digit digit_char_def)

lemma scenario_b_unlocked:
  "check_phase_gate_unlocked scenario_b_world ''guardrail'' ''migrate''
     = Inr (False, ''Phase gate failed: 1 characterization tests not passing (f1)'')"
  by (simp add: check_phase_gate_unlocked_def scenario_b_world_def blank_world_def PHASE_ORDER_def
      features_of_json_def features_verdict_def kwarg_def join_def
      string_of_nat_digit digit_char_def)

lemma scenario_b_names_f1:
  "sublist ''f1'' ''Phase gate failed: 1 characterization tests not passing (f1)''"
  by (simp add: sublist_code)

text \<open>
  Claim C4 (the two gate functions give the same verdict in every state of the
  directory) does not hold of the code. \<^verbatim>\<open>_check_phase_gate_unlocked\<close> catches
  \<^verbatim>\<open>JSONDecodeError\<close> and \<^verbatim>\<open>TypeError\<close> and refuses; \<^verbatim>\<open>check_phase_gate\<close> goes through
  \<^verbatim>\<open>load_features\<close> and \<^verbatim>\<open>load_plan\<close>, which re-raise them, and catches \<^verbatim>\<open>FileNotFoundError\<close>
  only. On a \<^verbatim>\<open>features.json\<close> or \<^verbatim>\<open>migration-plan.json\<close> that is not JSON, and on a
  \<^verbatim>\<open>features.json\<close> of the wrong shape, the standalone function raises where the internal
  one returns a refusal.
\<close>

theorem gate_functions_disagree_on_corrupt_artifacts:
  "check_phase_gate not_json_world ''guardrail'' ''migrate''
     = Inl (JSONDecodeError ''Expecting value: line 1 column 1 (char 0)'')
   \<and> check_phase_gate_unlocked not_json_world ''guardrail'' ''migrate''
     = Inr (False, ''Phase gate failed: features.json is invalid: Expecting value: line 1 column 1 (char 0)'')
   \<and> check_phase_gate not_json_world ''migrate'' ''verify''
     = Inl (JSONDecodeError ''Expecting value: line 1 column 1 (char 0)'')
   \<and> check_phase_gate_unlocked not_json_world ''migrate'' ''verify''
     = Inr (False, ''Phase gate failed: migration-plan.json is invalid: Expecting value: line 1 column 1 (char 0)'')
   \<and> check_phase_gate null_features_world ''guardrail'' ''migrate''
     = Inl (TypeError (quoted ''NoneType'' @ '' object is not iterable''))
   \<and> check_phase_gate_unlocked null_features_world ''guardrail'' ''migrate''
     = Inr (False, ''Phase gate failed: features.json is invalid: ''
                     @ quoted ''NoneType'' @ '' object is not iterable'')"
  by (simp add: check_phase_gate_def check_phase_gate_unlocked_def not_json_world_def
      null_features_world_def blank_world_def PHASE_ORDER_def load_features_def load_plan_def
      features_of_json_def kwarg_def)

text \<open>
  Claim C5 (the gate from \<^verbatim>\<open>guardrail\<close> to \<^verbatim>\<open>migrate\<close> returns false with a reason whenever
  the features document does not exist, does not parse, is empty or has a failing
  feature) does not hold of \<^verbatim>\<open>check_phase_gate\<close> for a document that does not parse: it
  raises \<^verbatim>\<open>JSONDecodeError\<close> and returns nothing. The rest of the claim holds there:
  \<open>scenario_b_standalone\<close> is its Scenario B.
\<close>

theorem check_phase_gate_raises_on_unparsable_features:
  "check_phase_gate not_json_world ''guardrail'' ''migrate''
     = Inl (JSONDecodeError ''Expecting value: line 1 column 1 (char 0)'')"
  by (simp add: check_phase_gate_def not_json_world_def blank_world_def PHASE_ORDER_def
      load_features_def)

subsection \<open>Registry\<close>

text \<open>Scenario D of the specification: the manifest that is not JSON is skipped with a
  warning, the other one is listed.\<close>

lemma list_migrations_skips_garbage:
  "list_migrations root_with_garbage
     = Inr ([\<lparr> i_id = JStr ''mig_20260101_000000_app'',
                i_created_at = JStr ''2026-01-01T00:00:00+00:00'',
                i_source = JObj [(''path'', JStr ''/tmp/app'')],
                i_source_path = JStr ''/tmp/app'',
                i_target = JStr ''rust'',
                i_status = ''in_progress'' \<rparr>],
            [''mig_20260102_000000_web''])"
  by (simp add: list_migrations_def root_with_garbage_def migration_entry_def
      listed_manifest_def PHASE_ORDER_def)

text \<open>
  Claim C8 (\<^verbatim>\<open>list_migrations\<close> never raises and skips every corrupt manifest, valid JSON
  of the wrong shape included) does not hold of the code: the \<^verbatim>\<open>except\<close> clause names
  \<^verbatim>\<open>JSONDecodeError\<close> and \<^verbatim>\<open>OSError\<close>, and a manifest that is a JSON array has no \<^verbatim>\<open>get\<close>
  method, so \<^verbatim>\<open>data.get("phases", {})\<close> raises \<^verbatim>\<open>AttributeError\<close> and the listing is lost,
  the valid migration with it.
\<close>

theorem list_migrations_raises_on_array_manifest:
  "list_migrations root_with_array = Inl AttributeError"
  by (simp add: list_migrations_def root_with_array_def migration_entry_def
      listed_manifest_def PHASE_ORDER_def)

subsection \<open>The phase state machine\<close>

lemma load_saved_manifest:
  "load_manifest_unlocked (w\<lparr>manifest_file := Doc (asdict_manifest m)\<rparr>) = Inr m"
  by (simp add: load_manifest_unlocked_def asdict_manifest_def kwarg_def)

lemma next_phase_of_simps:
  "next_phase_of ''understand'' = Some ''guardrail''"
  "next_phase_of ''guardrail'' = Some ''migrate''"
  "next_phase_of ''migrate'' = Some ''verify''"
  "next_phase_of ''verify'' = None"
  by (simp_all add: next_phase_of_def PHASE_ORDER_def)

lemma advance_phases_understand:
  "advance_phases (phases_doc (phase_doc st s c) (phase_doc st2 s2 c2) m v) now ''understand'' (Some ''guardrail'')
   = (if st = ''in_progress''
      then Inr (phases_doc (phase_doc ''completed'' s now) (phase_doc ''in_progress'' now c2) m v)
      else Inl (RuntimeError (CannotAdvancePhase ''understand'' (JStr st))))"
  by (simp add: advance_phases_def set_phase_field_def phases_doc_def phase_doc_def)

lemma advance_phases_guardrail:
  "advance_phases (phases_doc u (phase_doc st s c) (phase_doc st2 s2 c2) v) now ''guardrail'' (Some ''migrate'')
   = (if st = ''in_progress''
      then Inr (phases_doc u (phase_doc ''completed'' s now) (phase_doc ''in_progress'' now c2) v)
      else Inl (RuntimeError (CannotAdvancePhase ''guardrail'' (JStr st))))"
  by (simp add: advance_phases_def set_phase_field_def phases_doc_def phase_doc_def)

lemma advance_phases_migrate:
  "advance_phases (phases_doc u g (phase_doc st s c) (phase_doc st2 s2 c2)) now ''migrate'' (Some ''verify'')
   = (if st = ''in_progress''
      then Inr (phases_doc u g (phase_doc ''completed'' s now) (phase_doc ''in_progress'' now c2))
      else Inl (RuntimeError (CannotAdvancePhase ''migrate'' (JStr st))))"
  by (simp add: advance_phases_def set_phase_field_def phases_doc_def phase_doc_def)

lemma advance_phases_verify:
  "advance_phases (phases_doc u g m (phase_doc st s c)) now ''verify'' None
   = (if st = ''in_progress''
      then Inr (phases_doc u g m (phase_doc ''completed'' s now))
      else Inl (RuntimeError (CannotAdvancePhase ''verify'' (JStr st))))"
  by (simp add: advance_phases_def set_phase_field_def phases_doc_def phase_doc_def)

lemma status_eq_simps [simp]:
  "(''completed'' = ''in_progress'') = False" "(''pending'' = ''in_progress'') = False"
  "(''completed'' = ''pending'') = False"
  by simp_all

lemma status_at_in_progress: "status_at k i = ''in_progress'' \<longleftrightarrow> i = k"
  by (simp add: status_at_def)

lemma status_at_pending: "status_at k i = ''pending'' \<longleftrightarrow> k < i"
  by (auto simp add: status_at_def)

lemma status_at_completed: "status_at k i = ''completed'' \<longleftrightarrow> i < k"
  by (auto simp add: status_at_def)

lemma in_orderI:
  "phases = phases_doc (phase_doc (status_at k 0) s0 c0) (phase_doc (status_at k 1) s1 c1)
                   (phase_doc (status_at k 2) s2 c2) (phase_doc (status_at k 3) s3 c3)
   \<Longrightarrow> in_order k phases"
  unfolding in_order_def by blast

lemma advance_keeps_order:
  assumes "in_order k phases" and "phase \<in> set PHASE_ORDER"
    and "advance_phases phases now phase (next_phase_of phase) = Inr phases'"
  shows "in_order (Suc k) phases' \<and> k < 4"
proof -
  from assms(1) obtain s0 c0 s1 c1 s2 c2 s3 c3 where
    ph: "phases = phases_doc (phase_doc (status_at k 0) s0 c0) (phase_doc (status_at k 1) s1 c1)
                   (phase_doc (status_at k 2) s2 c2) (phase_doc (status_at k 3) s3 c3)"
    unfolding in_order_def by blast
  from assms(2) consider "phase = ''understand''" | "phase = ''guardrail''"
    | "phase = ''migrate''" | "phase = ''verify''"
    by (auto simp: PHASE_ORDER_def)
  then show ?thesis
  proof cases
    case 1
    with assms(3) ph have k: "k = 0"
      and p': "phases' = phases_doc (phase_doc ''completed'' s0 now) (phase_doc ''in_progress'' now c1)
                   (phase_doc (status_at k 2) s2 c2) (phase_doc (status_at k 3) s3 c3)"
      by (auto simp: next_phase_of_simps advance_phases_understand status_at_in_progress split: if_splits)
    show ?thesis
      using k p' by (auto intro!: in_orderI simp: status_at_def)
  next
    case 2
    with assms(3) ph have k: "k = 1"
      and p': "phases' = phases_doc (phase_doc (status_at k 0) s0 c0) (phase_doc ''completed'' s1 now) (phase_doc ''in_progress'' now c2)
                    (phase_doc (status_at k 3) s3 c3)"
      by (auto simp: next_phase_of_simps advance_phases_guardrail status_at_in_progress split: if_splits)
    show ?thesis
      using k p' by (auto intro!: in_orderI simp: status_at_def)
  next
    case 3
    with assms(3) ph have k: "k = 2"
      and p': "phases' = phases_doc (phase_doc (status_at k 0) s0 c0) (phase_doc (status_at k 1) s1 c1) (phase_doc ''completed'' s2 now) (phase_doc ''in_progress'' now c3)"
      by (auto simp: next_phase_of_simps advance_phases_migrate status_at_in_progress split: if_splits)
    show ?thesis
      using k p' by (auto intro!: in_orderI simp: status_at_def)
  next
    case 4
    with assms(3) ph have k: "k = 3"
      and p': "phases' = phases_doc (phase_doc (status_at k 0) s0 c0) (phase_doc (status_at k 1) s1 c1) (phase_doc (status_at k 2) s2 c2) (phase_doc ''completed'' s3 now)"
      by (auto simp: next_phase_of_simps advance_phases_verify status_at_in_progress split: if_splits)
    show ?thesis
      using k p' by (auto intro!: in_orderI simp: status_at_def)
  qed
qed

lemma advance_phase_cases:
  assumes "advance_phase write_ok now w phase = (r, w')"
  obtains (raised) e where "r = Inl e" and "w' = w"
  | (saved) m phases' where "write_ok" and "phase \<in> set PHASE_ORDER"
      and "enforce_gate w phase (next_phase_of phase) = Inr ()"
      and "load_manifest_unlocked w = Inr m"
      and "advance_phases (m_phases m) now phase (next_phase_of phase) = Inr phases'"
      and "w' = w\<lparr>manifest_file := Doc (asdict_manifest (m\<lparr>m_phases := phases'\<rparr>))\<rparr>"
      and "r = Inr \<lparr> r_phase = phase, r_status = ''completed'', r_artifacts = [],
                     r_started_at = [], r_completed_at = now, r_error = [] \<rparr>"
  using assms
  by (auto simp: advance_phase_def save_manifest_unlocked_def Let_def
      split: if_splits sum.splits prod.splits)

lemma start_phase_cases:
  assumes "start_phase write_ok now w phase = (r, w')"
  obtains (unchanged) "w' = w"
  | (saved) m entry phases1 phases2 where "write_ok" and "phase \<in> set PHASE_ORDER"
      and "load_manifest_unlocked w = Inr m"
      and "py_getitem (m_phases m) phase = Inr entry"
      and "py_getitem entry ''status'' = Inr (JStr ''pending'')"
      and "set_phase_field (m_phases m) phase ''status'' (JStr ''in_progress'') = Inr phases1"
      and "set_phase_field phases1 phase ''started_at'' (JStr now) = Inr phases2"
      and "w' = w\<lparr>manifest_file := Doc (asdict_manifest (m\<lparr>m_phases := phases2\<rparr>))\<rparr>"
      and "r = Inr ()"
  using assms
  by (auto simp: start_phase_def save_manifest_unlocked_def
      split: if_splits sum.splits prod.splits)

lemma load_manifest_unlocked_cong:
  "manifest_file w' = manifest_file w \<Longrightarrow> load_manifest_unlocked w' = load_manifest_unlocked w"
  by (simp add: load_manifest_unlocked_def)

lemma get_phase_status_loaded:
  "load_manifest_unlocked w = Inr m \<Longrightarrow> phase \<in> set PHASE_ORDER \<Longrightarrow>
   get_phase_status w phase =
     (case py_get (m_phases m) phase (JObj []) of
        Inl e \<Rightarrow> Inl e
      | Inr phase_data \<Rightarrow> py_get phase_data ''status'' (JStr ''pending''))"
  by (simp add: get_phase_status_def load_manifest_def)

lemma in_order_statuses:
  assumes "load_manifest_unlocked w = Inr m" and "in_order k (m_phases m)"
  shows "map (get_phase_status w) PHASE_ORDER = map (\<lambda>i. Inr (JStr (status_at k i))) [0, 1, 2, 3]"
proof -
  from assms(2) obtain s0 c0 s1 c1 s2 c2 s3 c3 where
    ph: "m_phases m = phases_doc (phase_doc (status_at k 0) s0 c0) (phase_doc (status_at k 1) s1 c1)
                   (phase_doc (status_at k 2) s2 c2) (phase_doc (status_at k 3) s3 c3)"
    unfolding in_order_def by blast
  show ?thesis
    by (simp add: get_phase_status_def load_manifest_def assms(1) ph PHASE_ORDER_def
        phases_doc_def phase_doc_def)
qed

lemma created_in_order:
  assumes "create_manifest self write_ok created started w = (Inr m, w')"
  shows "manifest_in_order w'"
proof -
  from assms have w': "w' = w\<lparr>manifest_file := Doc (asdict_manifest m)\<rparr>"
    and m: "m_phases m = JObj (map (\<lambda>phase. (phase, initial_phase started phase)) PHASE_ORDER)"
    by (auto simp: create_manifest_def save_manifest_def save_manifest_unlocked_def Let_def
        split: if_splits)
  have "in_order 0 (m_phases m)"
    unfolding m
    by (rule in_orderI [where ?s0.0 = started and ?c0.0 = "[]" and ?s1.0 = "[]" and ?c1.0 = "[]"
          and ?s2.0 = "[]" and ?c2.0 = "[]" and ?s3.0 = "[]" and ?c3.0 = "[]"])
       (simp add: PHASE_ORDER_def initial_phase_def phases_doc_def phase_doc_def status_at_def)
  then show ?thesis
    unfolding manifest_in_order_def w' using load_saved_manifest by fastforce
qed

lemma advanced_in_order:
  assumes "manifest_in_order w" and "advance_phase write_ok now w phase = (r, w')"
  shows "manifest_in_order w'"
  using assms(2)
proof (cases rule: advance_phase_cases)
  case (raised e)
  with assms(1) show ?thesis by simp
next
  case (saved m phases')
  from assms(1) saved(4) obtain k where k: "k \<le> 4" "in_order k (m_phases m)"
    unfolding manifest_in_order_def by auto
  from advance_keeps_order [OF k(2) saved(2) saved(5)]
  have o: "in_order (Suc k) phases'" and b: "Suc k \<le> 4" by auto
  have "load_manifest_unlocked w' = Inr (m\<lparr>m_phases := phases'\<rparr>)"
    unfolding saved(6) by (rule load_saved_manifest)
  moreover have "in_order (Suc k) (m_phases (m\<lparr>m_phases := phases'\<rparr>))"
    using o by simp
  ultimately show ?thesis
    unfolding manifest_in_order_def using b by blast
qed

lemma py_getitem_get: "py_getitem x k = Inr v \<Longrightarrow> py_get x k d = Inr v"
  by (cases x) (auto split: option.splits)

lemma start_not_pending_unchanged:
  assumes "get_phase_status w phase \<noteq> Inr (JStr ''pending'')"
    and "start_phase write_ok now w phase = (r, w')"
  shows "w' = w"
  using assms(2)
proof (cases rule: start_phase_cases)
  case unchanged
  then show ?thesis .
next
  case (saved m entry phases1 phases2)
  then have "get_phase_status w phase = Inr (JStr ''pending'')"
    by (simp add: get_phase_status_def load_manifest_def py_getitem_get)
  with assms(1) show ?thesis by simp
qed

lemma reachable_manifest_in_order:
  "reachable_in_order w \<Longrightarrow> manifest_in_order w"
proof (induction rule: reachable_in_order.induct)
  case (created self write_ok created started w m w')
  then show ?case by (rule created_in_order)
next
  case (advanced w write_ok now phase r w')
  from advanced.IH advanced.hyps(2) show ?case by (rule advanced_in_order)
next
  case (started w phase write_ok now r' w')
  from started.hyps(2,3) have "w' = w" by (rule start_not_pending_unchanged)
  with started.IH show ?case by simp
next
  case (artifacts w w')
  from artifacts.IH show ?case
    unfolding manifest_in_order_def load_manifest_unlocked_cong [OF artifacts.hyps(2)] .
qed

lemma known_phase:
  "get_phase_status w p = Inr v \<Longrightarrow> p \<in> set PHASE_ORDER"
  by (cases "p \<in> set PHASE_ORDER") (simp_all add: get_phase_status_def)

lemma in_order_at_most_one:
  assumes "load_manifest_unlocked w = Inr m" and "in_order k (m_phases m)" and "k \<le> 4"
  shows "length (in_progress_phases w) \<le> 1
       \<and> (\<forall>p. get_phase_status w p = Inr (JStr ''in_progress'') \<longrightarrow> first_non_completed w = Some p)"
proof (intro conjI allI impI)
  have st: "get_phase_status w ''understand'' = Inr (JStr (status_at k 0))"
    "get_phase_status w ''guardrail'' = Inr (JStr (status_at k 1))"
    "get_phase_status w ''migrate'' = Inr (JStr (status_at k 2))"
    "get_phase_status w ''verify'' = Inr (JStr (status_at k 3))"
    using in_order_statuses [OF assms(1,2)] by (simp_all add: PHASE_ORDER_def)
  show "length (in_progress_phases w) \<le> 1"
    by (simp add: in_progress_phases_def PHASE_ORDER_def st status_at_in_progress)
  fix p
  assume ip: "get_phase_status w p = Inr (JStr ''in_progress'')"
  then have "p \<in> set PHASE_ORDER" by (rule known_phase)
  then consider "p = ''understand''" | "p = ''guardrail''" | "p = ''migrate''" | "p = ''verify''"
    by (auto simp: PHASE_ORDER_def)
  then show "first_non_completed w = Some p"
  proof cases
    case 1
    with ip st have "k = 0" by (simp add: status_at_in_progress)
    then show ?thesis
      by (simp add: first_non_completed_def PHASE_ORDER_def st 1 status_at_def)
  next
    case 2
    with ip st have "k = 1" by (simp add: status_at_in_progress)
    then show ?thesis
      by (simp add: first_non_completed_def PHASE_ORDER_def st 2 status_at_def)
  next
    case 3
    with ip st have "k = 2" by (simp add: status_at_in_progress)
    then show ?thesis
      by (simp add: first_non_completed_def PHASE_ORDER_def st 3 status_at_def)
  next
    case 4
    with ip st have "k = 3" by (simp add: status_at_in_progress)
    then show ?thesis
      by (simp add: first_non_completed_def PHASE_ORDER_def st 4 status_at_def)
  qed
qed

text \<open>
  Claim C2, amended. In every world reached from \<^verbatim>\<open>create_manifest\<close> by any sequence of
  \<^verbatim>\<open>advance_phase\<close> calls and of \<^verbatim>\<open>start_phase\<close> calls on phases that are not pending, at
  most one phase is in progress, and a phase in progress is the first phase of
  \<^verbatim>\<open>PHASE_ORDER\<close> that is not completed.
\<close>

theorem in_order_reachable_one_in_progress:
  assumes "reachable_in_order w"
  shows "length (in_progress_phases w) \<le> 1
       \<and> (\<forall>p. get_phase_status w p = Inr (JStr ''in_progress'') \<longrightarrow> first_non_completed w = Some p)"
proof -
  from reachable_manifest_in_order [OF assms] obtain m k where
    "k \<le> 4" "load_manifest_unlocked w = Inr m" "in_order k (m_phases m)"
    unfolding manifest_in_order_def by blast
  then show ?thesis by (intro in_order_at_most_one)
qed

lemma advance_phase_saves:
  assumes "phase \<in> set PHASE_ORDER"
    and "enforce_gate w phase (next_phase_of phase) = Inr ()"
    and "load_manifest_unlocked w = Inr m"
    and "advance_phases (m_phases m) now phase (next_phase_of phase) = Inr phases'"
  shows "advance_phase True now w phase
           = (Inr \<lparr> r_phase = phase, r_status = ''completed'', r_artifacts = [],
                    r_started_at = [], r_completed_at = now, r_error = [] \<rparr>,
              w\<lparr>manifest_file := Doc (asdict_manifest (m\<lparr>m_phases := phases'\<rparr>))\<rparr>)"
  using assms by (simp add: advance_phase_def save_manifest_unlocked_def)

lemma start_phase_saves:
  assumes "phase \<in> set PHASE_ORDER"
    and "load_manifest_unlocked w = Inr m"
    and "py_getitem (m_phases m) phase = Inr entry"
    and "py_getitem entry ''status'' = Inr (JStr ''pending'')"
    and "set_phase_field (m_phases m) phase ''status'' (JStr ''in_progress'') = Inr phases1"
    and "set_phase_field phases1 phase ''started_at'' (JStr now) = Inr phases2"
  shows "start_phase True now w phase
           = (Inr (), w\<lparr>manifest_file := Doc (asdict_manifest (m\<lparr>m_phases := phases2\<rparr>))\<rparr>)"
  using assms by (simp add: start_phase_def save_manifest_unlocked_def)

lemma load_demo_world: "load_manifest_unlocked (demo_world phases) = Inr (demo_manifest phases)"
  by (simp add: demo_world_def load_manifest_unlocked_def asdict_manifest_def kwarg_def
      demo_manifest_def)

lemma demo_world_saved:
  "(demo_world phases)\<lparr>manifest_file :=
      Doc (asdict_manifest ((demo_manifest phases)\<lparr>m_phases := phases'\<rparr>))\<rparr> = demo_world phases'"
  by (simp add: demo_world_def demo_manifest_def)

lemma demo_gates:
  "enforce_gate (demo_world phases) ''understand'' (Some ''guardrail'') = Inr ()"
  "enforce_gate (demo_world phases) ''guardrail'' (Some ''migrate'') = Inr ()"
  by (simp_all add: enforce_gate_def check_phase_gate_unlocked_def docs_and_seams_gate_def
      demo_world_def PHASE_ORDER_def features_of_json_def features_verdict_def kwarg_def)

lemma demo_created:
  "create_manifest demo_pipeline True ''2026-02-23T14:30:52'' ''2026-02-23T14:30:52''
     ((demo_world JNull)\<lparr>manifest_file := Absent\<rparr>)
   = (Inr (demo_manifest (phases_doc (phase_doc ''in_progress'' ''2026-02-23T14:30:52'' [])
                            pending_doc pending_doc pending_doc)),
      demo_world (phases_doc (phase_doc ''in_progress'' ''2026-02-23T14:30:52'' [])
                    pending_doc pending_doc pending_doc))"
  by (simp add: create_manifest_def save_manifest_def save_manifest_unlocked_def
      demo_pipeline_def demo_manifest_def demo_world_def kwarg_def PHASE_ORDER_def
      initial_phase_def phases_doc_def phase_doc_def pending_doc_def Let_def)

lemma demo_manifest_phases: "m_phases (demo_manifest phases) = phases"
  by (simp add: demo_manifest_def)

lemma demo_start_verify:
  "start_phase True now (demo_world (phases_doc u g m pending_doc)) ''verify''
   = (Inr (), demo_world (phases_doc u g m (phase_doc ''in_progress'' now [])))"
proof -
  have "start_phase True now (demo_world (phases_doc u g m pending_doc)) ''verify''
        = (Inr (), (demo_world (phases_doc u g m pending_doc))\<lparr>manifest_file :=
            Doc (asdict_manifest ((demo_manifest (phases_doc u g m pending_doc))
              \<lparr>m_phases := phases_doc u g m (phase_doc ''in_progress'' now [])\<rparr>))\<rparr>)"
    by (simp add: start_phase_def load_demo_world demo_manifest_phases PHASE_ORDER_def
          phases_doc_def phase_doc_def pending_doc_def set_phase_field_def
          save_manifest_unlocked_def)
  then show ?thesis by (simp only: demo_world_saved)
qed

lemma demo_start_guardrail:
  "start_phase True now (demo_world (phases_doc u pending_doc m v)) ''guardrail''
   = (Inr (), demo_world (phases_doc u (phase_doc ''in_progress'' now []) m v))"
proof -
  have "start_phase True now (demo_world (phases_doc u pending_doc m v)) ''guardrail''
        = (Inr (), (demo_world (phases_doc u pending_doc m v))\<lparr>manifest_file :=
            Doc (asdict_manifest ((demo_manifest (phases_doc u pending_doc m v))
              \<lparr>m_phases := phases_doc u (phase_doc ''in_progress'' now []) m v\<rparr>))\<rparr>)"
    by (simp add: start_phase_def load_demo_world demo_manifest_phases PHASE_ORDER_def
          phases_doc_def phase_doc_def pending_doc_def set_phase_field_def
          save_manifest_unlocked_def)
  then show ?thesis by (simp only: demo_world_saved)
qed

lemma demo_advance_understand:
  "advance_phase True now
     (demo_world (phases_doc (phase_doc ''in_progress'' s c) (phase_doc st2 s2 c2) m v)) ''understand''
   = (Inr \<lparr> r_phase = ''understand'', r_status = ''completed'', r_artifacts = [],
            r_started_at = [], r_completed_at = now, r_error = [] \<rparr>,
      demo_world (phases_doc (phase_doc ''completed'' s now) (phase_doc ''in_progress'' now c2) m v))"
proof -
  have "advance_phases (m_phases (demo_manifest (phases_doc (phase_doc ''in_progress'' s c) (phase_doc st2 s2 c2) m v)))
          now ''understand'' (next_phase_of ''understand'')
        = Inr (phases_doc (phase_doc ''completed'' s now) (phase_doc ''in_progress'' now c2) m v)"
    by (simp add: demo_manifest_def next_phase_of_simps advance_phases_understand)
  from advance_phase_saves [OF _ _ load_demo_world this]
  show ?thesis
    by (simp add: PHASE_ORDER_def next_phase_of_simps demo_gates demo_world_saved)
qed

lemma demo_advance_guardrail:
  "advance_phase True now
     (demo_world (phases_doc u (phase_doc ''in_progress'' s c) (phase_doc st2 s2 c2) v)) ''guardrail''
   = (Inr \<lparr> r_phase = ''guardrail'', r_status = ''completed'', r_artifacts = [],
            r_started_at = [], r_completed_at = now, r_error = [] \<rparr>,
      demo_world (phases_doc u (phase_doc ''completed'' s now) (phase_doc ''in_progress'' now c2) v))"
proof -
  have "advance_phases (m_phases (demo_manifest (phases_doc u (phase_doc ''in_progress'' s c) (phase_doc st2 s2 c2) v)))
          now ''guardrail'' (next_phase_of ''guardrail'')
        = Inr (phases_doc u (phase_doc ''completed'' s now) (phase_doc ''in_progress'' now c2) v)"
    by (simp add: demo_manifest_def next_phase_of_simps advance_phases_guardrail)
  from advance_phase_saves [OF _ _ load_demo_world this]
  show ?thesis
    by (simp add: PHASE_ORDER_def next_phase_of_simps demo_gates demo_world_saved)
qed

lemma demo_statuses:
  "map (get_phase_status (demo_world (phases_doc (phase_doc st0 s0 c0) (phase_doc st1 s1 c1)
          (phase_doc st2 s2 c2) (phase_doc st3 s3 c3)))) PHASE_ORDER
   = [Inr (JStr st0), Inr (JStr st1), Inr (JStr st2), Inr (JStr st3)]"
  by (simp add: get_phase_status_def load_manifest_def load_demo_world PHASE_ORDER_def
      demo_manifest_def phases_doc_def phase_doc_def)

lemma demo_status:
  "get_phase_status (demo_world (phases_doc (phase_doc st0 s0 c0) g m v)) ''understand'' = Inr (JStr st0)"
  "get_phase_status (demo_world (phases_doc u (phase_doc st1 s1 c1) m v)) ''guardrail'' = Inr (JStr st1)"
  "get_phase_status (demo_world (phases_doc u g (phase_doc st2 s2 c2) v)) ''migrate'' = Inr (JStr st2)"
  "get_phase_status (demo_world (phases_doc u g m (phase_doc st3 s3 c3))) ''verify'' = Inr (JStr st3)"
  by (simp_all add: get_phase_status_def load_manifest_def load_demo_world PHASE_ORDER_def
      demo_manifest_phases phases_doc_def phase_doc_def)

text \<open>
  Claim C2 as stated admits every \<^verbatim>\<open>start_phase\<close> call, and \<^verbatim>\<open>start_phase\<close> looks at the
  status of its own phase only: right after \<^verbatim>\<open>create_manifest\<close>, \<^verbatim>\<open>start_phase("verify")\<close>
  succeeds and leaves \<^verbatim>\<open>understand\<close> and \<^verbatim>\<open>verify\<close> both in progress.
\<close>

theorem start_phase_out_of_order_two_in_progress:
  "create_manifest demo_pipeline True ''2026-02-23T14:30:52'' ''2026-02-23T14:30:52''
     ((demo_world JNull)\<lparr>manifest_file := Absent\<rparr>)
   = (Inr (demo_manifest (phases_doc (phase_doc ''in_progress'' ''2026-02-23T14:30:52'' [])
                            pending_doc pending_doc pending_doc)),
      demo_world (phases_doc (phase_doc ''in_progress'' ''2026-02-23T14:30:52'' [])
                    pending_doc pending_doc pending_doc))
   \<and> start_phase True ''2026-02-23T15:00:00''
       (demo_world (phases_doc (phase_doc ''in_progress'' ''2026-02-23T14:30:52'' [])
                      pending_doc pending_doc pending_doc)) ''verify''
     = (Inr (),
        demo_world (phases_doc (phase_doc ''in_progress'' ''2026-02-23T14:30:52'' [])
                      pending_doc pending_doc (phase_doc ''in_progress'' ''2026-02-23T15:00:00'' [])))
   \<and> in_progress_phases
         (demo_world (phases_doc (phase_doc ''in_progress'' ''2026-02-23T14:30:52'' [])
                      pending_doc pending_doc (phase_doc ''in_progress'' ''2026-02-23T15:00:00'' [])))
     = [''understand'', ''verify'']"
proof (intro conjI)
  show "in_progress_phases
         (demo_world (phases_doc (phase_doc ''in_progress'' ''2026-02-23T14:30:52'' [])
                      pending_doc pending_doc (phase_doc ''in_progress'' ''2026-02-23T15:00:00'' [])))
     = [''understand'', ''verify'']"
    unfolding pending_doc_def
    by (simp add: in_progress_phases_def PHASE_ORDER_def demo_status)
qed (rule demo_created, rule demo_start_verify)

text \<open>The amended claim at work: the world after \<^verbatim>\<open>create_manifest\<close> and
  \<^verbatim>\<open>advance_phase("understand")\<close> is reachable, and \<^verbatim>\<open>guardrail\<close>, its one phase in progress,
  is its first phase not completed.\<close>

theorem in_order_reachable_one_in_progress_witness:
  "reachable_in_order
     (demo_world (phases_doc (phase_doc ''completed'' ''2026-02-23T14:30:52'' ''2026-02-24T09:00:00'')
                    (phase_doc ''in_progress'' ''2026-02-24T09:00:00'' []) pending_doc pending_doc))
   \<and> length (in_progress_phases
         (demo_world (phases_doc (phase_doc ''completed'' ''2026-02-23T14:30:52'' ''2026-02-24T09:00:00'')
                    (phase_doc ''in_progress'' ''2026-02-24T09:00:00'' []) pending_doc pending_doc))) \<le> 1
   \<and> get_phase_status
         (demo_world (phases_doc (phase_doc ''completed'' ''2026-02-23T14:30:52'' ''2026-02-24T09:00:00'')
                    (phase_doc ''in_progress'' ''2026-02-24T09:00:00'' []) pending_doc pending_doc))
         ''guardrail'' = Inr (JStr ''in_progress'')
   \<and> first_non_completed
         (demo_world (phases_doc (phase_doc ''completed'' ''2026-02-23T14:30:52'' ''2026-02-24T09:00:00'')
                    (phase_doc ''in_progress'' ''2026-02-24T09:00:00'' []) pending_doc pending_doc))
       = Some ''guardrail''"
proof -
  let ?w0 = "demo_world (phases_doc (phase_doc ''in_progress'' ''2026-02-23T14:30:52'' [])
                    pending_doc pending_doc pending_doc)"
  let ?w1 = "demo_world (phases_doc (phase_doc ''completed'' ''2026-02-23T14:30:52'' ''2026-02-24T09:00:00'')
                    (phase_doc ''in_progress'' ''2026-02-24T09:00:00'' []) pending_doc pending_doc)"
  have r0: "reachable_in_order ?w0"
    by (rule reachable_in_order.created [OF demo_created])
  have adv: "advance_phase True ''2026-02-24T09:00:00'' ?w0 ''understand''
               = (Inr \<lparr> r_phase = ''understand'', r_status = ''completed'', r_artifacts = [],
                        r_started_at = [], r_completed_at = ''2026-02-24T09:00:00'',
                        r_error = [] \<rparr>, ?w1)"
    unfolding pending_doc_def by (rule demo_advance_understand)
  have r: "reachable_in_order ?w1"
    by (rule reachable_in_order.advanced [OF r0 adv])
  have s: "get_phase_status ?w1 ''guardrail'' = Inr (JStr ''in_progress'')"
    by (rule demo_status)
  from in_order_reachable_one_in_progress [OF r] s r show ?thesis
    by blast
qed

text \<open>
  Claim C3 (a completed phase never returns to pending or in progress) does not hold of
  the code. \<^verbatim>\<open>start_phase\<close> refuses a completed phase, but \<^verbatim>\<open>advance_phase\<close> sets the next
  phase to \<^verbatim>\<open>in_progress\<close> without looking at its status. After \<^verbatim>\<open>create_manifest\<close>:
  \<^verbatim>\<open>start_phase("guardrail")\<close>, then \<^verbatim>\<open>advance_phase("guardrail")\<close> completes \<^verbatim>\<open>guardrail\<close>,
  then \<^verbatim>\<open>advance_phase("understand")\<close> puts \<^verbatim>\<open>guardrail\<close> back in progress.
\<close>

theorem advance_phase_restarts_completed_phase:
  "start_phase True ''2026-02-23T15:00:00''
       (demo_world (phases_doc (phase_doc ''in_progress'' ''2026-02-23T14:30:52'' [])
                      pending_doc pending_doc pending_doc)) ''guardrail''
     = (Inr (),
        demo_world (phases_doc (phase_doc ''in_progress'' ''2026-02-23T14:30:52'' [])
                      (phase_doc ''in_progress'' ''2026-02-23T15:00:00'' []) pending_doc pending_doc))
   \<and> advance_phase True ''2026-02-24T09:00:00''
       (demo_world (phases_doc (phase_doc ''in_progress'' ''2026-02-23T14:30:52'' [])
                      (phase_doc ''in_progress'' ''2026-02-23T15:00:00'' []) pending_doc pending_doc))
       ''guardrail''
     = (Inr \<lparr> r_phase = ''guardrail'', r_status = ''completed'', r_artifacts = [],
              r_started_at = [], r_completed_at = ''2026-02-24T09:00:00'', r_error = [] \<rparr>,
        demo_world (phases_doc (phase_doc ''in_progress'' ''2026-02-23T14:30:52'' [])
                      (phase_doc ''completed'' ''2026-02-23T15:00:00'' ''2026-02-24T09:00:00'')
                      (phase_doc ''in_progress'' ''2026-02-24T09:00:00'' []) pending_doc))
   \<and> get_phase_status
         (demo_world (phases_doc (phase_doc ''in_progress'' ''2026-02-23T14:30:52'' [])
                      (phase_doc ''completed'' ''2026-02-23T15:00:00'' ''2026-02-24T09:00:00'')
                      (phase_doc ''in_progress'' ''2026-02-24T09:00:00'' []) pending_doc))
         ''guardrail'' = Inr (JStr ''completed'')
   \<and> advance_phase True ''2026-02-25T10:00:00''
       (demo_world (phases_doc (phase_doc ''in_progress'' ''2026-02-23T14:30:52'' [])
                      (phase_doc ''completed'' ''2026-02-23T15:00:00'' ''2026-02-24T09:00:00'')
                      (phase_doc ''in_progress'' ''2026-02-24T09:00:00'' []) pending_doc))
       ''understand''
     = (Inr \<lparr> r_phase = ''understand'', r_status = ''completed'', r_artifacts = [],
              r_started_at = [], r_completed_at = ''2026-02-25T10:00:00'', r_error = [] \<rparr>,
        demo_world (phases_doc (phase_doc ''completed'' ''2026-02-23T14:30:52'' ''2026-02-25T10:00:00'')
                      (phase_doc ''in_progress'' ''2026-02-25T10:00:00'' ''2026-02-24T09:00:00'')
                      (phase_doc ''in_progress'' ''2026-02-24T09:00:00'' []) pending_doc))
   \<and> get_phase_status
         (demo_world (phases_doc (phase_doc ''completed'' ''2026-02-23T14:30:52'' ''2026-02-25T10:00:00'')
                      (phase_doc ''in_progress'' ''2026-02-25T10:00:00'' ''2026-02-24T09:00:00'')
                      (phase_doc ''in_progress'' ''2026-02-24T09:00:00'' []) pending_doc))
         ''guardrail'' = Inr (JStr ''in_progress'')"
  unfolding pending_doc_def
  by (intro conjI)
     (simp_all only: demo_start_guardrail [unfolded pending_doc_def] demo_advance_guardrail
        demo_advance_understand demo_status)

subsection \<open>When \<^verbatim>\<open>advance_phase\<close> writes the manifest\<close>

lemma dict_entry:
  "list_all (\<lambda>kv. is_dict (snd kv)) kvs \<Longrightarrow> map_of kvs k = Some v \<Longrightarrow> \<exists>e. v = JObj e"
  by (induction kvs) (auto split: if_splits elim: is_dict.elims)

lemma has_key_iff: "k \<in> fst ` set kvs \<longleftrightarrow> map_of kvs k \<noteq> None"
  by (simp add: map_of_eq_None_iff)

lemma set_phase_field_dict:
  "map_of kvs p = Some (JObj e) \<Longrightarrow>
   set_phase_field (JObj kvs) p key v = Inr (JObj (AList.update p (JObj (AList.update key v e)) kvs))"
  by (simp add: set_phase_field_def)

lemma advance_phases_present:
  assumes "map_of kvs phase = Some (JObj e)"
  shows "advance_phases (JObj kvs) now phase None =
           (if kwarg e ''status'' (JStr ''pending'') = JStr ''in_progress''
            then Inr (JObj (AList.update phase (completed_entry now e) kvs))
            else Inl (RuntimeError (CannotAdvancePhase phase (kwarg e ''status'' (JStr ''pending'')))))"
  using assms
  by (simp add: advance_phases_def has_key_iff set_phase_field_dict kwarg_def completed_entry_def
      update_conv')

lemma advance_phases_absent:
  assumes "map_of kvs phase = None"
  shows "advance_phases (JObj kvs) now phase None = Inr (JObj kvs)"
  using assms
  by (simp add: advance_phases_def has_key_iff)

lemma advance_phases_next:
  "advance_phases phases now phase (Some nxt) =
     (case advance_phases phases now phase None of
        Inl e \<Rightarrow> Inl e
      | Inr phases2 \<Rightarrow>
          (case set_phase_field phases2 nxt ''status'' (JStr ''in_progress'') of
             Inl e \<Rightarrow> Inl e
           | Inr phases3 \<Rightarrow> set_phase_field phases3 nxt ''started_at'' (JStr now)))"
  by (simp add: advance_phases_def split: sum.splits)

lemma next_phase_differs: "next_phase_of phase = Some nxt \<Longrightarrow> nxt \<noteq> phase"
  by (auto simp: next_phase_of_def PHASE_ORDER_def split: option.splits if_splits)

lemma enforce_gate_passes_iff:
  "enforce_gate w phase nxt = Inr () \<longleftrightarrow>
     (nxt = None \<or> (\<exists>n reason. nxt = Some n \<and> check_phase_gate_unlocked w phase n = Inr (True, reason)))"
  by (cases nxt) (auto simp: enforce_gate_def split: sum.splits prod.splits if_splits)

lemma completed_entry_status:
  "\<exists>e'. completed_entry now e = JObj e' \<and> map_of e' ''status'' = Some (JStr ''completed'')"
  by (simp add: completed_entry_def update_conv')

lemma started_entry_status:
  "\<exists>e'. started_entry now e = JObj e' \<and> map_of e' ''status'' = Some (JStr ''in_progress'')"
  by (simp add: started_entry_def update_conv')

lemma start_next_dict:
  assumes "map_of kvs n = Some (JObj en)"
  shows "(case set_phase_field (JObj kvs) n ''status'' (JStr ''in_progress'') of
             Inl e \<Rightarrow> Inl e
           | Inr phases3 \<Rightarrow> set_phase_field phases3 n ''started_at'' (JStr now))
         = Inr (JObj (AList.update n (started_entry now en) kvs))"
  using assms
  by (simp add: set_phase_field_dict update_conv' started_entry_def)

lemma advance_phases_refused:
  assumes "list_all (\<lambda>kv. is_dict (snd kv)) kvs" and "\<not> entry_allows kvs phase"
  shows "\<exists>e. advance_phases (JObj kvs) now phase nxt = Inl e"
proof -
  from assms(2) obtain d where d: "map_of kvs phase = Some d"
    by (auto simp: entry_allows_def split: option.splits)
  with assms(1) obtain e where e: "d = JObj e" by (blast dest: dict_entry)
  with d assms(2) have "\<exists>x. advance_phases (JObj kvs) now phase None = Inl x"
    by (simp add: advance_phases_present entry_allows_def)
  then show ?thesis
    by (cases nxt) (auto simp: advance_phases_next)
qed

lemma advance_phases_allowed:
  assumes D: "list_all (\<lambda>kv. is_dict (snd kv)) kvs" and A: "entry_allows kvs phase"
    and N: "\<And>n. nxt = Some n \<Longrightarrow> map_of kvs n \<noteq> None \<and> n \<noteq> phase"
  shows "\<exists>kvs'. advance_phases (JObj kvs) now phase nxt = Inr (JObj kvs')
           \<and> (map_of kvs phase \<noteq> None \<longrightarrow>
                (\<exists>e'. map_of kvs' phase = Some (JObj e') \<and> map_of e' ''status'' = Some (JStr ''completed'')))
           \<and> (\<forall>n. nxt = Some n \<longrightarrow>
                (\<exists>e'. map_of kvs' n = Some (JObj e') \<and> map_of e' ''status'' = Some (JStr ''in_progress'')))
           \<and> (\<forall>q. q \<noteq> phase \<and> nxt \<noteq> Some q \<longrightarrow> map_of kvs' q = map_of kvs q)"
proof -
  obtain kvs2 where s1: "advance_phases (JObj kvs) now phase None = Inr (JObj kvs2)"
    and c: "map_of kvs phase \<noteq> None \<longrightarrow>
              (\<exists>e'. map_of kvs2 phase = Some (JObj e') \<and> map_of e' ''status'' = Some (JStr ''completed''))"
    and o: "\<And>q. q \<noteq> phase \<Longrightarrow> map_of kvs2 q = map_of kvs q"
  proof (cases "map_of kvs phase")
    case None
    then show ?thesis
      using that [of kvs] by (simp add: advance_phases_absent)
  next
    case (Some d)
    with D obtain e where e: "d = JObj e" by (blast dest: dict_entry)
    from Some e A have st: "kwarg e ''status'' (JStr ''pending'') = JStr ''in_progress''"
      by (simp add: entry_allows_def)
    from completed_entry_status [of now e] obtain e' where
      e': "completed_entry now e = JObj e'" "map_of e' ''status'' = Some (JStr ''completed'')"
      by blast
    show ?thesis
      using that [of "AList.update phase (completed_entry now e) kvs"] Some e st e'
      by (simp add: advance_phases_present update_conv')
  qed
  show ?thesis
  proof (cases nxt)
    case None
    with s1 c o show ?thesis by auto
  next
    case (Some n)
    from N [OF Some] have n: "map_of kvs n \<noteq> None" "n \<noteq> phase" by auto
    with o have "map_of kvs2 n = map_of kvs n" by simp
    with n obtain d where d: "map_of kvs n = Some d" "map_of kvs2 n = Some d" by auto
    with D obtain en where en: "d = JObj en" by (blast dest: dict_entry)
    from started_entry_status [of now en] obtain e' where
      e': "started_entry now en = JObj e'" "map_of e' ''status'' = Some (JStr ''in_progress'')"
      by blast
    have "advance_phases (JObj kvs) now phase nxt
            = Inr (JObj (AList.update n (started_entry now en) kvs2))"
      using d en by (simp add: Some advance_phases_next s1 start_next_dict)
    then show ?thesis
      using c o n e' Some by (auto simp: update_conv')
  qed
qed

lemma advance_phase_loaded:
  assumes "phase \<in> set PHASE_ORDER" and "load_manifest_unlocked w = Inr m"
  shows "advance_phase True now w phase =
     (case enforce_gate w phase (next_phase_of phase) of
        Inl e \<Rightarrow> (Inl e, w)
      | Inr u \<Rightarrow>
          (case advance_phases (m_phases m) now phase (next_phase_of phase) of
             Inl e \<Rightarrow> (Inl e, w)
           | Inr phases' \<Rightarrow>
               (Inr \<lparr> r_phase = phase, r_status = ''completed'', r_artifacts = [],
                      r_started_at = [], r_completed_at = now, r_error = [] \<rparr>,
                w\<lparr>manifest_file := Doc (asdict_manifest (m\<lparr>m_phases := phases'\<rparr>))\<rparr>)))"
  using assms by (simp add: advance_phase_def save_manifest_unlocked_def split: sum.splits)

lemma advance_phase_raise_keeps_world:
  assumes a: "fst (advance_phase write_ok now w phase) = Inl e"
  shows "snd (advance_phase write_ok now w phase) = w"
proof -
  obtain r w' where rw: "advance_phase write_ok now w phase = (r, w')"
    by (cases "advance_phase write_ok now w phase")
  from rw show ?thesis
  proof (cases rule: advance_phase_cases)
    case (raised e)
    with rw show ?thesis by simp
  next
    case (saved m phases')
    with rw a show ?thesis by simp
  qed
qed

lemma entry_allows_iff:
  assumes "load_manifest_unlocked w = Inr m" and "m_phases m = JObj kvs"
    and "list_all (\<lambda>kv. is_dict (snd kv)) kvs" and "phase \<in> set PHASE_ORDER"
  shows "entry_allows kvs phase \<longleftrightarrow>
           (py_contains phase (m_phases m) = Inr False
            \<or> get_phase_status w phase = Inr (JStr ''in_progress''))"
proof (cases "map_of kvs phase")
  case None
  then show ?thesis
    using assms by (simp add: entry_allows_def has_key_iff)
next
  case (Some d)
  with assms(3) obtain e where "d = JObj e" by (blast dest: dict_entry)
  with Some show ?thesis
    using assms
    by (simp add: entry_allows_def has_key_iff get_phase_status_def load_manifest_def kwarg_def)
qed

lemma status_after:
  assumes "load_manifest_unlocked w' = Inr m'" and "m_phases m' = JObj kvs'"
    and "map_of kvs' q = Some (JObj e')" and "map_of e' ''status'' = Some st"
    and "q \<in> set PHASE_ORDER"
  shows "get_phase_status w' q = Inr st"
  using assms by (simp add: get_phase_status_def load_manifest_def)

lemma status_same:
  assumes "load_manifest_unlocked w' = Inr m'" and "m_phases m' = JObj kvs'"
    and "load_manifest_unlocked w = Inr m" and "m_phases m = JObj kvs"
    and "map_of kvs' q = map_of kvs q"
  shows "get_phase_status w' q = get_phase_status w q"
  using assms by (simp add: get_phase_status_def load_manifest_def)

lemma advance_phase_on_dicts:
  assumes L: "load_manifest_unlocked w = Inr m" and DD: "dict_of_dicts (m_phases m)"
    and P: "phase \<in> set PHASE_ORDER"
    and S: "\<forall>nxt. next_phase_of phase = Some nxt \<longrightarrow> py_contains nxt (m_phases m) = Inr True"
  shows "((\<exists>r. fst (advance_phase True now w phase) = Inr r)
           \<longleftrightarrow> (py_contains phase (m_phases m) = Inr False
                  \<or> get_phase_status w phase = Inr (JStr ''in_progress''))
               \<and> (next_phase_of phase = None
                  \<or> (\<exists>nxt reason. next_phase_of phase = Some nxt
                        \<and> check_phase_gate_unlocked w phase nxt = Inr (True, reason))))
       \<and> (\<forall>r. fst (advance_phase True now w phase) = Inr r \<longrightarrow>
             (py_contains phase (m_phases m) = Inr True \<longrightarrow>
                get_phase_status (snd (advance_phase True now w phase)) phase
                  = Inr (JStr ''completed''))
           \<and> (\<forall>nxt. next_phase_of phase = Some nxt \<longrightarrow>
                get_phase_status (snd (advance_phase True now w phase)) nxt
                  = Inr (JStr ''in_progress''))
           \<and> (\<forall>q. q \<noteq> phase \<and> next_phase_of phase \<noteq> Some q \<longrightarrow>
                get_phase_status (snd (advance_phase True now w phase)) q
                  = get_phase_status w q)
           \<and> (\<exists>phases'. snd (advance_phase True now w phase)
                  = w\<lparr>manifest_file := Doc (asdict_manifest (m\<lparr>m_phases := phases'\<rparr>))\<rparr>))"
proof -
  from DD obtain kvs where kvs: "m_phases m = JObj kvs"
    and D: "list_all (\<lambda>kv. is_dict (snd kv)) kvs"
    by (auto simp: dict_of_dicts_def split: json.splits)
  let ?nxt = "next_phase_of phase"
  let ?gate = "enforce_gate w phase ?nxt = Inr ()"
  have N: "\<And>n. ?nxt = Some n \<Longrightarrow> map_of kvs n \<noteq> None \<and> n \<noteq> phase"
    using S kvs by (auto simp: has_key_iff next_phase_differs)
  have allows: "entry_allows kvs phase \<longleftrightarrow>
           (py_contains phase (m_phases m) = Inr False
            \<or> get_phase_status w phase = Inr (JStr ''in_progress''))"
    by (rule entry_allows_iff [OF L kvs D P])
  have gate: "?gate \<longleftrightarrow> (?nxt = None
                  \<or> (\<exists>nxt reason. ?nxt = Some nxt
                        \<and> check_phase_gate_unlocked w phase nxt = Inr (True, reason)))"
    by (simp add: enforce_gate_passes_iff)
  note run = advance_phase_loaded [OF P L, of now, unfolded kvs]
  show ?thesis
  proof (cases "?gate \<and> entry_allows kvs phase")
    case False
    then have "\<exists>e. fst (advance_phase True now w phase) = Inl e"
    proof (cases ?gate)
      case True
      with False have "\<not> entry_allows kvs phase" by simp
      from advance_phases_refused [where now = now and nxt = "?nxt", OF D this] True
      show ?thesis
        by (auto simp: run)
    next
      case False
      then obtain e where "enforce_gate w phase ?nxt = Inl e"
        by (cases "enforce_gate w phase ?nxt") auto
      then show ?thesis by (simp add: run)
    qed
    with False show ?thesis
      unfolding allows [symmetric] gate [symmetric] by auto
  next
    case True
    from advance_phases_allowed [where phase = phase and nxt = "?nxt" and now = now, OF D _ N]
      True
    obtain kvs' where
      adv: "advance_phases (JObj kvs) now phase ?nxt = Inr (JObj kvs')"
      and c: "map_of kvs phase \<noteq> None \<longrightarrow>
                (\<exists>e'. map_of kvs' phase = Some (JObj e') \<and> map_of e' ''status'' = Some (JStr ''completed''))"
      and n: "\<forall>n. ?nxt = Some n \<longrightarrow>
                (\<exists>e'. map_of kvs' n = Some (JObj e') \<and> map_of e' ''status'' = Some (JStr ''in_progress''))"
      and o: "\<forall>q. q \<noteq> phase \<and> ?nxt \<noteq> Some q \<longrightarrow> map_of kvs' q = map_of kvs q"
      by blast
    let ?m' = "m\<lparr>m_phases := JObj kvs'\<rparr>"
    let ?w' = "w\<lparr>manifest_file := Doc (asdict_manifest ?m')\<rparr>"
    from True adv have res: "advance_phase True now w phase
        = (Inr \<lparr> r_phase = phase, r_status = ''completed'', r_artifacts = [],
                      r_started_at = [], r_completed_at = now, r_error = [] \<rparr>, ?w')"
      by (simp add: run)
    have L': "load_manifest_unlocked ?w' = Inr ?m'" by (rule load_saved_manifest)
    have k': "m_phases ?m' = JObj kvs'" by simp
    have c': "py_contains phase (m_phases m) = Inr True \<longrightarrow>
                get_phase_status ?w' phase = Inr (JStr ''completed'')"
      using c status_after [OF L' k' _ _ P] by (auto simp: kvs has_key_iff)
    have n': "\<forall>nxt. ?nxt = Some nxt \<longrightarrow> get_phase_status ?w' nxt = Inr (JStr ''in_progress'')"
    proof (intro allI impI)
      fix nxt assume a: "?nxt = Some nxt"
      then have "nxt \<in> set PHASE_ORDER"
        by (auto simp: next_phase_of_def PHASE_ORDER_def split: option.splits if_splits)
      with n a status_after [OF L' k'] show "get_phase_status ?w' nxt = Inr (JStr ''in_progress'')"
        by blast
    qed
    have o': "\<forall>q. q \<noteq> phase \<and> ?nxt \<noteq> Some q \<longrightarrow> get_phase_status ?w' q = get_phase_status w q"
      using o status_same [OF L' k' L kvs] by blast
    show ?thesis
      unfolding allows [symmetric] gate [symmetric] res
      using True c' n' o' by auto
  qed
qed

text \<open>
  Claim C1, amended. Whenever \<^verbatim>\<open>advance_phase\<close> raises, whatever the manifest file holds
  and whether or not the write goes through, the world (the manifest file with it) is
  as it was. For a manifest that loads, whose phases are a dict of dicts with an entry
  for the successor of the phase if it has one, and a write that goes through:
  \<^verbatim>\<open>advance_phase(p)\<close> returns, having written the manifest, if and only if (the phases
  have no entry for \<open>p\<close>, or the status of \<open>p\<close> is \<^verbatim>\<open>in_progress\<close>) and (\<open>p\<close> has no
  successor, or the gate to it passes). What it writes then differs from the manifest
  loaded in the phases only: \<open>p\<close> is completed if it has an entry, the successor is in
  progress, and every other phase has the status it had.
\<close>

theorem advance_phase_writes_iff:
  "(\<forall>e. fst (advance_phase write_ok now w phase) = Inl e
        \<longrightarrow> snd (advance_phase write_ok now w phase) = w)
   \<and> (load_manifest_unlocked w = Inr m \<and> dict_of_dicts (m_phases m) \<and> phase \<in> set PHASE_ORDER
        \<and> (\<forall>nxt. next_phase_of phase = Some nxt \<longrightarrow> py_contains nxt (m_phases m) = Inr True)
      \<longrightarrow>
        ((\<exists>r. fst (advance_phase True now w phase) = Inr r)
           \<longleftrightarrow> (py_contains phase (m_phases m) = Inr False
                  \<or> get_phase_status w phase = Inr (JStr ''in_progress''))
               \<and> (next_phase_of phase = None
                  \<or> (\<exists>nxt reason. next_phase_of phase = Some nxt
                        \<and> check_phase_gate_unlocked w phase nxt = Inr (True, reason))))
       \<and> (\<forall>r. fst (advance_phase True now w phase) = Inr r \<longrightarrow>
             (py_contains phase (m_phases m) = Inr True \<longrightarrow>
                get_phase_status (snd (advance_phase True now w phase)) phase
                  = Inr (JStr ''completed''))
           \<and> (\<forall>nxt. next_phase_of phase = Some nxt \<longrightarrow>
                get_phase_status (snd (advance_phase True now w phase)) nxt
                  = Inr (JStr ''in_progress''))
           \<and> (\<forall>q. q \<noteq> phase \<and> next_phase_of phase \<noteq> Some q \<longrightarrow>
                get_phase_status (snd (advance_phase True now w phase)) q
                  = get_phase_status w q)
           \<and> (\<exists>phases'. snd (advance_phase True now w phase)
                  = w\<lparr>manifest_file := Doc (asdict_manifest (m\<lparr>m_phases := phases'\<rparr>))\<rparr>)))"
  (is "?raise \<and> (?hyps \<longrightarrow> ?writes)")
proof (rule conjI)
  show ?raise
    by (blast intro: advance_phase_raise_keeps_world)
  show "?hyps \<longrightarrow> ?writes"
  proof (rule impI)
    assume ?hyps
    then have h: "load_manifest_unlocked w = Inr m" "dict_of_dicts (m_phases m)"
      "phase \<in> set PHASE_ORDER"
      "\<forall>nxt. next_phase_of phase = Some nxt \<longrightarrow> py_contains nxt (m_phases m) = Inr True"
      by simp_all
    show ?writes
      by (rule advance_phase_on_dicts [OF h])
  qed
qed

lemma demo_advance_without_entry:
  "advance_phase True now (demo_world (JObj [(''guardrail'', phase_doc st s c)])) ''understand''
   = (Inr \<lparr> r_phase = ''understand'', r_status = ''completed'', r_artifacts = [],
            r_started_at = [], r_completed_at = now, r_error = [] \<rparr>,
      demo_world (JObj [(''guardrail'', phase_doc ''in_progress'' now c)]))"
proof -
  have "advance_phases (m_phases (demo_manifest (JObj [(''guardrail'', phase_doc st s c)])))
          now ''understand'' (next_phase_of ''understand'')
        = Inr (JObj [(''guardrail'', phase_doc ''in_progress'' now c)])"
    by (simp add: demo_manifest_phases next_phase_of_simps advance_phases_def
        set_phase_field_def phase_doc_def)
  from advance_phase_saves [OF _ _ load_demo_world this]
  show ?thesis
    by (simp add: PHASE_ORDER_def next_phase_of_simps demo_gates demo_world_saved)
qed

text \<open>
  Claim C1 as stated says \<^verbatim>\<open>advance_phase(p)\<close> mutates the manifest only if the status of
  \<open>p\<close> is \<^verbatim>\<open>in_progress\<close>. The source guards the check with \<^verbatim>\<open>if phase in manifest.phases\<close>:
  on a manifest whose phases have no entry for \<^verbatim>\<open>understand\<close> (its status reads
  \<^verbatim>\<open>pending\<close>), with the gate open, \<^verbatim>\<open>advance_phase("understand")\<close> returns and has put
  \<^verbatim>\<open>guardrail\<close> in progress in the manifest.
\<close>

theorem advance_phase_writes_without_entry:
  "get_phase_status (demo_world (JObj [(''guardrail'', pending_doc)])) ''understand''
     = Inr (JStr ''pending'')
   \<and> check_phase_gate_unlocked (demo_world (JObj [(''guardrail'', pending_doc)]))
        ''understand'' ''guardrail''
     = Inr (True, ''Gate passed: docs generated and seams.json exists'')
   \<and> advance_phase True ''2026-02-24T09:00:00''
        (demo_world (JObj [(''guardrail'', pending_doc)])) ''understand''
     = (Inr \<lparr> r_phase = ''understand'', r_status = ''completed'', r_artifacts = [],
              r_started_at = [], r_completed_at = ''2026-02-24T09:00:00'', r_error = [] \<rparr>,
        demo_world (JObj [(''guardrail'', phase_doc ''in_progress'' ''2026-02-24T09:00:00'' [])]))
   \<and> manifest_file (demo_world (JObj [(''guardrail'', phase_doc ''in_progress'' ''2026-02-24T09:00:00'' [])]))
     \<noteq> manifest_file (demo_world (JObj [(''guardrail'', pending_doc)]))"
proof (intro conjI)
  show "get_phase_status (demo_world (JObj [(''guardrail'', pending_doc)])) ''understand''
     = Inr (JStr ''pending'')"
    by (simp add: get_phase_status_def load_manifest_def load_demo_world PHASE_ORDER_def
        demo_manifest_phases)
  show "check_phase_gate_unlocked (demo_world (JObj [(''guardrail'', pending_doc)]))
        ''understand'' ''guardrail''
     = Inr (True, ''Gate passed: docs generated and seams.json exists'')"
    by (simp add: check_phase_gate_unlocked_def docs_and_seams_gate_def demo_world_def
        PHASE_ORDER_def)
  show "advance_phase True ''2026-02-24T09:00:00''
        (demo_world (JObj [(''guardrail'', pending_doc)])) ''understand''
     = (Inr \<lparr> r_phase = ''understand'', r_status = ''completed'', r_artifacts = [],
              r_started_at = [], r_completed_at = ''2026-02-24T09:00:00'', r_error = [] \<rparr>,
        demo_world (JObj [(''guardrail'', phase_doc ''in_progress'' ''2026-02-24T09:00:00'' [])]))"
    unfolding pending_doc_def by (rule demo_advance_without_entry)
  show "manifest_file (demo_world (JObj [(''guardrail'', phase_doc ''in_progress'' ''2026-02-24T09:00:00'' [])]))
     \<noteq> manifest_file (demo_world (JObj [(''guardrail'', pending_doc)]))"
    by (simp add: demo_world_def asdict_manifest_def demo_manifest_def phase_doc_def pending_doc_def)
qed

lemma demo_migrate_gate_refuses:
  "enforce_gate (demo_world phases) ''migrate'' (Some ''verify'')
     = Inl (RuntimeError (PhaseGateFailed ''Phase gate failed: migration-plan.json not found''))"
  by (simp add: enforce_gate_def check_phase_gate_unlocked_def demo_world_def PHASE_ORDER_def)

text \<open>The amended claim at work on the manifest \<^verbatim>\<open>create_manifest\<close> writes:
  \<^verbatim>\<open>advance_phase("understand")\<close> returns and leaves \<^verbatim>\<open>understand\<close> completed, \<^verbatim>\<open>guardrail\<close>
  in progress and \<^verbatim>\<open>verify\<close> pending; \<^verbatim>\<open>advance_phase("migrate")\<close> raises, there is no plan,
  and leaves the world as it was.\<close>

theorem advance_phase_writes_iff_witness:
  "load_manifest_unlocked (demo_world created_phases) = Inr (demo_manifest created_phases)
   \<and> dict_of_dicts (m_phases (demo_manifest created_phases))
   \<and> ''understand'' \<in> set PHASE_ORDER
   \<and> py_contains ''guardrail'' (m_phases (demo_manifest created_phases)) = Inr True
   \<and> get_phase_status (demo_world created_phases) ''understand'' = Inr (JStr ''in_progress'')
   \<and> check_phase_gate_unlocked (demo_world created_phases) ''understand'' ''guardrail''
       = Inr (True, ''Gate passed: docs generated and seams.json exists'')
   \<and> (\<exists>r. fst (advance_phase True ''2026-02-24T09:00:00'' (demo_world created_phases)
                  ''understand'') = Inr r)
   \<and> get_phase_status
        (snd (advance_phase True ''2026-02-24T09:00:00'' (demo_world created_phases) ''understand''))
        ''understand'' = Inr (JStr ''completed'')
   \<and> get_phase_status
        (snd (advance_phase True ''2026-02-24T09:00:00'' (demo_world created_phases) ''understand''))
        ''guardrail'' = Inr (JStr ''in_progress'')
   \<and> get_phase_status
        (snd (advance_phase True ''2026-02-24T09:00:00'' (demo_world created_phases) ''understand''))
        ''verify'' = Inr (JStr ''pending'')
   \<and> fst (advance_phase True ''2026-02-24T09:00:00'' (demo_world created_phases) ''migrate'')
       = Inl (RuntimeError (PhaseGateFailed ''Phase gate failed: migration-plan.json not found''))
   \<and> snd (advance_phase True ''2026-02-24T09:00:00'' (demo_world created_phases) ''migrate'')
       = demo_world created_phases"
proof -
  let ?w = "demo_world created_phases" and ?m = "demo_manifest created_phases"
  let ?now = "''2026-02-24T09:00:00''"
  have l: "load_manifest_unlocked ?w = Inr ?m" by (rule load_demo_world)
  have d: "dict_of_dicts (m_phases ?m)"
    by (simp add: demo_manifest_phases created_phases_def phases_doc_def phase_doc_def
        pending_doc_def dict_of_dicts_def)
  have p: "''understand'' \<in> set PHASE_ORDER" by (simp add: PHASE_ORDER_def)
  have c: "py_contains ''guardrail'' (m_phases ?m) = Inr True"
    "py_contains ''understand'' (m_phases ?m) = Inr True"
    by (simp_all add: demo_manifest_phases created_phases_def phases_doc_def)
  have s: "get_phase_status ?w ''understand'' = Inr (JStr ''in_progress'')"
    "get_phase_status ?w ''verify'' = Inr (JStr ''pending'')"
    unfolding created_phases_def pending_doc_def by (rule demo_status)+
  have g: "check_phase_gate_unlocked ?w ''understand'' ''guardrail''
             = Inr (True, ''Gate passed: docs generated and seams.json exists'')"
    by (simp add: check_phase_gate_unlocked_def docs_and_seams_gate_def demo_world_def
        PHASE_ORDER_def)
  have n: "next_phase_of ''understand'' = Some ''guardrail''" by (simp add: next_phase_of_simps)
  have f: "fst (advance_phase True ?now ?w ''migrate'')
       = Inl (RuntimeError (PhaseGateFailed ''Phase gate failed: migration-plan.json not found''))"
    by (simp add: advance_phase_def PHASE_ORDER_def next_phase_of_simps
        demo_migrate_gate_refuses)
  note t = advance_phase_writes_iff [of True ?now ?w "''understand''" ?m]
  note t' = advance_phase_writes_iff [of True ?now ?w "''migrate''" ?m]
  from t' f have k: "snd (advance_phase True ?now ?w ''migrate'') = ?w" by blast
  from t l d p c n have w: "(\<exists>r. fst (advance_phase True ?now ?w ''understand'') = Inr r)
      \<longleftrightarrow> (py_contains ''understand'' (m_phases ?m) = Inr False
                  \<or> get_phase_status ?w ''understand'' = Inr (JStr ''in_progress''))
               \<and> (next_phase_of ''understand'' = None
                  \<or> (\<exists>nxt reason. next_phase_of ''understand'' = Some nxt
                        \<and> check_phase_gate_unlocked ?w ''understand'' nxt = Inr (True, reason)))"
    by simp
  from w s g n have r: "\<exists>r. fst (advance_phase True ?now ?w ''understand'') = Inr r"
    by simp
  from t l d p c n r have post:
    "get_phase_status (snd (advance_phase True ?now ?w ''understand'')) ''understand''
       = Inr (JStr ''completed'')"
    "get_phase_status (snd (advance_phase True ?now ?w ''understand'')) ''guardrail''
       = Inr (JStr ''in_progress'')"
    "get_phase_status (snd (advance_phase True ?now ?w ''understand'')) ''verify''
       = get_phase_status ?w ''verify''"
    by auto
  from l d p c(1) s g r post f k show ?thesis by simp
qed

subsection \<open>Checkpoints\<close>

lemma record_checkpoint_raise_keeps_world:
  "record_checkpoint write_ok w tag_name = (Inl e, w') \<Longrightarrow> w' = w"
  by (auto simp: record_checkpoint_def save_manifest_unlocked_def split: sum.splits if_splits)

lemma git_tag_created:
  "git_tag fault w name = (Inr (), w1) \<Longrightarrow>
     fault = None \<and> git_tags w name = None \<and> w1 = w\<lparr>git_tags := (git_tags w)(name \<mapsto> git_head w)\<rparr>"
  by (auto simp: git_tag_def split: option.splits)

text \<open>
  Claim C6, amended. For a valid step id, when the tag is created and the update of the
  manifest (load, append, save) then raises \<open>e\<close>, \<^verbatim>\<open>create_checkpoint\<close> raises \<open>e\<close> after
  running \<^verbatim>\<open>git tag -d\<close>. The manifest file and the metadata files are as before the call.
  If the deletion meets no failure the tag is gone and the whole world is as before the
  call; if it fails (the source logs it and goes on), the tag stays.
\<close>

theorem create_checkpoint_compensation:
  assumes "valid_step_id step_id"
    and "git_tag (tag_fault env) w (tag_name_of step_id) = (Inr (), w1)"
    and "record_checkpoint (manifest_write_ok env) w1 (tag_name_of step_id) = (Inl e, w2)"
  shows "fst (create_checkpoint env now w step_id) = Inl e
       \<and> manifest_file (snd (create_checkpoint env now w step_id)) = manifest_file w
       \<and> checkpoint_files (snd (create_checkpoint env now w step_id)) = checkpoint_files w
       \<and> (delete_fault env = None \<longrightarrow> snd (create_checkpoint env now w step_id) = w)
       \<and> (delete_fault env \<noteq> None \<longrightarrow>
            git_tags (snd (create_checkpoint env now w step_id))
              = (git_tags w)(tag_name_of step_id \<mapsto> git_head w))"
proof -
  from git_tag_created [OF assms(2)] have t: "git_tags w (tag_name_of step_id) = None"
    and w1: "w1 = w\<lparr>git_tags := (git_tags w)(tag_name_of step_id \<mapsto> git_head w)\<rparr>"
    by simp_all
  from record_checkpoint_raise_keeps_world [OF assms(3)] have w2: "w2 = w1" .
  have run: "create_checkpoint env now w step_id
               = (Inl e, snd (git_tag_delete (delete_fault env) w1 (tag_name_of step_id)))"
    using assms by (simp add: create_checkpoint_def w2)
  have same: "(git_tags w)(tag_name_of step_id := None) = git_tags w"
    using t by (simp add: fun_upd_idem)
  show ?thesis
    unfolding run
    by (cases "delete_fault env") (simp_all add: git_tag_delete_def w1 same)
qed

lemma load_manifest_ignores_git:
  "load_manifest_unlocked (w\<lparr>git_tags := g\<rparr>) = load_manifest_unlocked w"
  by (simp add: load_manifest_unlocked_def)

lemma demo_world_repository:
  "git_tags (demo_world phases) = Map.empty" "git_head (demo_world phases) = 0"
  "checkpoint_files (demo_world phases) = (\<lambda>step_id. Absent)"
  by (simp_all add: demo_world_def)

lemma valid_s1: "valid_step_id ''s1''"
  by (simp add: valid_step_id_def safe_char_def)

lemma demo_tag_s1:
  "git_tag None (demo_world phases) (tag_name_of ''s1'')
     = (Inr (), (demo_world phases)\<lparr>git_tags := [tag_name_of ''s1'' \<mapsto> 0]\<rparr>)"
  by (simp add: git_tag_def demo_world_repository)

lemma demo_record_fails:
  "record_checkpoint False ((demo_world phases)\<lparr>git_tags := g\<rparr>) tag
     = (Inl OSError, (demo_world phases)\<lparr>git_tags := g\<rparr>)"
  by (simp add: record_checkpoint_def load_manifest_ignores_git load_demo_world demo_manifest_def
      save_manifest_unlocked_def)

text \<open>
  Claim C6 as stated promises that the tag has been deleted. The deletion is best
  effort: with the save of the manifest failing and \<^verbatim>\<open>git tag -d\<close> failing after it,
  \<^verbatim>\<open>create_checkpoint("s1")\<close> raises the \<^verbatim>\<open>OSError\<close> of the save and the tag
  \<^verbatim>\<open>loki-migrate/s1/pre\<close> still exists.
\<close>

theorem failed_tag_deletion_leaves_tag:
  "valid_step_id ''s1''
   \<and> fst (git_tag (tag_fault failing_delete_env) (demo_world created_phases) (tag_name_of ''s1''))
       = Inr ()
   \<and> fst (record_checkpoint (manifest_write_ok failing_delete_env)
            (snd (git_tag (tag_fault failing_delete_env) (demo_world created_phases)
                    (tag_name_of ''s1'')))
            (tag_name_of ''s1''))
       = Inl OSError
   \<and> fst (create_checkpoint failing_delete_env ''2026-02-24T09:00:00''
            (demo_world created_phases) ''s1'')
       = Inl OSError
   \<and> git_tags (snd (create_checkpoint failing_delete_env ''2026-02-24T09:00:00''
                      (demo_world created_phases) ''s1''))
        (tag_name_of ''s1'')
       = Some 0"
  by (simp add: valid_s1 failing_delete_env_def demo_tag_s1 demo_record_fails
      create_checkpoint_def git_tag_delete_def)

text \<open>The amended claim at work: the save of the manifest fails, the deletion succeeds,
  and the world is as before the call.\<close>

theorem create_checkpoint_compensation_witness:
  "valid_step_id ''s1''
   \<and> git_tag (tag_fault failing_save_env) (demo_world created_phases) (tag_name_of ''s1'')
       = (Inr (), (demo_world created_phases)\<lparr>git_tags := [tag_name_of ''s1'' \<mapsto> 0]\<rparr>)
   \<and> record_checkpoint (manifest_write_ok failing_save_env)
         ((demo_world created_phases)\<lparr>git_tags := [tag_name_of ''s1'' \<mapsto> 0]\<rparr>)
         (tag_name_of ''s1'')
       = (Inl OSError, (demo_world created_phases)\<lparr>git_tags := [tag_name_of ''s1'' \<mapsto> 0]\<rparr>)
   \<and> fst (create_checkpoint failing_save_env ''2026-02-24T09:00:00''
            (demo_world created_phases) ''s1'')
       = Inl OSError
   \<and> snd (create_checkpoint failing_save_env ''2026-02-24T09:00:00''
            (demo_world created_phases) ''s1'')
       = demo_world created_phases
   \<and> git_tags (snd (create_checkpoint failing_save_env ''2026-02-24T09:00:00''
                      (demo_world created_phases) ''s1''))
        (tag_name_of ''s1'')
       = None"
proof -
  have t: "git_tag (tag_fault failing_save_env) (demo_world created_phases) (tag_name_of ''s1'')
       = (Inr (), (demo_world created_phases)\<lparr>git_tags := [tag_name_of ''s1'' \<mapsto> 0]\<rparr>)"
    by (simp add: failing_save_env_def demo_tag_s1)
  have r: "record_checkpoint (manifest_write_ok failing_save_env)
         ((demo_world created_phases)\<lparr>git_tags := [tag_name_of ''s1'' \<mapsto> 0]\<rparr>)
         (tag_name_of ''s1'')
       = (Inl OSError, (demo_world created_phases)\<lparr>git_tags := [tag_name_of ''s1'' \<mapsto> 0]\<rparr>)"
    by (simp add: failing_save_env_def demo_record_fails)
  have d: "delete_fault failing_save_env = None"
    by (simp add: failing_save_env_def)
  from create_checkpoint_compensation [OF valid_s1 t r, of "''2026-02-24T09:00:00''"] d
  have c: "fst (create_checkpoint failing_save_env ''2026-02-24T09:00:00''
            (demo_world created_phases) ''s1'') = Inl OSError"
    "snd (create_checkpoint failing_save_env ''2026-02-24T09:00:00''
            (demo_world created_phases) ''s1'') = demo_world created_phases"
    by simp_all
  show ?thesis
    using valid_s1 t r c by (simp add: demo_world_repository)
qed

lemma tag_name_of_inject [simp]: "tag_name_of a = tag_name_of b \<longleftrightarrow> a = b"
  by (simp add: tag_name_of_def)

lemma record_checkpoint_saved:
  assumes "record_checkpoint write_ok w tag = (Inr u, w')"
  obtains m xs where "load_manifest_unlocked w = Inr m" and "m_checkpoints m = JArr xs"
    and "w' = w\<lparr>manifest_file := Doc (asdict_manifest (m\<lparr>m_checkpoints := JArr (xs @ [JStr tag])\<rparr>))\<rparr>"
proof -
  from assms obtain m where m: "load_manifest_unlocked w = Inr m"
    by (auto simp: record_checkpoint_def split: sum.splits)
  with assms obtain c where c: "py_append (m_checkpoints m) (JStr tag) = Inr c"
    by (auto simp: record_checkpoint_def split: sum.splits)
  then obtain xs where xs: "m_checkpoints m = JArr xs" "c = JArr (xs @ [JStr tag])"
    by (cases "m_checkpoints m") auto
  from assms m c xs have "w' = w\<lparr>manifest_file := Doc (asdict_manifest (m\<lparr>m_checkpoints := JArr (xs @ [JStr tag])\<rparr>))\<rparr>"
    by (auto simp: record_checkpoint_def save_manifest_unlocked_def split: if_splits)
  with m xs show ?thesis using that by blast
qed

lemma create_checkpoint_cases:
  assumes "create_checkpoint env now w step_id = (r, w')"
  obtains (unchanged) e where "r = Inl e" and "w' = w"
  | (orphan) e where "r = Inl e" and "git_tags w (tag_name_of step_id) = None"
      and "w' = w\<lparr>git_tags := (git_tags w)(tag_name_of step_id \<mapsto> git_head w)\<rparr>"
  | (recorded) m xs where "valid_step_id step_id" and "git_tags w (tag_name_of step_id) = None"
      and "load_manifest_unlocked w = Inr m" and "m_checkpoints m = JArr xs"
      and "\<not> meta_write_ok env" and "r = Inl OSError"
      and "w' = w\<lparr>git_tags := (git_tags w)(tag_name_of step_id \<mapsto> git_head w),
                   manifest_file := Doc (asdict_manifest
                     (m\<lparr>m_checkpoints := JArr (xs @ [JStr (tag_name_of step_id)])\<rparr>))\<rparr>"
  | (complete) m xs where "valid_step_id step_id" and "git_tags w (tag_name_of step_id) = None"
      and "load_manifest_unlocked w = Inr m" and "m_checkpoints m = JArr xs"
      and "meta_write_ok env" and "r = Inr (tag_name_of step_id)"
      and "w' = w\<lparr>git_tags := (git_tags w)(tag_name_of step_id \<mapsto> git_head w),
                   manifest_file := Doc (asdict_manifest
                     (m\<lparr>m_checkpoints := JArr (xs @ [JStr (tag_name_of step_id)])\<rparr>)),
                   checkpoint_files := (checkpoint_files w)
                     (step_id := Doc (checkpoint_meta step_id (tag_name_of step_id) now))\<rparr>"
proof (cases "valid_step_id step_id")
  case False
  with assms show ?thesis using unchanged by (auto simp: create_checkpoint_def Let_def)
next
  case v: True
  let ?t = "tag_name_of step_id"
  obtain g w1 where g: "git_tag (tag_fault env) w ?t = (g, w1)" by (cases "git_tag (tag_fault env) w ?t")
  show ?thesis
  proof (cases g)
    case (Inl stderr)
    with g have "w1 = w" by (auto simp: git_tag_def split: option.splits)
    with assms v g Inl show ?thesis using unchanged by (auto simp: create_checkpoint_def Let_def)
  next
    case (Inr u)
    with g git_tag_created [of "tag_fault env" w ?t w1]
    have t: "git_tags w ?t = None"
      and w1: "w1 = w\<lparr>git_tags := (git_tags w)(?t \<mapsto> git_head w)\<rparr>" by auto
    obtain c w2 where c: "record_checkpoint (manifest_write_ok env) w1 ?t = (c, w2)"
      by (cases "record_checkpoint (manifest_write_ok env) w1 ?t")
    show ?thesis
    proof (cases c)
      case (Inl e)
      with c have w2: "w2 = w1" by (auto dest: record_checkpoint_raise_keeps_world)
      from assms v g Inr c Inl w2
      have res: "r = Inl e" "w' = snd (git_tag_delete (delete_fault env) w1 ?t)"
        by (auto simp: create_checkpoint_def Let_def)
      show ?thesis
      proof (cases "delete_fault env")
        case None
        with res w1 t have "w' = w"
          by (simp add: git_tag_delete_def fun_upd_idem)
        with res show ?thesis using unchanged by blast
      next
        case (Some s)
        with res w1 have "w' = w\<lparr>git_tags := (git_tags w)(?t \<mapsto> git_head w)\<rparr>"
          by (simp add: git_tag_delete_def)
        with res t show ?thesis using orphan by blast
      qed
    next
      case r2: (Inr u2)
      with c obtain m xs where m: "load_manifest_unlocked w1 = Inr m" "m_checkpoints m = JArr xs"
        and w2: "w2 = w1\<lparr>manifest_file := Doc (asdict_manifest (m\<lparr>m_checkpoints := JArr (xs @ [JStr ?t])\<rparr>))\<rparr>"
        by (auto elim: record_checkpoint_saved)
      from m w1 have m': "load_manifest_unlocked w = Inr m"
        by (simp add: load_manifest_ignores_git)
      show ?thesis
      proof (cases "meta_write_ok env")
        case True
        with assms v g Inr c r2 w2 w1
        have "r = Inr ?t" and "w' = w\<lparr>git_tags := (git_tags w)(?t \<mapsto> git_head w),
                   manifest_file := Doc (asdict_manifest (m\<lparr>m_checkpoints := JArr (xs @ [JStr ?t])\<rparr>)),
                   checkpoint_files := (checkpoint_files w)
                     (step_id := Doc (checkpoint_meta step_id ?t now))\<rparr>"
          by (auto simp: create_checkpoint_def Let_def)
        with v t m' m(2) True show ?thesis using complete by blast
      next
        case False
        with assms v g Inr c r2 w2 w1
        have "r = Inl OSError" and "w' = w\<lparr>git_tags := (git_tags w)(?t \<mapsto> git_head w),
                   manifest_file := Doc (asdict_manifest (m\<lparr>m_checkpoints := JArr (xs @ [JStr ?t])\<rparr>))\<rparr>"
          by (auto simp: create_checkpoint_def Let_def)
        with v t m' m(2) False show ?thesis using recorded by blast
      qed
    qed
  qed
qed

lemma load_manifest_ignores_head:
  "load_manifest_unlocked (w\<lparr>git_head := c\<rparr>) = load_manifest_unlocked w"
  by (simp add: load_manifest_unlocked_def)

lemma load_manifest_ignores_checkpoint_files:
  "load_manifest_unlocked (w\<lparr>checkpoint_files := f\<rparr>) = load_manifest_unlocked w"
  by (simp add: load_manifest_unlocked_def)

lemma rollback_cases:
  assumes "rollback_to_checkpoint fault w step_id = (r, w')"
  obtains "w' = w" | c where "w' = w\<lparr>git_head := c\<rparr>"
  using assms
  by (auto simp: rollback_to_checkpoint_def git_reset_hard_def split: if_splits option.splits)

lemma consistentI:
  assumes "load_manifest_unlocked w = Inr m" and "m_checkpoints m = JArr (map JStr tags)"
    and "distinct tags"
    and "\<And>t. t \<in> set tags \<Longrightarrow> git_tags w t \<noteq> None
              \<and> (\<exists>step_id. valid_step_id step_id \<and> t = tag_name_of step_id
                    \<and> (strict \<longrightarrow> (\<exists>now. checkpoint_files w step_id
                                        = Doc (checkpoint_meta step_id t now))))"
  shows "checkpoints_consistent strict w"
  unfolding checkpoints_consistent_def using assms by blast

lemma consistentE:
  assumes "checkpoints_consistent strict w"
  obtains m tags where "load_manifest_unlocked w = Inr m"
    and "m_checkpoints m = JArr (map JStr tags)" and "distinct tags"
    and "\<And>t. t \<in> set tags \<Longrightarrow> git_tags w t \<noteq> None"
    and "\<And>t. t \<in> set tags \<Longrightarrow> \<exists>step_id. valid_step_id step_id \<and> t = tag_name_of step_id
                    \<and> (strict \<longrightarrow> (\<exists>now. checkpoint_files w step_id
                                        = Doc (checkpoint_meta step_id t now)))"
  using assms unfolding checkpoints_consistent_def by blast

lemma created_consistent:
  assumes inv: "checkpoints_consistent strict w" and s: "strict \<longrightarrow> meta_write_ok env"
    and run: "create_checkpoint env now w step_id = (r, w')"
  shows "checkpoints_consistent strict w'"
proof -
  from inv obtain m tags where m: "load_manifest_unlocked w = Inr m"
    and c: "m_checkpoints m = JArr (map JStr tags)" and d: "distinct tags"
    and g: "\<And>t. t \<in> set tags \<Longrightarrow> git_tags w t \<noteq> None"
    and v: "\<And>t. t \<in> set tags \<Longrightarrow> \<exists>sid. valid_step_id sid \<and> t = tag_name_of sid
                    \<and> (strict \<longrightarrow> (\<exists>now. checkpoint_files w sid
                                        = Doc (checkpoint_meta sid t now)))"
    by (rule consistentE) blast
  let ?t = "tag_name_of step_id"
  from run show ?thesis
  proof (cases rule: create_checkpoint_cases)
    case (unchanged e)
    with inv show ?thesis by simp
  next
    case (orphan e)
    show ?thesis
    proof (rule consistentI [where m = m and tags = tags])
      show "load_manifest_unlocked w' = Inr m"
        by (simp add: orphan(3) load_manifest_ignores_git m)
      show "m_checkpoints m = JArr (map JStr tags)" by (rule c)
      show "distinct tags" by (rule d)
      fix t assume t: "t \<in> set tags"
      from g [OF t] v [OF t]
      show "git_tags w' t \<noteq> None
              \<and> (\<exists>step_id. valid_step_id step_id \<and> t = tag_name_of step_id
                    \<and> (strict \<longrightarrow> (\<exists>now. checkpoint_files w' step_id
                                        = Doc (checkpoint_meta step_id t now))))"
        by (simp add: orphan(3))
    qed
  next
    case (recorded m2 xs)
    from recorded(3,4) m c have xs: "xs = map JStr tags" by simp
    from recorded(5) s have ns: "\<not> strict" by blast
    from g [of ?t] recorded(2) have fresh: "?t \<notin> set tags" by blast
    let ?m' = "m\<lparr>m_checkpoints := JArr (map JStr (tags @ [?t]))\<rparr>"
    show ?thesis
    proof (rule consistentI [where m = ?m' and tags = "tags @ [?t]"])
      from recorded(3,7) m xs show "load_manifest_unlocked w' = Inr ?m'"
        by (simp add: load_saved_manifest)
      show "m_checkpoints ?m' = JArr (map JStr (tags @ [?t]))" by simp
      from d fresh show "distinct (tags @ [?t])" by simp
      fix t assume t: "t \<in> set (tags @ [?t])"
      show "git_tags w' t \<noteq> None
              \<and> (\<exists>step_id. valid_step_id step_id \<and> t = tag_name_of step_id
                    \<and> (strict \<longrightarrow> (\<exists>now. checkpoint_files w' step_id
                                        = Doc (checkpoint_meta step_id t now))))"
      proof (cases "t = ?t")
        case True
        with recorded(1) ns show ?thesis by (auto simp: recorded(7))
      next
        case False
        with t have "t \<in> set tags" by simp
        from g [OF this] v [OF this] ns show ?thesis by (auto simp: recorded(7))
      qed
    qed
  next
    case (complete m2 xs)
    from complete(3,4) m c have xs: "xs = map JStr tags" by simp
    from g [of ?t] complete(2) have fresh: "?t \<notin> set tags" by blast
    let ?m' = "m\<lparr>m_checkpoints := JArr (map JStr (tags @ [?t]))\<rparr>"
    show ?thesis
    proof (rule consistentI [where m = ?m' and tags = "tags @ [?t]"])
      from complete(3,7) m xs show "load_manifest_unlocked w' = Inr ?m'"
        by (simp add: load_manifest_ignores_checkpoint_files load_saved_manifest)
      show "m_checkpoints ?m' = JArr (map JStr (tags @ [?t]))" by simp
      from d fresh show "distinct (tags @ [?t])" by simp
      fix t assume t: "t \<in> set (tags @ [?t])"
      show "git_tags w' t \<noteq> None
              \<and> (\<exists>step_id. valid_step_id step_id \<and> t = tag_name_of step_id
                    \<and> (strict \<longrightarrow> (\<exists>now. checkpoint_files w' step_id
                                        = Doc (checkpoint_meta step_id t now))))"
      proof (cases "t = ?t")
        case True
        with complete(1) show ?thesis by (auto simp: complete(7))
      next
        case False
        with t have t': "t \<in> set tags" by simp
        from v [OF t'] obtain sid where sid: "valid_step_id sid" "t = tag_name_of sid"
          "strict \<longrightarrow> (\<exists>now. checkpoint_files w sid = Doc (checkpoint_meta sid t now))"
          by blast
        from False sid(2) have "sid \<noteq> step_id" by auto
        with sid g [OF t'] show ?thesis by (auto simp: complete(7))
      qed
    qed
  qed
qed

lemma rolled_back_consistent:
  assumes inv: "checkpoints_consistent strict w"
    and run: "rollback_to_checkpoint fault w step_id = (r, w')"
  shows "checkpoints_consistent strict w'"
  using run
proof (cases rule: rollback_cases)
  case 1
  with inv show ?thesis by simp
next
  case (2 c)
  from inv show ?thesis
    unfolding checkpoints_consistent_def 2
    by (simp add: load_manifest_ignores_head)
qed

lemma reachable_consistent:
  "checkpoint_reachable strict w \<Longrightarrow> checkpoints_consistent strict w"
proof (induction rule: checkpoint_reachable.induct)
  case (fresh w m)
  then show ?case
    by (intro consistentI [where m = m and tags = "[]"]) simp_all
next
  case (created w env now step_id r w')
  from created.IH created.hyps(2,3) show ?case by (rule created_consistent)
next
  case (rolled_back w fault step_id r' w')
  from rolled_back.IH rolled_back.hyps(2) show ?case by (rule rolled_back_consistent)
qed

lemma persisted_loaded:
  "load_manifest_unlocked w = Inr m \<Longrightarrow> m_checkpoints m = JArr xs \<Longrightarrow> persisted_checkpoints w = xs"
  by (simp add: persisted_checkpoints_def)

text \<open>
  Claim C9, amended. A \<^verbatim>\<open>create_checkpoint(step_id)\<close> that returns has a valid step id,
  returns the tag \<^verbatim>\<open>loki-migrate/<step_id>/pre\<close>, and leaves that tag on the commit checked
  out, appended to the checkpoint list of the manifest, and named with the step id in
  \<^verbatim>\<open>checkpoints/<step_id>.json\<close>. In every world reached by checkpoint operations, failed
  ones included, from a manifest with an empty checkpoint list, the entries of the list
  are distinct, and each is the tag of a valid step id and exists in the repository; if
  no call met a failing write of the metadata file (\<open>strict\<close>), each entry also has its
  metadata file, holding that step id and tag.
\<close>

theorem checkpoint_entries_correspond:
  "(create_checkpoint env now w step_id = (Inr tag, w') \<longrightarrow>
      valid_step_id step_id \<and> tag = tag_name_of step_id
      \<and> git_tags w' tag = Some (git_head w)
      \<and> persisted_checkpoints w' = persisted_checkpoints w @ [JStr tag]
      \<and> checkpoint_files w' step_id = Doc (checkpoint_meta step_id tag now))
   \<and> (checkpoint_reachable strict v \<longrightarrow>
        distinct (persisted_checkpoints v)
        \<and> (\<forall>x \<in> set (persisted_checkpoints v).
              \<exists>sid. valid_step_id sid \<and> x = JStr (tag_name_of sid)
                \<and> git_tags v (tag_name_of sid) \<noteq> None
                \<and> (strict \<longrightarrow> (\<exists>t. checkpoint_files v sid
                                    = Doc (checkpoint_meta sid (tag_name_of sid) t)))))"
  (is "(?run \<longrightarrow> ?post) \<and> (?reach \<longrightarrow> ?inv)")
proof (rule conjI; rule impI)
  assume run: ?run
  from run show ?post
  proof (cases rule: create_checkpoint_cases)
    case (complete m xs)
    have l: "load_manifest_unlocked w'
               = Inr (m\<lparr>m_checkpoints := JArr (xs @ [JStr (tag_name_of step_id)])\<rparr>)"
      by (simp add: complete(7) load_manifest_ignores_checkpoint_files load_saved_manifest)
    have "persisted_checkpoints w' = xs @ [JStr (tag_name_of step_id)]"
      by (rule persisted_loaded [OF l]) simp
    moreover have "persisted_checkpoints w = xs"
      by (rule persisted_loaded [OF complete(3,4)])
    ultimately show ?post
      using complete(1,6) by (simp add: complete(7))
  qed simp_all
next
  assume ?reach
  then have "checkpoints_consistent strict v" by (rule reachable_consistent)
  then obtain m tags where m: "load_manifest_unlocked v = Inr m"
    and c: "m_checkpoints m = JArr (map JStr tags)" and d: "distinct tags"
    and g: "\<And>t. t \<in> set tags \<Longrightarrow> git_tags v t \<noteq> None"
    and s: "\<And>t. t \<in> set tags \<Longrightarrow> \<exists>sid. valid_step_id sid \<and> t = tag_name_of sid
                    \<and> (strict \<longrightarrow> (\<exists>now. checkpoint_files v sid
                                        = Doc (checkpoint_meta sid t now)))"
    by (rule consistentE) blast
  have p: "persisted_checkpoints v = map JStr tags"
    by (rule persisted_loaded [OF m c])
  show ?inv
  proof (intro conjI ballI)
    from d show "distinct (persisted_checkpoints v)"
      by (simp add: p distinct_map inj_on_def)
    fix x assume "x \<in> set (persisted_checkpoints v)"
    then obtain t where t: "t \<in> set tags" "x = JStr t" by (auto simp: p)
    from s [OF t(1)] obtain sid where "valid_step_id sid" "t = tag_name_of sid"
      "strict \<longrightarrow> (\<exists>now. checkpoint_files v sid = Doc (checkpoint_meta sid t now))"
      by blast
    with g [OF t(1)] t(2)
    show "\<exists>sid. valid_step_id sid \<and> x = JStr (tag_name_of sid)
                \<and> git_tags v (tag_name_of sid) \<noteq> None
                \<and> (strict \<longrightarrow> (\<exists>t. checkpoint_files v sid
                                    = Doc (checkpoint_meta sid (tag_name_of sid) t)))"
      by blast
  qed
qed

lemma demo_record_saves:
  "record_checkpoint True ((demo_world created_phases)\<lparr>git_tags := [tag_name_of ''s1'' \<mapsto> 0]\<rparr>)
     (tag_name_of ''s1'')
   = (Inr (), recorded_world)"
  by (simp add: record_checkpoint_def load_manifest_ignores_git load_demo_world demo_manifest_def
      save_manifest_unlocked_def recorded_world_def)

lemma recorded_world_persisted:
  "persisted_checkpoints (recorded_world\<lparr>checkpoint_files := f\<rparr>) = [JStr (tag_name_of ''s1'')]"
  "persisted_checkpoints recorded_world = [JStr (tag_name_of ''s1'')]"
  by (simp_all add: persisted_checkpoints_def recorded_world_def load_manifest_unlocked_def
      asdict_manifest_def kwarg_def)

text \<open>
  Claim C9 as stated covers every state reached by checkpoint operations. The metadata
  file is written last, outside any compensation: when that write fails,
  \<^verbatim>\<open>create_checkpoint("s1")\<close> raises and leaves the tag in the repository and in the
  checkpoint list of the manifest, with no \<^verbatim>\<open>checkpoints/s1.json\<close>.
\<close>

theorem failed_metadata_write_leaves_entry:
  "create_checkpoint failing_meta_env ''2026-02-24T09:00:00'' (demo_world created_phases) ''s1''
     = (Inl OSError, recorded_world)
   \<and> persisted_checkpoints recorded_world = [JStr (tag_name_of ''s1'')]
   \<and> git_tags recorded_world (tag_name_of ''s1'') = Some 0
   \<and> checkpoint_files recorded_world ''s1'' = Absent"
  by (simp add: create_checkpoint_def valid_s1 failing_meta_env_def demo_tag_s1
      demo_record_saves recorded_world_persisted)
     (simp add: recorded_world_def demo_world_repository)

lemma demo_checkpoint_created:
  "create_checkpoint healthy_env ''2026-02-24T09:00:00'' (demo_world created_phases) ''s1''
     = (Inr (tag_name_of ''s1''), checkpointed_world)"
  by (simp add: create_checkpoint_def valid_s1 healthy_env_def demo_tag_s1
      demo_record_saves checkpointed_world_def Let_def)
     (simp add: recorded_world_def demo_world_repository)

text \<open>The amended claim at work: after \<^verbatim>\<open>create_checkpoint("s1")\<close> in the demo world,
  with nothing failing.\<close>

theorem checkpoint_entries_correspond_witness:
  "create_checkpoint healthy_env ''2026-02-24T09:00:00'' (demo_world created_phases) ''s1''
     = (Inr (tag_name_of ''s1''), checkpointed_world)
   \<and> checkpoint_reachable True checkpointed_world
   \<and> valid_step_id ''s1''
   \<and> git_tags checkpointed_world (tag_name_of ''s1'') = Some 0
   \<and> persisted_checkpoints checkpointed_world = [JStr (tag_name_of ''s1'')]
   \<and> checkpoint_files checkpointed_world ''s1''
       = Doc (checkpoint_meta ''s1'' (tag_name_of ''s1'') ''2026-02-24T09:00:00'')
   \<and> distinct (persisted_checkpoints checkpointed_world)"
proof -
  let ?w = "demo_world created_phases"
  have m: "m_checkpoints (demo_manifest created_phases) = JArr []"
    by (simp add: demo_manifest_def)
  have f: "checkpoint_reachable True ?w"
    by (rule checkpoint_reachable.fresh [OF load_demo_world m])
  have h: "True \<longrightarrow> meta_write_ok healthy_env" by (simp add: healthy_env_def)
  have r: "checkpoint_reachable True checkpointed_world"
    by (rule checkpoint_reachable.created [OF f h demo_checkpoint_created])
  have e: "persisted_checkpoints ?w = []"
    by (rule persisted_loaded [OF load_demo_world m])
  have g: "git_head ?w = 0" by (rule demo_world_repository)
  from checkpoint_entries_correspond [of healthy_env "''2026-02-24T09:00:00''" ?w "''s1''"
      "tag_name_of ''s1''" checkpointed_world True checkpointed_world]
    demo_checkpoint_created r e g
  show ?thesis by simp
qed

subsection \<open>Progress report\<close>

lemma feature_stats_absent: "features_file w = Absent \<Longrightarrow> feature_stats w = Inr (0, 0)"
  by (simp add: feature_stats_def load_features_def)

lemma step_stats_absent: "plan_file w = Absent \<Longrightarrow> step_stats w = Inr (0, 0, None, 0)"
  by (simp add: step_stats_def load_plan_def)

lemma py_get_dict_entry:
  assumes "list_all (\<lambda>kv. is_dict (snd kv)) kvs"
  shows "\<exists>e. py_get (JObj kvs) phase (JObj []) = Inr (JObj e)"
proof (cases "map_of kvs phase")
  case None
  then show ?thesis by simp
next
  case (Some d)
  with assms obtain e where "d = JObj e" by (blast dest: dict_entry)
  with Some show ?thesis by simp
qed

lemma phase_scan_step:
  assumes "py_get phases phase (JObj []) = Inr (JObj e)"
  shows "phase_scan phases (phase # rest) (c, s, d) =
           (if kwarg e ''status'' (JStr ''pending'') = JStr ''in_progress''
            then Inr (phase, ''in_progress'', d)
            else if kwarg e ''status'' (JStr ''pending'') = JStr ''completed''
            then phase_scan phases rest (phase, ''completed'', d @ [phase])
            else phase_scan phases rest (c, s, d))"
  using assms by (simp add: kwarg_def)

lemma phase_scan_total:
  assumes "list_all (\<lambda>kv. is_dict (snd kv)) kvs"
  shows "\<exists>r. phase_scan (JObj kvs) phases acc = Inr r"
proof (induction phases arbitrary: acc)
  case Nil
  show ?case by (rule exI) (rule phase_scan.simps(1))
next
  case (Cons phase rest)
  obtain c s d where acc: "acc = (c, s, d)" by (cases acc) auto
  from py_get_dict_entry [OF assms, of phase] obtain e where
    e: "py_get (JObj kvs) phase (JObj []) = Inr (JObj e)" by blast
  from Cons.IH [of "(phase, ''completed'', d @ [phase])"] Cons.IH [of "(c, s, d)"]
  show ?case
    unfolding acc phase_scan_step [OF e] by (auto simp del: split_paired_Ex)
qed

lemma last_checkpoint_typed:
  assumes "m_checkpoints m = JArr xs" and "list_all is_str xs"
    and "\<forall>sid. last_checkpoint_step m = Some sid \<longrightarrow>
           read_fault sid = None \<and> (\<forall>d. checkpoint_files w sid = Doc d \<longrightarrow> is_dict d)"
  shows "\<exists>r. last_checkpoint read_fault w m = Inr r
           \<and> (xs = [] \<longrightarrow> r = None)
           \<and> (\<forall>sid. last_checkpoint_step m = Some sid \<and> checkpoint_files w sid = Absent
                 \<longrightarrow> r = Some (last xs, JStr [], JStr []))"
proof (cases "xs = []")
  case True
  with assms(1) show ?thesis by (simp add: last_checkpoint_def last_checkpoint_step_def)
next
  case False
  with assms(2) have "is_str (last xs)" by (simp add: list_all_iff)
  then obtain t where t: "last xs = JStr t" by (cases "last xs") auto
  show ?thesis
  proof (cases "length (split CHR ''/'' t) \<ge> 2")
    case short: False
    with assms(1) False t show ?thesis
      by (simp add: last_checkpoint_def last_checkpoint_step_def)
  next
    case long: True
    let ?sid = "split CHR ''/'' t ! 1"
    from assms(1) False t long have s: "last_checkpoint_step m = Some ?sid"
      by (simp add: last_checkpoint_step_def)
    with assms(3) have nf: "read_fault ?sid = None"
      and dict: "\<forall>d. checkpoint_files w ?sid = Doc d \<longrightarrow> is_dict d"
      by blast+
    show ?thesis
    proof (cases "checkpoint_files w ?sid")
      case Absent
      with assms(1) False t long s nf show ?thesis
        by (simp add: last_checkpoint_def read_checkpoint_meta_def)
    next
      case (Garbage msg)
      with assms(1) False t long s nf show ?thesis
        by (simp add: last_checkpoint_def read_checkpoint_meta_def)
    next
      case (Doc d)
      with dict have "is_dict d" by blast
      then obtain kvs where "d = JObj kvs" by (cases d) auto
      with Doc assms(1) False t long s nf show ?thesis
        by (simp add: last_checkpoint_def read_checkpoint_meta_def)
    qed
  qed
qed

lemma get_progress_assembled:
  assumes "load_manifest w = Inr m" and "dict_of_dicts (m_phases m)"
    and "m_checkpoints m = JArr xs" and "list_all is_str xs"
    and "\<forall>sid. last_checkpoint_step m = Some sid \<longrightarrow>
           read_fault sid = None \<and> (\<forall>d. checkpoint_files w sid = Doc d \<longrightarrow> is_dict d)"
    and "feature_stats w = Inr (ft, fp)" and "step_stats w = Inr (st, sc, cs, ci)"
  shows "\<exists>r. get_progress self read_fault w = Inr r
           \<and> g_features_total r = ft \<and> g_features_passing r = fp
           \<and> g_steps_total r = st \<and> g_steps_completed r = sc
           \<and> g_current_step r = cs \<and> g_steps_current r = ci
           \<and> g_checkpoints_count r = length xs
           \<and> (xs = [] \<longrightarrow> g_last_checkpoint r = None)
           \<and> (\<forall>sid. last_checkpoint_step m = Some sid \<and> checkpoint_files w sid = Absent
                 \<longrightarrow> g_last_checkpoint r = Some (last xs, JStr [], JStr []))"
proof -
  from assms(2) obtain kvs where kvs: "m_phases m = JObj kvs"
    and d: "list_all (\<lambda>kv. is_dict (snd kv)) kvs"
    by (auto simp: dict_of_dicts_def split: json.splits)
  from phase_scan_total [OF d, of PHASE_ORDER "(''pending'', ''pending'', [])"]
  obtain cur overall completed where
    ps: "phase_scan (m_phases m) PHASE_ORDER (''pending'', ''pending'', []) = Inr (cur, overall, completed)"
    unfolding kvs using prod_cases3 by metis
  from last_checkpoint_typed [OF assms(3,4,5)] obtain lc where
    lc: "last_checkpoint read_fault w m = Inr lc" "xs = [] \<longrightarrow> lc = None"
      "\<forall>sid. last_checkpoint_step m = Some sid \<and> checkpoint_files w sid = Absent
                 \<longrightarrow> lc = Some (last xs, JStr [], JStr [])"
    by blast
  show ?thesis
    using lc(2,3)
    by (simp add: get_progress_def assms(1,3,6,7) ps lc(1))
qed

text \<open>
  Claim C7, amended. When \<^verbatim>\<open>features.json\<close> is absent, the feature statistics of
  \<^verbatim>\<open>get_progress()\<close> are zero, and when \<^verbatim>\<open>migration-plan.json\<close> is absent, so are its step
  statistics, with no current step; neither absence raises. For a manifest that loads
  with its phases a dict of dicts and its checkpoints a list of strings, and a metadata
  file of the last checkpoint whose read meets no error other than the file not being
  there and that, if it parses, holds a dict, \<^verbatim>\<open>get_progress()\<close> returns whenever the two
  statistics blocks do, with their counts, so it returns all counts zero when both files
  are absent. Its last checkpoint is \<^verbatim>\<open>None\<close> for an empty checkpoint list, and when the
  metadata file of the last checkpoint is missing, it is the last tag with an empty step
  id and an empty timestamp.
\<close>

theorem get_progress_tolerates_absent_artifacts:
  "(features_file w = Absent \<longrightarrow> feature_stats w = Inr (0, 0))
   \<and> (plan_file w = Absent \<longrightarrow> step_stats w = Inr (0, 0, None, 0))
   \<and> (load_manifest w = Inr m \<and> typed_manifest m
        \<and> (\<forall>sid. last_checkpoint_step m = Some sid \<longrightarrow>
              read_fault sid = None \<and> (\<forall>d. checkpoint_files w sid = Doc d \<longrightarrow> is_dict d))
      \<longrightarrow>
        (\<forall>ft fp st sc cs ci.
           feature_stats w = Inr (ft, fp) \<and> step_stats w = Inr (st, sc, cs, ci) \<longrightarrow>
           (\<exists>r. get_progress self read_fault w = Inr r
              \<and> g_features_total r = ft \<and> g_features_passing r = fp
              \<and> g_steps_total r = st \<and> g_steps_completed r = sc
              \<and> g_current_step r = cs \<and> g_steps_current r = ci
              \<and> (m_checkpoints m = JArr [] \<longrightarrow> g_last_checkpoint r = None)
              \<and> (\<forall>sid. last_checkpoint_step m = Some sid \<and> checkpoint_files w sid = Absent
                    \<longrightarrow> (\<exists>xs. m_checkpoints m = JArr xs
                           \<and> g_last_checkpoint r = Some (last xs, JStr [], JStr [])))))
        \<and> (features_file w = Absent \<and> plan_file w = Absent \<longrightarrow>
             (\<exists>r. get_progress self read_fault w = Inr r
                \<and> g_features_total r = 0 \<and> g_features_passing r = 0
                \<and> g_steps_total r = 0 \<and> g_steps_completed r = 0
                \<and> g_current_step r = None \<and> g_steps_current r = 0)))"
  (is "?f \<and> ?p \<and> (?hyps \<longrightarrow> ?any \<and> ?both)")
proof (intro conjI)
  show ?f by (simp add: feature_stats_absent)
  show ?p by (simp add: step_stats_absent)
  show "?hyps \<longrightarrow> ?any \<and> ?both"
  proof (rule impI)
    assume h: ?hyps
    then have l: "load_manifest w = Inr m" and dd: "dict_of_dicts (m_phases m)"
      by (simp_all add: typed_manifest_def)
    from h have meta: "\<forall>sid. last_checkpoint_step m = Some sid \<longrightarrow>
              read_fault sid = None \<and> (\<forall>d. checkpoint_files w sid = Doc d \<longrightarrow> is_dict d)"
      by blast
    from h obtain xs where xs: "m_checkpoints m = JArr xs" "list_all is_str xs"
      by (auto simp: typed_manifest_def split: json.splits)
    note asm = get_progress_assembled [OF l dd xs meta]
    have a: ?any
    proof (intro allI impI)
      fix ft fp st sc cs ci
      assume "feature_stats w = Inr (ft, fp) \<and> step_stats w = Inr (st, sc, cs, ci)"
      then have s: "feature_stats w = Inr (ft, fp)" "step_stats w = Inr (st, sc, cs, ci)"
        by simp_all
      from asm [OF s, of self] xs(1)
      show "\<exists>r. get_progress self read_fault w = Inr r
              \<and> g_features_total r = ft \<and> g_features_passing r = fp
              \<and> g_steps_total r = st \<and> g_steps_completed r = sc
              \<and> g_current_step r = cs \<and> g_steps_current r = ci
              \<and> (m_checkpoints m = JArr [] \<longrightarrow> g_last_checkpoint r = None)
              \<and> (\<forall>sid. last_checkpoint_step m = Some sid \<and> checkpoint_files w sid = Absent
                    \<longrightarrow> (\<exists>xs. m_checkpoints m = JArr xs
                           \<and> g_last_checkpoint r = Some (last xs, JStr [], JStr [])))"
        by auto
    qed
    have b: ?both
    proof (rule impI)
      assume "features_file w = Absent \<and> plan_file w = Absent"
      then have s: "feature_stats w = Inr (0, 0)" "step_stats w = Inr (0, 0, None, 0)"
        by (simp_all add: feature_stats_absent step_stats_absent)
      from asm [OF s, of self]
      show "\<exists>r. get_progress self read_fault w = Inr r
                \<and> g_features_total r = 0 \<and> g_features_passing r = 0
                \<and> g_steps_total r = 0 \<and> g_steps_completed r = 0
                \<and> g_current_step r = None \<and> g_steps_current r = 0"
        by auto
    qed
    from a b show "?any \<and> ?both" ..
  qed
qed

lemma load_progress_world: "load_manifest progress_world = Inr recorded_manifest"
  by (simp add: progress_world_def recorded_world_def recorded_manifest_def load_manifest_def
      load_manifest_unlocked_def asdict_manifest_def kwarg_def demo_manifest_def demo_world_def)

lemma recorded_manifest_typed: "typed_manifest recorded_manifest"
  by (simp add: typed_manifest_def recorded_manifest_def demo_manifest_def created_phases_def
      phases_doc_def phase_doc_def pending_doc_def dict_of_dicts_def)

lemma recorded_last_step: "last_checkpoint_step recorded_manifest = Some ''s1''"
  by (simp add: last_checkpoint_step_def recorded_manifest_def tag_name_of_def split_def)

lemma progress_world_files:
  "features_file progress_world = Absent" "plan_file progress_world = Absent"
  "checkpoint_files progress_world sid = Absent"
  by (simp_all add: progress_world_def recorded_world_def demo_world_def)

lemma short_name_s1: "name_too_long ''s1'' = None"
  by (simp add: name_too_long_def NAME_MAX_def)

theorem get_progress_tolerates_absent_artifacts_witness:
  "load_manifest progress_world = Inr recorded_manifest
   \<and> typed_manifest recorded_manifest
   \<and> features_file progress_world = Absent \<and> plan_file progress_world = Absent
   \<and> feature_stats progress_world = Inr (0, 0)
   \<and> step_stats progress_world = Inr (0, 0, None, 0)
   \<and> last_checkpoint_step recorded_manifest = Some ''s1''
   \<and> name_too_long ''s1'' = None
   \<and> checkpoint_files progress_world ''s1'' = Absent
   \<and> (\<exists>r. get_progress demo_pipeline name_too_long progress_world = Inr r
         \<and> g_features_total r = 0 \<and> g_features_passing r = 0
         \<and> g_steps_total r = 0 \<and> g_steps_completed r = 0
         \<and> g_current_step r = None \<and> g_steps_current r = 0
         \<and> g_last_checkpoint r = Some (JStr (tag_name_of ''s1''), JStr [], JStr []))"
proof -
  note t = get_progress_tolerates_absent_artifacts
    [where w = progress_world and m = recorded_manifest and self = demo_pipeline
       and read_fault = name_too_long]
  from t have f: "feature_stats progress_world = Inr (0, 0)"
    and p: "step_stats progress_world = Inr (0, 0, None, 0)"
    by (simp_all add: progress_world_files)
  have hyps: "load_manifest progress_world = Inr recorded_manifest \<and> typed_manifest recorded_manifest
     \<and> (\<forall>sid. last_checkpoint_step recorded_manifest = Some sid \<longrightarrow>
           name_too_long sid = None
           \<and> (\<forall>d. checkpoint_files progress_world sid = Doc d \<longrightarrow> is_dict d))"
    by (simp add: load_progress_world recorded_manifest_typed progress_world_files
        recorded_last_step short_name_s1)
  from t hyps f p obtain r where r: "get_progress demo_pipeline name_too_long progress_world = Inr r"
    "g_features_total r = 0" "g_features_passing r = 0"
    "g_steps_total r = 0" "g_steps_completed r = 0"
    "g_current_step r = None" "g_steps_current r = 0"
    "\<forall>sid. last_checkpoint_step recorded_manifest = Some sid
        \<and> checkpoint_files progress_world sid = Absent
        \<longrightarrow> (\<exists>xs. m_checkpoints recorded_manifest = JArr xs
              \<and> g_last_checkpoint r = Some (last xs, JStr [], JStr []))"
    by blast
  have c: "m_checkpoints recorded_manifest = JArr [JStr (tag_name_of ''s1'')]"
    by (simp add: recorded_manifest_def)
  from r(8) have "g_last_checkpoint r = Some (JStr (tag_name_of ''s1''), JStr [], JStr [])"
    by (simp add: recorded_last_step progress_world_files c)
  with r(1-7) f p show ?thesis
    by (simp add: load_progress_world recorded_manifest_typed progress_world_files
        recorded_last_step short_name_s1)
qed

lemma split_acc_upto_sep:
  "sep \<notin> set s \<Longrightarrow> split_acc sep cur (s @ sep # rest) = (rev cur @ s) # split_acc sep [] rest"
  by (induction s arbitrary: cur) auto

lemma split_acc_no_sep: "sep \<notin> set s \<Longrightarrow> split_acc sep cur s = [rev cur @ s]"
  by (induction s arbitrary: cur) auto

lemma split_tag_name:
  assumes "CHR ''/'' \<notin> set step_id"
  shows "split CHR ''/'' (tag_name_of step_id) = [''loki-migrate'', step_id, ''pre'']"
proof -
  have "split CHR ''/'' (tag_name_of step_id)
      = split_acc CHR ''/'' [] (''loki-migrate'' @ CHR ''/'' # (step_id @ CHR ''/'' # ''pre''))"
    by (simp add: split_def tag_name_of_def)
  also have "\<dots> = ''loki-migrate'' # split_acc CHR ''/'' [] (step_id @ CHR ''/'' # ''pre'')"
    by (subst split_acc_upto_sep) simp_all
  also have "split_acc CHR ''/'' [] (step_id @ CHR ''/'' # ''pre'')
      = step_id # split_acc CHR ''/'' [] ''pre''"
    using assms by (subst split_acc_upto_sep) simp_all
  also have "split_acc CHR ''/'' [] ''pre'' = [''pre'']"
    by (subst split_acc_no_sep) simp_all
  finally show ?thesis .
qed

lemma long_step_id_facts:
  "valid_step_id long_step_id" "CHR ''/'' \<notin> set long_step_id"
  "name_too_long long_step_id = Some OSError"
  by (simp_all add: long_step_id_def valid_step_id_def safe_char_def list_all_iff
      name_too_long_def NAME_MAX_def)

lemma load_bare_world: "load_manifest_unlocked bare_world = Inr (demo_manifest created_phases)"
  by (simp add: bare_world_def demo_world_def load_manifest_unlocked_def asdict_manifest_def
      kwarg_def demo_manifest_def)

lemma bare_world_repository:
  "git_tags bare_world = Map.empty" "git_head bare_world = 0"
  "checkpoint_files bare_world = (\<lambda>step_id. Absent)"
  "features_file bare_world = Absent" "plan_file bare_world = Absent"
  by (simp_all add: bare_world_def demo_world_def)

lemma long_checkpoint_fails:
  "create_checkpoint failing_meta_env ''2026-02-24T09:00:00'' bare_world long_step_id
     = (Inl OSError, long_world)"
  by (simp add: create_checkpoint_def long_step_id_facts git_tag_def failing_meta_env_def
      bare_world_repository record_checkpoint_def load_manifest_ignores_git load_bare_world
      save_manifest_unlocked_def long_world_def long_manifest_def demo_manifest_def Let_def)

lemma long_world_files:
  "features_file long_world = Absent" "plan_file long_world = Absent"
  "checkpoint_files long_world sid = Absent"
  by (simp_all add: long_world_def bare_world_repository)

lemma load_long_world: "load_manifest long_world = Inr long_manifest"
  by (simp add: long_world_def long_manifest_def load_manifest_def
      load_manifest_unlocked_def asdict_manifest_def kwarg_def demo_manifest_def)

lemma long_last_step: "last_checkpoint_step long_manifest = Some long_step_id"
  by (simp add: last_checkpoint_step_def long_manifest_def split_tag_name long_step_id_facts)

lemma long_phase_scan:
  "phase_scan (m_phases long_manifest) PHASE_ORDER (''pending'', ''pending'', [])
     = Inr (''understand'', ''in_progress'', [])"
  by (simp add: long_manifest_def demo_manifest_def created_phases_def phases_doc_def
      phase_doc_def PHASE_ORDER_def)

lemma long_last_checkpoint: "last_checkpoint name_too_long long_world long_manifest = Inl OSError"
  by (simp add: last_checkpoint_def long_manifest_def split_tag_name long_step_id_facts
      read_checkpoint_meta_def)

lemma long_progress_raises:
  "get_progress demo_pipeline name_too_long long_world = Inl OSError"
  by (simp add: get_progress_def load_long_world long_phase_scan long_last_checkpoint
      feature_stats_absent step_stats_absent long_world_files)

lemma load_null_checkpoints:
  "load_manifest null_checkpoints_world = Inr null_checkpoints_manifest"
  by (simp add: null_checkpoints_world_def null_checkpoints_manifest_def blank_world_def
      load_manifest_def load_manifest_unlocked_def kwarg_def)

lemma null_checkpoints_files:
  "features_file null_checkpoints_world = Absent" "plan_file null_checkpoints_world = Absent"
  by (simp_all add: null_checkpoints_world_def blank_world_def)

lemma null_phase_scan:
  "phase_scan (m_phases null_checkpoints_manifest) PHASE_ORDER (''pending'', ''pending'', [])
     = Inr (''pending'', ''pending'', [])"
  by (simp add: null_checkpoints_manifest_def PHASE_ORDER_def)

lemma null_progress_raises:
  "get_progress demo_pipeline no_read_fault null_checkpoints_world
     = Inl (TypeError (''object of type '' @ quoted ''NoneType'' @ '' has no len()''))"
proof -
  have lc: "last_checkpoint no_read_fault null_checkpoints_world null_checkpoints_manifest = Inr None"
    by (simp add: last_checkpoint_def null_checkpoints_manifest_def)
  have len: "py_len (m_checkpoints null_checkpoints_manifest)
      = Inl (TypeError (''object of type '' @ quoted ''NoneType'' @ '' has no len()''))"
    by (simp add: null_checkpoints_manifest_def)
  show ?thesis
    by (simp add: get_progress_def load_null_checkpoints null_phase_scan lc len
        feature_stats_absent step_stats_absent null_checkpoints_files)
qed

text \<open>
  Claim C7 as stated covers every manifest state and every missing metadata file. With
  \<^verbatim>\<open>features.json\<close> and \<^verbatim>\<open>migration-plan.json\<close> absent, \<^verbatim>\<open>get_progress()\<close> raises \<open>TypeError\<close>
  on the manifest \<^verbatim>\<open>{"checkpoints": null}\<close>, which loads: \<^verbatim>\<open>len(manifest.checkpoints)\<close> is
  outside every \<^verbatim>\<open>try\<close>. And after \<^verbatim>\<open>create_checkpoint\<close> of a valid step id of 251 letters
  has recorded the tag and failed to write \<^verbatim>\<open>checkpoints/<step_id>.json\<close>, a name of 256
  bytes, the read of that missing file raises \<open>OSError\<close>, not \<open>FileNotFoundError\<close>, and
  \<^verbatim>\<open>get_progress()\<close> raises it instead of returning the partial record.
\<close>

theorem get_progress_raises_with_absent_artifacts:
  "load_manifest null_checkpoints_world = Inr null_checkpoints_manifest
   \<and> features_file null_checkpoints_world = Absent
   \<and> plan_file null_checkpoints_world = Absent
   \<and> get_progress demo_pipeline no_read_fault null_checkpoints_world
       = Inl (TypeError (''object of type '' @ quoted ''NoneType'' @ '' has no len()''))
   \<and> create_checkpoint failing_meta_env ''2026-02-24T09:00:00'' bare_world long_step_id
       = (Inl OSError, long_world)
   \<and> load_manifest long_world = Inr long_manifest
   \<and> typed_manifest long_manifest
   \<and> features_file long_world = Absent \<and> plan_file long_world = Absent
   \<and> last_checkpoint_step long_manifest = Some long_step_id
   \<and> checkpoint_files long_world long_step_id = Absent
   \<and> name_too_long long_step_id = Some OSError
   \<and> get_progress demo_pipeline name_too_long long_world = Inl OSError"
proof -
  have "typed_manifest long_manifest"
    by (simp add: typed_manifest_def long_manifest_def demo_manifest_def created_phases_def
      phases_doc_def phase_doc_def pending_doc_def dict_of_dicts_def)
  then show ?thesis
    by (simp add: load_null_checkpoints null_checkpoints_files null_progress_raises
        long_checkpoint_fails load_long_world long_world_files long_last_step
        long_step_id_facts long_progress_raises)
qed

text \<open>
  The other conditions of the amended claim are needed as well: \<^verbatim>\<open>get_progress()\<close> raises
  when the metadata file of the last checkpoint holds a list, when a phase entry of the
  manifest is a string, when the last checkpoint is a number, and when there is no
  manifest.
\<close>

lemma array_meta_raises:
  "get_progress demo_pipeline no_read_fault array_meta_world = Inl AttributeError"
proof -
  have l: "load_manifest array_meta_world = Inr recorded_manifest"
    using load_progress_world by (simp add: array_meta_world_def load_manifest_def
        load_manifest_unlocked_def)
  have ps: "phase_scan (m_phases recorded_manifest) PHASE_ORDER (''pending'', ''pending'', [])
     = Inr (''understand'', ''in_progress'', [])"
    by (simp add: recorded_manifest_def demo_manifest_def created_phases_def phases_doc_def
      phase_doc_def PHASE_ORDER_def)
  have f: "features_file array_meta_world = Absent" "plan_file array_meta_world = Absent"
    by (simp_all add: array_meta_world_def progress_world_files)
  have lc: "last_checkpoint no_read_fault array_meta_world recorded_manifest = Inl AttributeError"
    by (simp add: last_checkpoint_def recorded_manifest_def tag_name_of_def split_def
        read_checkpoint_meta_def no_read_fault_def array_meta_world_def)
  show ?thesis
    by (simp add: get_progress_def l ps lc feature_stats_absent step_stats_absent f)
qed

lemma string_phase_raises:
  "get_progress demo_pipeline no_read_fault string_phase_world = Inl AttributeError"
  by (simp add: get_progress_def string_phase_world_def blank_world_def load_manifest_def
      load_manifest_unlocked_def kwarg_def PHASE_ORDER_def)

lemma no_manifest_raises:
  "get_progress demo_pipeline no_read_fault blank_world = Inl FileNotFoundError"
  by (simp add: get_progress_def blank_world_def load_manifest_def load_manifest_unlocked_def)

lemma number_checkpoint_raises:
  "get_progress demo_pipeline no_read_fault number_checkpoint_world = Inl AttributeError"
  by (simp add: get_progress_def number_checkpoint_world_def blank_world_def load_manifest_def
      load_manifest_unlocked_def kwarg_def PHASE_ORDER_def feature_stats_absent
      step_stats_absent last_checkpoint_def)

end
